theory Spec2Isabelle
  imports Main "HOL-Library.Word" "HOL-Library.AList"
begin

unbundle bit_operations_syntax

section \<open>Bytes and the primitive writers\<close>

text \<open>
  The signer serialises into two kinds of sink, a \<^verbatim>\<open>bytearray\<close> and a
  \<^verbatim>\<open>HashWriter\<close>. Both only ever have bytes appended to them, so both are the
  list of bytes written so far; the digest of a hash writer is the hash function
  applied to that list. The module \<^verbatim>\<open>apps/wallet/sign_tx/writers.py\<close> is not part
  of the sources at hand, so the primitive writers follow the specification
  (section 4.1); protobuf unsigned integers are \<^typ>\<open>nat\<close>.
\<close>

type_synonym byte = "8 word"
type_synonym bytes = "byte list"

definition TX_HASH_SIZE :: nat where
  "TX_HASH_SIZE = 32"

text \<open>Modelled from the spec: the little-endian fixed-width integer encodings
  (\<^verbatim>\<open>u8\<close>, \<^verbatim>\<open>u16le\<close>, \<^verbatim>\<open>u32le\<close>, \<^verbatim>\<open>u64le\<close>) of writers.py, which is missing.\<close>

definition le_bytes :: "nat \<Rightarrow> nat \<Rightarrow> bytes" where
  "le_bytes k n = map (\<lambda>j. of_nat (n div 256 ^ j)) [0..<k]"

definition write_uint8 :: "bytes \<Rightarrow> nat \<Rightarrow> bytes" where
  "write_uint8 w n = w @ le_bytes 1 n"

definition write_uint16 :: "bytes \<Rightarrow> nat \<Rightarrow> bytes" where
  "write_uint16 w n = w @ le_bytes 2 n"

definition write_uint32 :: "bytes \<Rightarrow> nat \<Rightarrow> bytes" where
  "write_uint32 w n = w @ le_bytes 4 n"

definition write_uint64 :: "bytes \<Rightarrow> nat \<Rightarrow> bytes" where
  "write_uint64 w n = w @ le_bytes 8 n"

text \<open>Modelled from the spec: the variable-length integer (Bitcoin compact size) of
  writers.py, which is missing.\<close>

definition varint :: "nat \<Rightarrow> bytes" where
  "varint n =
     (if n < 253 then le_bytes 1 n
      else if n < 65536 then 253 # le_bytes 2 n
      else if n < 4294967296 then 254 # le_bytes 4 n
      else 255 # le_bytes 8 n)"

definition write_varint :: "bytes \<Rightarrow> nat \<Rightarrow> bytes" where
  "write_varint w n = w @ varint n"

text \<open>Modelled from the spec: the fixed-length byte run, the reversed byte run, the
  unchecked byte run and the length-prefixed byte string of writers.py, which is
  missing.\<close>

definition write_bytes_unchecked :: "bytes \<Rightarrow> bytes \<Rightarrow> bytes" where
  "write_bytes_unchecked w b = w @ b"

definition write_bytes_fixed :: "bytes \<Rightarrow> bytes \<Rightarrow> nat \<Rightarrow> bytes" where
  "write_bytes_fixed w b n = w @ b"

definition write_bytes_reversed :: "bytes \<Rightarrow> bytes \<Rightarrow> nat \<Rightarrow> bytes" where
  "write_bytes_reversed w b n = w @ rev b"

definition write_bytes_prefixed :: "bytes \<Rightarrow> bytes \<Rightarrow> bytes" where
  "write_bytes_prefixed w b = write_bytes_unchecked (write_varint w (length b)) b"

section \<open>Messages\<close>

text \<open>
  The message classes are generated from the protobuf definitions and are not among
  the sources; the records list the fields the signer reads. An optional field is an
  \<^typ>\<open>'a option\<close>. A field name carries the prefix of its record.
\<close>

datatype InputScriptType =
  SPENDADDRESS | SPENDMULTISIG | EXTERNAL | SPENDWITNESS | SPENDP2SHWITNESS

datatype OutputScriptType =
  PAYTOADDRESS | PAYTOSCRIPTHASH | PAYTOMULTISIG | PAYTOOPRETURN | PAYTOWITNESS | PAYTOP2SHWITNESS

datatype FailureType =
  DataError | ProcessError | NotEnoughFunds | ActionCancelled | FirmwareError

text \<open>
  Exceptions as values. \<^verbatim>\<open>SigningError\<close> carries the arguments it is raised
  with: the failure type (two raise sites give only a message) and the message.
  The remaining constructors are the Python exceptions the modelled code can run into.
\<close>

datatype exn =
  SigningError "FailureType option" string
  | Bip143Error FailureType string
  | EnsureFailed
  | IndexError
  | KeyError
  | TypeError
  | AttributeError
  | ValueError
  | UnboundLocalError
  | HostSilent

record MultisigRedeemScriptType =
  ms_pubkeys :: "bytes list"
  ms_signatures :: "bytes list"
  ms_m :: nat

record TxInputType =
  txi_address_n :: "nat list"
  txi_prev_hash :: bytes
  txi_prev_index :: nat
  txi_script_sig :: bytes
  txi_sequence :: nat
  txi_script_type :: InputScriptType
  txi_multisig :: "MultisigRedeemScriptType option"
  txi_amount :: "nat option"

record TxOutputType =
  txo_address :: "string option"
  txo_address_n :: "nat list"
  txo_amount :: nat
  txo_script_type :: OutputScriptType
  txo_multisig :: "MultisigRedeemScriptType option"
  txo_op_return_data :: "bytes option"
  txo_decred_script_version :: "nat option"

record TxOutputBinType =
  bin_amount :: nat
  bin_script_pubkey :: bytes
  bin_decred_script_version :: "nat option"

text \<open>\<^verbatim>\<open>SignTx\<close> after \<^verbatim>\<open>helpers.sanitize_sign_tx\<close>, which fills in the defaults of
  the integer fields; \<^verbatim>\<open>branch_id\<close> stays optional (\<^verbatim>\<open>init_hash143\<close> supplies
  its default).\<close>

record SignTx =
  tx_version :: nat
  tx_inputs_count :: nat
  tx_outputs_count :: nat
  tx_lock_time :: nat
  tx_expiry :: nat
  tx_timestamp :: nat
  tx_version_group_id :: nat
  tx_branch_id :: "nat option"

text \<open>The metadata of a previous transaction (the reply to a \<^verbatim>\<open>TXMETA\<close> request).\<close>

record TransactionType =
  ptx_version :: nat
  ptx_inputs_cnt :: nat
  ptx_outputs_cnt :: nat
  ptx_lock_time :: nat
  ptx_extra_data_len :: nat
  ptx_version_group_id :: nat
  ptx_timestamp :: nat
  ptx_expiry :: nat

record TxRequestSerializedType =
  ser_signature_index :: "nat option"
  ser_signature :: "bytes option"
  ser_serialized_tx :: "bytes option"

datatype RequestType = TXINPUT | TXOUTPUT | TXMETA | TXEXTRADATA | TXFINISHED

record TxRequest =
  req_request_type :: RequestType
  req_request_index :: "nat option"
  req_tx_hash :: "bytes option"
  req_serialized :: "TxRequestSerializedType option"

text \<open>The coin parameters the signer consults (the coin table itself is not among the
  sources).\<close>

record CoinInfo =
  coin_curve_name :: string
  coin_sign_hash_double :: bool
  coin_maxfee_kb :: nat
  coin_negative_fee :: bool
  coin_segwit :: bool
  coin_force_bip143 :: bool
  coin_overwintered :: bool
  coin_timestamp :: bool
  coin_extra_data :: bool
  coin_fork_id :: "nat option"
  coin_bech32_prefix :: "string option"
  coin_cashaddr_prefix :: "string option"
  coin_address_type :: nat
  coin_address_type_p2sh :: nat

section \<open>External collaborators\<close>

text \<open>
  Hash and signature primitives, the script builders, the address codecs, the keychain,
  the weight calculator, the composite serialisers of writers.py, the Zcash hashers and
  the constant tables of helpers.py are not among the sources. The signer is modelled
  over all of them: they are the fields of an environment that every function takes.
  \<^verbatim>\<open>utils.BITCOIN_ONLY\<close> is a constant of the firmware build and is a field too.
  An HD node is the byte string of its private key; a Zcash hasher is the list of its
  byte streams.
\<close>

type_synonym HDNode = bytes

text \<open>
  The fee threshold of \<^verbatim>\<open>phase1\<close> is computed in the floating-point arithmetic of the
  interpreter: \<^verbatim>\<open>/\<close> on two integers gives a float, the two quotients are multiplied as
  floats, and the integer fee is compared with the product. The precision and the rounding
  are those of the platform, so the three operations are fields of the environment; a
  float is a mantissa and a binary exponent.
\<close>

datatype pyfloat = PyFloat int int

record env =
  BITCOIN_ONLY :: bool
  OVERWINTERED :: nat
  sha256 :: "bytes \<Rightarrow> bytes"
  blake256 :: "bytes \<Rightarrow> bytes"
  secp256k1_sign :: "bytes \<Rightarrow> bytes \<Rightarrow> bytes"
  der_encode_seq :: "bytes list \<Rightarrow> bytes"
  keychain_derive :: "nat list \<Rightarrow> string \<Rightarrow> HDNode"
  public_key :: "HDNode \<Rightarrow> bytes"
  private_key :: "HDNode \<Rightarrow> bytes"
  output_script_p2pkh :: "bytes \<Rightarrow> bytes"
  output_script_p2sh :: "bytes \<Rightarrow> bytes"
  output_script_multisig :: "bytes list \<Rightarrow> nat \<Rightarrow> bytes"
  output_script_native_p2wpkh_or_p2wsh :: "bytes \<Rightarrow> bytes"
  output_script_paytoopreturn :: "bytes option \<Rightarrow> bytes"
  input_script_p2pkh_or_p2sh :: "bytes \<Rightarrow> bytes option \<Rightarrow> nat \<Rightarrow> bytes"
  input_script_p2wsh_in_p2sh :: "bytes \<Rightarrow> bytes"
  input_script_p2wpkh_in_p2sh :: "bytes \<Rightarrow> bytes"
  input_script_native_p2wpkh_or_p2wsh :: bytes
  input_script_multisig ::
    "MultisigRedeemScriptType \<Rightarrow> bytes option \<Rightarrow> nat \<Rightarrow> nat \<Rightarrow> CoinInfo \<Rightarrow> bytes"
  witness_p2wsh :: "MultisigRedeemScriptType \<Rightarrow> bytes \<Rightarrow> nat \<Rightarrow> nat \<Rightarrow> bytes"
  witness_p2wpkh :: "bytes \<Rightarrow> bytes \<Rightarrow> nat \<Rightarrow> bytes"
  multisig_get_pubkeys :: "MultisigRedeemScriptType \<Rightarrow> bytes list"
  multisig_pubkey_index :: "MultisigRedeemScriptType \<Rightarrow> bytes \<Rightarrow> exn + nat"
  multisig_fingerprint :: "MultisigRedeemScriptType \<Rightarrow> bytes"
  validate_full_path :: "nat list \<Rightarrow> CoinInfo \<Rightarrow> InputScriptType \<Rightarrow> bool"
  ecdsa_hash_pubkey :: "bytes \<Rightarrow> CoinInfo \<Rightarrow> bytes"
  get_address ::
    "InputScriptType \<Rightarrow> CoinInfo \<Rightarrow> HDNode \<Rightarrow> MultisigRedeemScriptType option \<Rightarrow> exn + string"
  decode_bech32_address :: "string \<Rightarrow> string \<Rightarrow> exn + bytes"
  cashaddr_decode :: "string \<Rightarrow> string \<Rightarrow> exn + nat \<times> bytes"
  cashaddr_ADDRESS_TYPE_P2KH :: nat
  cashaddr_ADDRESS_TYPE_P2SH :: nat
  base58_decode_check :: "string \<Rightarrow> CoinInfo \<Rightarrow> bytes option"
  address_type_check :: "nat \<Rightarrow> bytes \<Rightarrow> bool"
  address_type_strip :: "nat \<Rightarrow> bytes \<Rightarrow> bytes"
  tx_input_bytes :: "TxInputType \<Rightarrow> bytes"
  tx_input_check_bytes :: "TxInputType \<Rightarrow> bytes"
  tx_input_decred_bytes :: "TxInputType \<Rightarrow> bytes"
  tx_input_decred_witness_bytes :: "TxInputType \<Rightarrow> bytes"
  weight_init :: "nat \<Rightarrow> nat \<Rightarrow> nat"
  weight_add_input :: "nat \<Rightarrow> TxInputType \<Rightarrow> nat"
  weight_add_output :: "nat \<Rightarrow> bytes \<Rightarrow> nat"
  weight_get_total :: "nat \<Rightarrow> nat"
  int_truediv :: "int \<Rightarrow> int \<Rightarrow> pyfloat"
  float_mul :: "pyfloat \<Rightarrow> pyfloat \<Rightarrow> pyfloat"
  int_gt_float :: "int \<Rightarrow> pyfloat \<Rightarrow> bool"
  CHANGE_OUTPUT_SCRIPT_TYPES :: "OutputScriptType list"
  CHANGE_OUTPUT_TO_INPUT_SCRIPT_TYPES :: "OutputScriptType \<Rightarrow> InputScriptType option"
  zip_init :: "nat \<Rightarrow> nat \<Rightarrow> bytes list"
  zip_add_prevouts :: "bytes list \<Rightarrow> TxInputType \<Rightarrow> bytes list"
  zip_add_sequence :: "bytes list \<Rightarrow> TxInputType \<Rightarrow> bytes list"
  zip_add_output :: "bytes list \<Rightarrow> TxOutputBinType \<Rightarrow> bytes list"
  zip_preimage_hash ::
    "bytes list \<Rightarrow> CoinInfo \<Rightarrow> SignTx \<Rightarrow> TxInputType \<Rightarrow> bytes \<Rightarrow> nat \<Rightarrow> exn + bytes"

text \<open>Modelled from the spec: the composite serialisers of writers.py, which is missing,
  append the serialisation of a record to the sink (the serializer API has the single
  capability of appending bytes). The layout of an input is left to the environment;
  an output is its amount as \<^verbatim>\<open>u64\<close>, the Decred script version as \<^verbatim>\<open>u16\<close>
  when there is one, and the length-prefixed script.\<close>

definition write_tx_input :: "env \<Rightarrow> bytes \<Rightarrow> TxInputType \<Rightarrow> bytes" where
  "write_tx_input E w i = w @ tx_input_bytes E i"

definition write_tx_input_check :: "env \<Rightarrow> bytes \<Rightarrow> TxInputType \<Rightarrow> bytes" where
  "write_tx_input_check E w i = w @ tx_input_check_bytes E i"

definition write_tx_input_decred :: "env \<Rightarrow> bytes \<Rightarrow> TxInputType \<Rightarrow> bytes" where
  "write_tx_input_decred E w i = w @ tx_input_decred_bytes E i"

definition write_tx_input_decred_witness :: "env \<Rightarrow> bytes \<Rightarrow> TxInputType \<Rightarrow> bytes" where
  "write_tx_input_decred_witness E w i = w @ tx_input_decred_witness_bytes E i"

definition write_tx_output :: "bytes \<Rightarrow> TxOutputBinType \<Rightarrow> bytes" where
  "write_tx_output w o_bin =
     (let w = write_uint64 w (bin_amount o_bin);
          w = (case bin_decred_script_version o_bin of
                 None \<Rightarrow> w
               | Some v \<Rightarrow> write_uint16 w v)
      in write_bytes_prefixed w (bin_script_pubkey o_bin))"

text \<open>Modelled from the spec: \<^verbatim>\<open>get_tx_hash(sink, double, reverse)\<close> of writers.py, which
  is missing, finalizes a digest, optionally applies a second round (SHA-256) and
  optionally byte-reverses. A hash writer does not record which hash it wraps, so the
  call site passes the hash its writer was made with.\<close>

datatype hash_alg = SHA256 | BLAKE256

definition get_digest :: "env \<Rightarrow> hash_alg \<Rightarrow> bytes \<Rightarrow> bytes" where
  "get_digest E alg w = (case alg of SHA256 \<Rightarrow> sha256 E w | BLAKE256 \<Rightarrow> blake256 E w)"

definition get_tx_hash :: "env \<Rightarrow> hash_alg \<Rightarrow> bytes \<Rightarrow> bool \<Rightarrow> bool \<Rightarrow> bytes" where
  "get_tx_hash E alg w double reverse =
     (let d = get_digest E alg w;
          d = (if double then sha256 E d else d);
          d = (if reverse then rev d else d)
      in d)"

section \<open>The wallet path\<close>

definition BIP32_WALLET_DEPTH :: nat where
  "BIP32_WALLET_DEPTH = 2"

definition BIP32_CHANGE_CHAIN :: nat where
  "BIP32_CHANGE_CHAIN = 1"

definition BIP32_MAX_LAST_ELEMENT :: nat where
  "BIP32_MAX_LAST_ELEMENT = 1000000"

text \<open>The Python slice \<^verbatim>\<open>xs[:-k]\<close> for \<open>k > 0\<close>: all but the last \<open>k\<close> elements,
  and the empty list when there are not that many.\<close>

definition drop_last :: "nat \<Rightarrow> 'a list \<Rightarrow> 'a list" where
  "drop_last k xs = take (length xs - k) xs"

text \<open>
  \<^verbatim>\<open>wallet_path\<close> is a list or \<^verbatim>\<open>None\<close>; \<^verbatim>\<open>None\<close> is \<^term>\<open>None\<close> and a list
  \<open>p\<close> is \<^term>\<open>Some p\<close>. \<^verbatim>\<open>not xs\<close> on a list is \<^term>\<open>xs = []\<close>.
\<close>

definition input_extract_wallet_path :: "TxInputType \<Rightarrow> nat list option \<Rightarrow> nat list option" where
  "input_extract_wallet_path txi wpath =
     (case wpath of
        None \<Rightarrow> None
      | Some wp \<Rightarrow>
          (let address_n = drop_last BIP32_WALLET_DEPTH (txi_address_n txi) in
           if address_n = [] then None
           else if wp = [] then Some address_n
           else if wp = address_n then Some address_n
           else None))"

definition input_check_wallet_path :: "TxInputType \<Rightarrow> nat list option \<Rightarrow> exn + unit" where
  "input_check_wallet_path txi wpath =
     (case wpath of
        None \<Rightarrow> Inr ()
      | Some wp \<Rightarrow>
          (let address_n = drop_last BIP32_WALLET_DEPTH (txi_address_n txi) in
           if wp \<noteq> address_n
           then Inl (SigningError (Some ProcessError) ''Transaction has changed during signing'')
           else Inr ()))"

text \<open>Phase 1 starts from the empty list and passes every input, in order, through
  \<^const>\<open>input_extract_wallet_path\<close> (the first statement of
  \<^verbatim>\<open>phase1_process_input\<close>).\<close>

definition wallet_path_after :: "TxInputType list \<Rightarrow> nat list option" where
  "wallet_path_after txis = foldl (\<lambda>wp txi. input_extract_wallet_path txi wp) (Some []) txis"

section \<open>The BIP-143 hasher (segwit\_bip143.py)\<close>

record Bip143 =
  h_prevouts :: bytes
  h_sequence :: bytes
  h_outputs :: bytes

definition Bip143_init :: Bip143 where
  "Bip143_init = \<lparr>h_prevouts = [], h_sequence = [], h_outputs = []\<rparr>"


definition Bip143_add_output :: "Bip143 \<Rightarrow> TxOutputBinType \<Rightarrow> Bip143" where
  "Bip143_add_output b txo_bin = b\<lparr>h_outputs := write_tx_output (h_outputs b) txo_bin\<rparr>"

definition get_prevouts_hash :: "env \<Rightarrow> Bip143 \<Rightarrow> CoinInfo \<Rightarrow> bytes" where
  "get_prevouts_hash E b c = get_tx_hash E SHA256 (h_prevouts b) (coin_sign_hash_double c) False"

definition get_sequence_hash :: "env \<Rightarrow> Bip143 \<Rightarrow> CoinInfo \<Rightarrow> bytes" where
  "get_sequence_hash E b c = get_tx_hash E SHA256 (h_sequence b) (coin_sign_hash_double c) False"

definition get_outputs_hash :: "env \<Rightarrow> Bip143 \<Rightarrow> CoinInfo \<Rightarrow> bytes" where
  "get_outputs_hash E b c = get_tx_hash E SHA256 (h_outputs b) (coin_sign_hash_double c) False"

text \<open>A message object is true in a condition when it is present.\<close>

definition derive_script_code :: "env \<Rightarrow> TxInputType \<Rightarrow> bytes \<Rightarrow> exn + bytes" where
  "derive_script_code E txi pubkeyhash =
     (case txi_multisig txi of
        Some ms \<Rightarrow> Inr (output_script_multisig E (multisig_get_pubkeys E ms) (ms_m ms))
      | None \<Rightarrow>
          (let p2pkh = (txi_script_type txi = SPENDWITNESS
                        \<or> txi_script_type txi = SPENDP2SHWITNESS
                        \<or> txi_script_type txi = SPENDADDRESS)
           in if p2pkh then Inr (output_script_p2pkh E pubkeyhash)
              else Inl (Bip143Error DataError
                          ''Unknown input script type for bip143 script code'')))"

text \<open>
  \<^verbatim>\<open>preimage_hash\<close> writes the fields into a fresh SHA-256 writer one after the other.
  \<open>Bip143_preimage\<close> is the content of that writer when the method reaches its
  \<^verbatim>\<open>return\<close>; \<^verbatim>\<open>ensure\<close> raises when its argument is false, and writing an absent
  amount is a type error.
\<close>

definition Bip143_preimage ::
  "env \<Rightarrow> Bip143 \<Rightarrow> CoinInfo \<Rightarrow> SignTx \<Rightarrow> TxInputType \<Rightarrow> bytes \<Rightarrow> nat \<Rightarrow> exn + bytes" where
  "Bip143_preimage E b c t txi pubkeyhash sighash =
     (let h_preimage = [] in
      if \<not> (\<not> coin_overwintered c) then Inl EnsureFailed
      else
        let h_preimage = write_uint32 h_preimage (tx_version t);
            h_preimage = write_bytes_fixed h_preimage (get_prevouts_hash E b c) TX_HASH_SIZE;
            h_preimage = write_bytes_fixed h_preimage (get_sequence_hash E b c) TX_HASH_SIZE;
            h_preimage = write_bytes_reversed h_preimage (txi_prev_hash txi) TX_HASH_SIZE;
            h_preimage = write_uint32 h_preimage (txi_prev_index txi)
        in case derive_script_code E txi pubkeyhash of
             Inl e \<Rightarrow> Inl e
           | Inr script_code \<Rightarrow>
               (let h_preimage = write_bytes_prefixed h_preimage script_code in
                case txi_amount txi of
                  None \<Rightarrow> Inl TypeError
                | Some amount \<Rightarrow>
                    (let h_preimage = write_uint64 h_preimage amount;
                         h_preimage = write_uint32 h_preimage (txi_sequence txi);
                         h_preimage = write_bytes_fixed h_preimage (get_outputs_hash E b c) TX_HASH_SIZE;
                         h_preimage = write_uint32 h_preimage (tx_lock_time t);
                         h_preimage = write_uint32 h_preimage sighash
                     in Inr h_preimage)))"

definition Bip143_preimage_hash ::
  "env \<Rightarrow> Bip143 \<Rightarrow> CoinInfo \<Rightarrow> SignTx \<Rightarrow> TxInputType \<Rightarrow> bytes \<Rightarrow> nat \<Rightarrow> exn + bytes" where
  "Bip143_preimage_hash E b c t txi pubkeyhash sighash =
     (case Bip143_preimage E b c t txi pubkeyhash sighash of
        Inl e \<Rightarrow> Inl e
      | Inr h_preimage \<Rightarrow> Inr (get_tx_hash E SHA256 h_preimage (coin_sign_hash_double c) False))"


section \<open>The Decred prefix hasher (decred.py)\<close>

definition DECRED_SERIALIZE_FULL :: nat where
  "DECRED_SERIALIZE_FULL = push_bit 16 0"

definition DECRED_SERIALIZE_NO_WITNESS :: nat where
  "DECRED_SERIALIZE_NO_WITNESS = push_bit 16 1"

definition DECRED_SERIALIZE_WITNESS_SIGNING :: nat where
  "DECRED_SERIALIZE_WITNESS_SIGNING = push_bit 16 3"

definition DECRED_SIGHASHALL :: nat where
  "DECRED_SIGHASHALL = 1"

record DecredPrefixHasher =
  h_prefix :: bytes

definition DecredPrefixHasher_init :: "SignTx \<Rightarrow> DecredPrefixHasher" where
  "DecredPrefixHasher_init t =
     (let h = [];
          h = write_uint32 h (tx_version t OR DECRED_SERIALIZE_NO_WITNESS);
          h = write_varint h (tx_inputs_count t)
      in \<lparr>h_prefix = h\<rparr>)"

definition Decred_add_prevouts :: "env \<Rightarrow> DecredPrefixHasher \<Rightarrow> TxInputType \<Rightarrow> DecredPrefixHasher" where
  "Decred_add_prevouts E d txi = d\<lparr>h_prefix := write_tx_input_decred E (h_prefix d) txi\<rparr>"

definition Decred_add_sequence :: "DecredPrefixHasher \<Rightarrow> TxInputType \<Rightarrow> DecredPrefixHasher" where
  "Decred_add_sequence d txi = d"

definition Decred_add_output_count :: "DecredPrefixHasher \<Rightarrow> SignTx \<Rightarrow> DecredPrefixHasher" where
  "Decred_add_output_count d t = d\<lparr>h_prefix := write_varint (h_prefix d) (tx_outputs_count t)\<rparr>"

definition Decred_add_output :: "DecredPrefixHasher \<Rightarrow> TxOutputBinType \<Rightarrow> DecredPrefixHasher" where
  "Decred_add_output d txo_bin = d\<lparr>h_prefix := write_tx_output (h_prefix d) txo_bin\<rparr>"

definition Decred_add_locktime_expiry :: "DecredPrefixHasher \<Rightarrow> SignTx \<Rightarrow> DecredPrefixHasher" where
  "Decred_add_locktime_expiry d t =
     (let d = d\<lparr>h_prefix := write_uint32 (h_prefix d) (tx_lock_time t)\<rparr>;
          d = d\<lparr>h_prefix := write_uint32 (h_prefix d) (tx_expiry t)\<rparr>
      in d)"

definition prefix_hash :: "env \<Rightarrow> DecredPrefixHasher \<Rightarrow> bytes" where
  "prefix_hash E d = get_digest E BLAKE256 (h_prefix d)"

section \<open>The multisig fingerprint\<close>

text \<open>Modelled from the spec: \<^verbatim>\<open>MultisigFingerprint\<close> of multisig.py, which is missing
  (section 4.5). \<^verbatim>\<open>add\<close> stores the fingerprint of the first descriptor and sets
  \<^verbatim>\<open>mismatch\<close> when a later one differs; \<^verbatim>\<open>matches\<close> holds when no mismatch has been
  observed and the fingerprint equals the stored one.\<close>

record MultisigFingerprint =
  fp_fingerprint :: "bytes option"
  fp_mismatch :: bool

definition MultisigFingerprint_init :: MultisigFingerprint where
  "MultisigFingerprint_init = \<lparr>fp_fingerprint = None, fp_mismatch = False\<rparr>"

definition MultisigFingerprint_add ::
  "env \<Rightarrow> MultisigFingerprint \<Rightarrow> MultisigRedeemScriptType \<Rightarrow> MultisigFingerprint" where
  "MultisigFingerprint_add E fp ms =
     (let f = multisig_fingerprint E ms in
      case fp_fingerprint fp of
        None \<Rightarrow> fp\<lparr>fp_fingerprint := Some f\<rparr>
      | Some g \<Rightarrow> if g \<noteq> f then fp\<lparr>fp_mismatch := True\<rparr> else fp)"

definition MultisigFingerprint_matches ::
  "env \<Rightarrow> MultisigFingerprint \<Rightarrow> MultisigRedeemScriptType \<Rightarrow> bool" where
  "MultisigFingerprint_matches E fp ms =
     (\<not> fp_mismatch fp \<and> fp_fingerprint fp = Some (multisig_fingerprint E ms))"

section \<open>The signer's state and its effects\<close>

text \<open>
  The hasher \<^verbatim>\<open>self.hash143\<close> is one of four objects. The Zcash hashers (zcash.py)
  are not among the sources; their state and methods are the environment's.
\<close>

datatype hash143 =
  HBip143 Bip143
  | HZip143 "bytes list"
  | HZip243 "bytes list"
  | HDecred DecredPrefixHasher

text \<open>The two signer classes; \<^verbatim>\<open>Decred\<close> extends \<^verbatim>\<open>Bitcoin\<close> and overrides some of its
  methods. A method that is overridden takes the class and dispatches on it.\<close>

datatype signer_class = Bitcoin | Decred

text \<open>What the signer asks the user (the five confirmation helpers of helpers.py).\<close>

datatype ui_call =
  UiConfirmOutput TxOutputType CoinInfo
  | UiConfirmForeignAddress "nat list"
  | UiConfirmFeeOverThreshold int CoinInfo
  | UiConfirmNonDefaultLocktime nat
  | UiConfirmTotal int int CoinInfo

text \<open>
  The fields of \<^verbatim>\<open>self\<close>, with \<^verbatim>\<open>self.tx_req.serialized\<close> (the fragment that goes out
  with the next request), and two records of what the signer has done so far: the
  requests it has sent to the host and the confirmations it has asked of the user.
  The dictionary \<^verbatim>\<open>self.segwit\<close> is an association list.
\<close>

record self =
  self_coin :: CoinInfo
  self_tx :: SignTx
  self_multisig_fp :: MultisigFingerprint
  self_wallet_path :: "nat list option"
  self_bip143_in :: nat
  self_segwit :: "(nat \<times> bool) list"
  self_total_in :: nat
  self_total_out :: nat
  self_change_out :: nat
  self_tx_req_serialized :: "TxRequestSerializedType option"
  self_h_first :: bytes
  self_hash143 :: hash143
  self_last_output_bytes :: "bytes option"
  sent :: "TxRequest list"
  asked :: "ui_call list"

text \<open>
  A method of the signer takes the state and returns a value or an exception, and the
  state it leaves behind: the state at the point of the \<^verbatim>\<open>raise\<close> when it raises.
\<close>

type_synonym 'a signer = "self \<Rightarrow> (exn + 'a) \<times> self"

definition sreturn :: "'a \<Rightarrow> 'a signer" where
  "sreturn a = (\<lambda>s. (Inr a, s))"

definition sraise :: "exn \<Rightarrow> 'a signer" where
  "sraise e = (\<lambda>s. (Inl e, s))"

definition sbind :: "'a signer \<Rightarrow> ('a \<Rightarrow> 'b signer) \<Rightarrow> 'b signer" where
  "sbind m k = (\<lambda>s. case m s of (Inl e, s') \<Rightarrow> (Inl e, s') | (Inr a, s') \<Rightarrow> k a s')"

definition sthen :: "unit signer \<Rightarrow> 'b signer \<Rightarrow> 'b signer" where
  "sthen m n = sbind m (\<lambda>_. n)"

definition sget :: "(self \<Rightarrow> 'a) \<Rightarrow> 'a signer" where
  "sget f = (\<lambda>s. (Inr (f s), s))"

definition smodify :: "(self \<Rightarrow> self) \<Rightarrow> unit signer" where
  "smodify f = (\<lambda>s. (Inr (), f s))"

definition slift :: "exn + 'a \<Rightarrow> 'a signer" where
  "slift r = (\<lambda>s. (r, s))"

text \<open>\<^verbatim>\<open>for x in xs\<close> with the locals the body updates as an accumulator.\<close>

primrec sfold :: "('b \<Rightarrow> 'a \<Rightarrow> 'a signer) \<Rightarrow> 'b list \<Rightarrow> 'a \<Rightarrow> 'a signer" where
  "sfold f [] a = sreturn a"
| "sfold f (x # xs) a = sbind (f x a) (sfold f xs)"

definition sfor :: "'b list \<Rightarrow> ('b \<Rightarrow> unit signer) \<Rightarrow> unit signer" where
  "sfor xs f = sfold (\<lambda>x _. f x) xs ()"

text \<open>
  The host. The signer is deterministic, so the host's behaviour in a session is the
  reply it gives at each point where the signer asks: the fields are those points, named
  after the stages the source marks, and indexed as the source's loops are. The reply is
  what the request helper of helpers.py returns: the sanitized message, or the exception
  the helper raises.
\<close>

record prevtx_host =
  STAGE_REQUEST_2_PREV_META :: "exn + TransactionType"
  STAGE_REQUEST_2_PREV_INPUT :: "nat \<Rightarrow> exn + TxInputType"
  STAGE_REQUEST_2_PREV_OUTPUT :: "nat \<Rightarrow> exn + TxOutputBinType"
  PREV_EXTRA_DATA :: "(exn + bytes) list"

record host =
  STAGE_REQUEST_1_INPUT :: "nat \<Rightarrow> exn + TxInputType"
  STAGE_REQUEST_2_PREV :: "nat \<Rightarrow> prevtx_host"
  STAGE_REQUEST_3_OUTPUT :: "nat \<Rightarrow> exn + TxOutputType"
  STAGE_REQUEST_4_INPUT :: "nat \<Rightarrow> nat \<Rightarrow> exn + TxInputType"
  STAGE_REQUEST_4_OUTPUT :: "nat \<Rightarrow> nat \<Rightarrow> exn + TxOutputType"
  STAGE_REQUEST_5_OUTPUT :: "nat \<Rightarrow> exn + TxOutputType"
  STAGE_REQUEST_SEGWIT_INPUT :: "nat \<Rightarrow> exn + TxInputType"
  STAGE_REQUEST_SEGWIT_WITNESS :: "nat \<Rightarrow> exn + TxInputType"
  STAGE_REQUEST_DECRED_WITNESS :: "nat \<Rightarrow> exn + TxInputType"

text \<open>Modelled from the spec: the request helpers of helpers.py, which is missing
  (sections 5 and 6). The signer suspends with a \<^verbatim>\<open>TxRequest\<close> that carries the
  pending serialized fragment, resumes with the host's reply, and the fragment that went
  out is no longer pending.\<close>

definition request :: "RequestType \<Rightarrow> nat option \<Rightarrow> bytes option \<Rightarrow> exn + 'a \<Rightarrow> 'a signer" where
  "request rt idx prev_hash reply =
     (\<lambda>s. (reply,
            s\<lparr>sent := sent s @
                 [\<lparr>req_request_type = rt, req_request_index = idx, req_tx_hash = prev_hash,
                   req_serialized = self_tx_req_serialized s\<rparr>],
              self_tx_req_serialized := None\<rparr>))"

definition request_tx_input :: "nat \<Rightarrow> bytes option \<Rightarrow> exn + TxInputType \<Rightarrow> TxInputType signer" where
  "request_tx_input i prev_hash reply = request TXINPUT (Some i) prev_hash reply"

definition request_tx_output :: "nat \<Rightarrow> bytes option \<Rightarrow> exn + 'a \<Rightarrow> 'a signer" where
  "request_tx_output i prev_hash reply = request TXOUTPUT (Some i) prev_hash reply"

definition request_tx_meta :: "bytes option \<Rightarrow> exn + TransactionType \<Rightarrow> TransactionType signer" where
  "request_tx_meta prev_hash reply = request TXMETA None prev_hash reply"

definition request_tx_extra_data :: "nat \<Rightarrow> nat \<Rightarrow> bytes option \<Rightarrow> exn + bytes \<Rightarrow> bytes signer" where
  "request_tx_extra_data ofs sz prev_hash reply = request TXEXTRADATA (Some ofs) prev_hash reply"

definition request_tx_finish :: "unit signer" where
  "request_tx_finish = request TXFINISHED None None (Inr ())"

text \<open>Modelled from the spec: the confirmation helpers of helpers.py, which is missing.
  The user's answer may depend on the question and on how many were asked before.\<close>

definition confirm :: "(nat \<Rightarrow> ui_call \<Rightarrow> bool) \<Rightarrow> ui_call \<Rightarrow> bool signer" where
  "confirm U call = (\<lambda>s. (Inr (U (length (asked s)) call), s\<lparr>asked := asked s @ [call]\<rparr>))"

text \<open>The bytes of the serialized transaction that have gone out to the host.\<close>

definition serialized_bytes :: "TxRequestSerializedType option \<Rightarrow> bytes" where
  "serialized_bytes ser =
     (case ser of
        None \<Rightarrow> []
      | Some x \<Rightarrow> (case ser_serialized_tx x of None \<Rightarrow> [] | Some b \<Rightarrow> b))"

definition stream :: "self \<Rightarrow> bytes" where
  "stream s = concat (map (\<lambda>r. serialized_bytes (req_serialized r)) (sent s))"

section \<open>The signer (signing.py)\<close>

definition input_is_segwit :: "TxInputType \<Rightarrow> bool" where
  "input_is_segwit i =
     (txi_script_type i = SPENDWITNESS \<or> txi_script_type i = SPENDP2SHWITNESS)"

definition input_check_multisig_fingerprint ::
  "env \<Rightarrow> TxInputType \<Rightarrow> MultisigFingerprint \<Rightarrow> exn + unit" where
  "input_check_multisig_fingerprint E txi fp =
     (if fp_mismatch fp = False then
        (if (case txi_multisig txi of
               None \<Rightarrow> True
             | Some ms \<Rightarrow> \<not> MultisigFingerprint_matches E fp ms)
         then Inl (SigningError (Some ProcessError) ''Transaction has changed during signing'')
         else Inr ())
      else Inr ())"

definition ecdsa_sign :: "env \<Rightarrow> HDNode \<Rightarrow> bytes \<Rightarrow> bytes" where
  "ecdsa_sign E node digest =
     (let sig = secp256k1_sign E (private_key E node) digest;
          sigder = der_encode_seq E [drop 1 (take 33 sig), drop 33 (take 65 sig)]
      in sigder)"

definition SIGHASH_FORKID :: nat where
  "SIGHASH_FORKID = 64"

definition SIGHASH_ALL :: nat where
  "SIGHASH_ALL = 1"

definition get_hash_type :: "CoinInfo \<Rightarrow> nat" where
  "get_hash_type c =
     (let hashtype = SIGHASH_ALL in
      case coin_fork_id c of
        None \<Rightarrow> hashtype
      | Some fork_id \<Rightarrow> hashtype OR (push_bit 8 fork_id OR SIGHASH_FORKID))"

text \<open>\<^verbatim>\<open>True in self.segwit.values()\<close>.\<close>

definition any_segwit :: "self \<Rightarrow> bool" where
  "any_segwit s = (True \<in> set (map snd (self_segwit s)))"

definition write_tx_header :: "env \<Rightarrow> self \<Rightarrow> bytes \<Rightarrow> bytes" where
  "write_tx_header E s w =
     (let w = (if \<not> BITCOIN_ONLY E \<and> coin_overwintered (self_coin s) then
                 (let w = write_uint32 w (tx_version (self_tx s) OR OVERWINTERED E)
                  in write_uint32 w (tx_version_group_id (self_tx s)))
               else
                 (let w = write_uint32 w (tx_version (self_tx s))
                  in if \<not> BITCOIN_ONLY E \<and> coin_timestamp (self_coin s)
                     then write_uint32 w (tx_timestamp (self_tx s)) else w));
          w = (if any_segwit s then write_varint (write_varint w 0) 1 else w)
      in write_varint w (tx_inputs_count (self_tx s)))"

text \<open>
  The methods of the hasher as the signer calls them. \<^verbatim>\<open>phase1_process_input\<close> calls
  \<^verbatim>\<open>add_prevouts\<close> and then \<^verbatim>\<open>add_sequence\<close>. The class \<^verbatim>\<open>Bip143\<close> of
  segwit\_bip143.py has neither method (it has \<^verbatim>\<open>add_input\<close>, which the signer never
  calls), so with a \<^verbatim>\<open>Bip143\<close> hasher both calls raise an attribute error;
  \<^verbatim>\<open>DecredPrefixHasher\<close> has both and has no \<^verbatim>\<open>preimage_hash\<close>; the hashers of zcash.py
  are not among the sources and their methods are fields of the environment.
\<close>

definition hash143_add_prevouts :: "env \<Rightarrow> hash143 \<Rightarrow> TxInputType \<Rightarrow> exn + hash143" where
  "hash143_add_prevouts E h txi =
     (case h of
        HBip143 b \<Rightarrow> Inl AttributeError
      | HZip143 z \<Rightarrow> Inr (HZip143 (zip_add_prevouts E z txi))
      | HZip243 z \<Rightarrow> Inr (HZip243 (zip_add_prevouts E z txi))
      | HDecred d \<Rightarrow> Inr (HDecred (Decred_add_prevouts E d txi)))"

definition hash143_add_sequence :: "env \<Rightarrow> hash143 \<Rightarrow> TxInputType \<Rightarrow> exn + hash143" where
  "hash143_add_sequence E h txi =
     (case h of
        HBip143 b \<Rightarrow> Inl AttributeError
      | HZip143 z \<Rightarrow> Inr (HZip143 (zip_add_sequence E z txi))
      | HZip243 z \<Rightarrow> Inr (HZip243 (zip_add_sequence E z txi))
      | HDecred d \<Rightarrow> Inr (HDecred (Decred_add_sequence d txi)))"

text \<open>A call of a method of \<^verbatim>\<open>self.hash143\<close> that updates the hasher or raises.\<close>

definition on_hash143 :: "(hash143 \<Rightarrow> exn + hash143) \<Rightarrow> unit signer" where
  "on_hash143 f =
     sbind (sget self_hash143) (\<lambda>h.
     sbind (slift (f h)) (\<lambda>h'.
     smodify (\<lambda>s. s\<lparr>self_hash143 := h'\<rparr>)))"

definition hash143_add_output :: "env \<Rightarrow> hash143 \<Rightarrow> TxOutputBinType \<Rightarrow> hash143" where
  "hash143_add_output E h txo_bin =
     (case h of
        HBip143 b \<Rightarrow> HBip143 (Bip143_add_output b txo_bin)
      | HZip143 z \<Rightarrow> HZip143 (zip_add_output E z txo_bin)
      | HZip243 z \<Rightarrow> HZip243 (zip_add_output E z txo_bin)
      | HDecred d \<Rightarrow> HDecred (Decred_add_output d txo_bin))"

definition hash143_preimage_hash ::
  "env \<Rightarrow> hash143 \<Rightarrow> CoinInfo \<Rightarrow> SignTx \<Rightarrow> TxInputType \<Rightarrow> bytes \<Rightarrow> nat \<Rightarrow> exn + bytes" where
  "hash143_preimage_hash E h c t txi pubkeyhash sighash =
     (case h of
        HBip143 b \<Rightarrow> Bip143_preimage_hash E b c t txi pubkeyhash sighash
      | HZip143 z \<Rightarrow> zip_preimage_hash E z c t txi pubkeyhash sighash
      | HZip243 z \<Rightarrow> zip_preimage_hash E z c t txi pubkeyhash sighash
      | HDecred d \<Rightarrow> Inl AttributeError)"

text \<open>\<^verbatim>\<open>x or d\<close> on an optional integer.\<close>

definition or_default :: "nat option \<Rightarrow> nat \<Rightarrow> nat" where
  "or_default x d = (case x of None \<Rightarrow> d | Some v \<Rightarrow> if v = 0 then d else v)"

definition Bitcoin_init_hash143 :: "env \<Rightarrow> SignTx \<Rightarrow> CoinInfo \<Rightarrow> exn + hash143" where
  "Bitcoin_init_hash143 E t c =
     (if \<not> BITCOIN_ONLY E \<and> coin_overwintered c then
        (if tx_version t = 3 then
           (let branch_id = or_default (tx_branch_id t) 0x5BA81B19
            in Inr (HZip143 (zip_init E 3 branch_id)))
         else if tx_version t = 4 then
           (let branch_id = or_default (tx_branch_id t) 0x76B809BB
            in Inr (HZip243 (zip_init E 4 branch_id)))
         else Inl (SigningError (Some DataError)
                     ''Unsupported version for overwintered transaction''))
      else Inr (HBip143 Bip143_init))"

definition Decred_init_hash143 :: "SignTx \<Rightarrow> hash143" where
  "Decred_init_hash143 t = HDecred (DecredPrefixHasher_init t)"

definition init_hash143 :: "signer_class \<Rightarrow> env \<Rightarrow> SignTx \<Rightarrow> CoinInfo \<Rightarrow> exn + hash143" where
  "init_hash143 cls E t c =
     (case cls of Bitcoin \<Rightarrow> Bitcoin_init_hash143 E t c | Decred \<Rightarrow> Inr (Decred_init_hash143 t))"

text \<open>\<^verbatim>\<open>initialize\<close>, for the sanitized \<^verbatim>\<open>SignTx\<close>.\<close>

definition initialize :: "signer_class \<Rightarrow> env \<Rightarrow> SignTx \<Rightarrow> CoinInfo \<Rightarrow> exn + self" where
  "initialize cls E t c =
     (case init_hash143 cls E t c of
        Inl e \<Rightarrow> Inl e
      | Inr h \<Rightarrow>
          Inr \<lparr>self_coin = c, self_tx = t,
               self_multisig_fp = MultisigFingerprint_init,
               self_wallet_path = Some [],
               self_bip143_in = 0,
               self_segwit = [],
               self_total_in = 0,
               self_total_out = 0,
               self_change_out = 0,
               self_tx_req_serialized = None,
               self_h_first = [],
               self_hash143 = h,
               self_last_output_bytes = None,
               sent = [], asked = []\<rparr>)"

subsection \<open>Outputs\<close>

definition startswith :: "string \<Rightarrow> string \<Rightarrow> bool" where
  "startswith a p = (take (length p) a = p)"

text \<open>\<^verbatim>\<open>a.split(":")\<close>.\<close>

fun split_colon :: "string \<Rightarrow> string list" where
  "split_colon [] = [[]]"
| "split_colon (ch # cs) =
     (if ch = CHR '':'' then [] # split_colon cs
      else (case split_colon cs of
              [] \<Rightarrow> [[ch]]
            | p # ps \<Rightarrow> (ch # p) # ps))"

definition get_address_for_change :: "env \<Rightarrow> CoinInfo \<Rightarrow> TxOutputType \<Rightarrow> exn + string" where
  "get_address_for_change E c txo =
     (case CHANGE_OUTPUT_TO_INPUT_SCRIPT_TYPES E (txo_script_type txo) of
        None \<Rightarrow> Inl (SigningError (Some DataError) ''Invalid script type'')
      | Some input_script_type \<Rightarrow>
          (let node = keychain_derive E (txo_address_n txo) (coin_curve_name c)
           in get_address E input_script_type c node (txo_multisig txo)))"

text \<open>
  \<^verbatim>\<open>output_derive_script\<close> stores the derived address in a change output; the result is
  the script together with the output as the method leaves it. A string is true in a
  condition when it is present and not empty, and calling a method of an absent address
  is an attribute error.
\<close>

definition address_to_script :: "env \<Rightarrow> CoinInfo \<Rightarrow> string \<Rightarrow> exn + bytes" where
  "address_to_script E c address =
     (if (case coin_bech32_prefix c of
            None \<Rightarrow> False
          | Some p \<Rightarrow> p \<noteq> [] \<and> startswith address p)
      then
        (case decode_bech32_address E (the (coin_bech32_prefix c)) address of
           Inl e \<Rightarrow> Inl e
         | Inr witprog \<Rightarrow> Inr (output_script_native_p2wpkh_or_p2wsh E witprog))
      else
        (case
           (if \<not> BITCOIN_ONLY E
               \<and> (case coin_cashaddr_prefix c of
                     None \<Rightarrow> False
                   | Some p \<Rightarrow> startswith address (p @ '':''))
            then
              (case split_colon address of
                 [prefix, addr] \<Rightarrow>
                   (case cashaddr_decode E prefix addr of
                      Inl e \<Rightarrow> Inl e
                    | Inr (version, data) \<Rightarrow>
                        (if version = cashaddr_ADDRESS_TYPE_P2KH E then
                           (if coin_address_type c < 256
                            then Inr (of_nat (coin_address_type c) # data) else Inl ValueError)
                         else if version = cashaddr_ADDRESS_TYPE_P2SH E then
                           (if coin_address_type_p2sh c < 256
                            then Inr (of_nat (coin_address_type_p2sh c) # data) else Inl ValueError)
                         else Inl (SigningError None ''Unknown cashaddr address type'')))
               | _ \<Rightarrow> Inl ValueError)
            else
              (case base58_decode_check E address c of
                 None \<Rightarrow> Inl (SigningError (Some DataError) ''Invalid address'')
               | Some raw \<Rightarrow> Inr raw))
         of
           Inl e \<Rightarrow> Inl e
         | Inr raw_address \<Rightarrow>
             (if address_type_check E (coin_address_type c) raw_address then
                (let pubkeyhash = address_type_strip E (coin_address_type c) raw_address;
                     script = output_script_p2pkh E pubkeyhash
                 in Inr script)
              else if address_type_check E (coin_address_type_p2sh c) raw_address then
                (let scripthash = address_type_strip E (coin_address_type_p2sh c) raw_address;
                     script = output_script_p2sh E scripthash
                 in Inr script)
              else Inl (SigningError (Some DataError) ''Invalid address type''))))"

definition output_derive_script ::
  "env \<Rightarrow> CoinInfo \<Rightarrow> TxOutputType \<Rightarrow> exn + bytes \<times> TxOutputType" where
  "output_derive_script E c txo =
     (if txo_script_type txo = PAYTOOPRETURN
      then Inr (output_script_paytoopreturn E (txo_op_return_data txo), txo)
      else
        (case (if txo_address_n txo \<noteq> [] then
                 (case get_address_for_change E c txo of
                    Inl e \<Rightarrow> Inl e
                  | Inr a \<Rightarrow> Inr (txo\<lparr>txo_address := Some a\<rparr>))
               else Inr txo)
         of
           Inl e \<Rightarrow> Inl e
         | Inr txo \<Rightarrow>
             (case txo_address txo of
                None \<Rightarrow> Inl AttributeError
              | Some address \<Rightarrow>
                  (case address_to_script E c address of
                     Inl e \<Rightarrow> Inl e
                   | Inr script \<Rightarrow> Inr (script, txo)))))"

text \<open>\<^verbatim>\<open>xs[-k]\<close> for \<open>k > 0\<close> raises when the list has fewer than \<open>k\<close> elements.\<close>

definition from_end :: "'a list \<Rightarrow> nat \<Rightarrow> exn + 'a" where
  "from_end xs k = (if k \<le> length xs then Inr (xs ! (length xs - k)) else Inl IndexError)"

definition output_is_change :: "env \<Rightarrow> self \<Rightarrow> TxOutputType \<Rightarrow> exn + bool" where
  "output_is_change E s txo =
     (if txo_script_type txo \<notin> set (CHANGE_OUTPUT_SCRIPT_TYPES E) then Inr False
      else if (case txo_multisig txo of
                 None \<Rightarrow> False
               | Some ms \<Rightarrow> \<not> MultisigFingerprint_matches E (self_multisig_fp s) ms)
      then Inr False
      else if \<not> (self_wallet_path s \<noteq> None) then Inr False
      else if \<not> (self_wallet_path s = Some (drop_last BIP32_WALLET_DEPTH (txo_address_n txo)))
      then Inr False
      else
        (case from_end (txo_address_n txo) 2 of
           Inl e \<Rightarrow> Inl e
         | Inr chain \<Rightarrow>
             (if \<not> chain \<le> BIP32_CHANGE_CHAIN then Inr False
              else
                (case from_end (txo_address_n txo) 1 of
                   Inl e \<Rightarrow> Inl e
                 | Inr index \<Rightarrow> Inr (index \<le> BIP32_MAX_LAST_ELEMENT)))))"

subsection \<open>Inputs\<close>

text \<open>The optional \<^verbatim>\<open>signature\<close> argument is an \<^typ>\<open>bytes option\<close>; a method called on
  an absent multisig descriptor is an attribute error.\<close>

definition input_derive_script ::
  "env \<Rightarrow> CoinInfo \<Rightarrow> TxInputType \<Rightarrow> bytes \<Rightarrow> bytes option \<Rightarrow> exn + bytes" where
  "input_derive_script E c i pubkey signature =
     (if txi_script_type i = SPENDADDRESS then
        Inr (input_script_p2pkh_or_p2sh E pubkey signature (get_hash_type c))
      else if txi_script_type i = SPENDP2SHWITNESS then
        (case txi_multisig i of
           Some ms \<Rightarrow>
             (let pubkeys = multisig_get_pubkeys E ms;
                  witness_script_hasher = output_script_multisig E pubkeys (ms_m ms);
                  witness_script_hash = get_digest E SHA256 witness_script_hasher
              in Inr (input_script_p2wsh_in_p2sh E witness_script_hash))
         | None \<Rightarrow> Inr (input_script_p2wpkh_in_p2sh E (ecdsa_hash_pubkey E pubkey c)))
      else if txi_script_type i = SPENDWITNESS then
        Inr (input_script_native_p2wpkh_or_p2wsh E)
      else if txi_script_type i = SPENDMULTISIG then
        (case txi_multisig i of
           None \<Rightarrow> Inl AttributeError
         | Some ms \<Rightarrow>
             (case multisig_pubkey_index E ms pubkey of
                Inl e \<Rightarrow> Inl e
              | Inr signature_index \<Rightarrow>
                  Inr (input_script_multisig E ms signature signature_index (get_hash_type c) c)))
      else Inl (SigningError (Some ProcessError) ''Invalid script type''))"

subsection \<open>The value of a previous output\<close>

text \<open>
  The \<^verbatim>\<open>while\<close> loop over the extra data asks the host for one chunk per round and
  advances by the length of the chunk it gets. The host's replies are a list; when the
  list is used up and the loop has not reached the end, the signer has sent its request
  and stays suspended (\<^const>\<open>HostSilent\<close>).
\<close>

fun extra_data_loop ::
  "bytes option \<Rightarrow> nat \<Rightarrow> (exn + bytes) list \<Rightarrow> nat \<times> bytes \<Rightarrow> (nat \<times> bytes) signer" where
  "extra_data_loop prev_hash len [] (ofs, txh) =
     (if ofs < len then
        sbind (request_tx_extra_data ofs (min 1024 (len - ofs)) prev_hash (Inl HostSilent))
          (\<lambda>data. sreturn (ofs, txh))
      else sreturn (ofs, txh))"
| "extra_data_loop prev_hash len (reply # replies) (ofs, txh) =
     (if ofs < len then
        sbind (request_tx_extra_data ofs (min 1024 (len - ofs)) prev_hash reply)
          (\<lambda>data. extra_data_loop prev_hash len replies
                     (ofs + length data, write_bytes_unchecked txh data))
      else sreturn (ofs, txh))"

definition Bitcoin_get_prevtx_output_value ::
  "env \<Rightarrow> prevtx_host \<Rightarrow> bytes \<Rightarrow> nat \<Rightarrow> nat signer" where
  "Bitcoin_get_prevtx_output_value E P prev_hash prev_index =
     sbind (sget self_coin) (\<lambda>c.
     sbind (request_tx_meta (Some prev_hash) (STAGE_REQUEST_2_PREV_META P)) (\<lambda>ptx.
     if ptx_outputs_cnt ptx \<le> prev_index then
       sraise (SigningError (Some ProcessError) ''Not enough outputs in previous transaction.'')
     else
       (let txh = [];
            txh = (if \<not> BITCOIN_ONLY E \<and> coin_overwintered c then
                     (let txh = write_uint32 txh (ptx_version ptx OR OVERWINTERED E)
                      in write_uint32 txh (ptx_version_group_id ptx))
                   else
                     (let txh = write_uint32 txh (ptx_version ptx)
                      in if \<not> BITCOIN_ONLY E \<and> coin_timestamp c
                         then write_uint32 txh (ptx_timestamp ptx) else txh));
            txh = write_varint txh (ptx_inputs_cnt ptx)
        in
        sbind (sfold (\<lambda>i txh.
                 sbind (request_tx_input i (Some prev_hash) (STAGE_REQUEST_2_PREV_INPUT P i))
                   (\<lambda>txi. sreturn (write_tx_input E txh txi)))
               [0..<ptx_inputs_cnt ptx] txh) (\<lambda>txh.
        let txh = write_varint txh (ptx_outputs_cnt ptx) in
        sbind (sfold (\<lambda>o_index (txh, total_out).
                 sbind (request_tx_output o_index (Some prev_hash) (STAGE_REQUEST_2_PREV_OUTPUT P o_index))
                   (\<lambda>txo_bin.
                      sreturn (write_tx_output txh txo_bin,
                               if o_index = prev_index then total_out + bin_amount txo_bin
                               else total_out)))
               [0..<ptx_outputs_cnt ptx] (txh, 0)) (\<lambda>(txh, total_out).
        let txh = write_uint32 txh (ptx_lock_time ptx) in
        sbind (if \<not> BITCOIN_ONLY E \<and> coin_extra_data c
               then extra_data_loop (Some prev_hash) (ptx_extra_data_len ptx)
                      (PREV_EXTRA_DATA P) (0, txh)
               else sreturn (0, txh)) (\<lambda>(ofs, txh).
        if get_tx_hash E SHA256 txh (coin_sign_hash_double c) True \<noteq> prev_hash then
          sraise (SigningError (Some ProcessError) ''Encountered invalid prev_hash'')
        else sreturn total_out))))))"

definition Decred_get_prevtx_output_value ::
  "env \<Rightarrow> prevtx_host \<Rightarrow> bytes \<Rightarrow> nat \<Rightarrow> nat signer" where
  "Decred_get_prevtx_output_value E P prev_hash prev_index =
     sbind (sget self_coin) (\<lambda>c.
     sbind (request_tx_meta (Some prev_hash) (STAGE_REQUEST_2_PREV_META P)) (\<lambda>ptx.
     if ptx_outputs_cnt ptx \<le> prev_index then
       sraise (SigningError (Some ProcessError) ''Not enough outputs in previous transaction.'')
     else
       (let txh = [];
            txh = write_uint32 txh (ptx_version ptx OR DECRED_SERIALIZE_NO_WITNESS);
            txh = write_varint txh (ptx_inputs_cnt ptx)
        in
        sbind (sfold (\<lambda>i txh.
                 sbind (request_tx_input i (Some prev_hash) (STAGE_REQUEST_2_PREV_INPUT P i))
                   (\<lambda>txi. sreturn (write_tx_input_decred E txh txi)))
               [0..<ptx_inputs_cnt ptx] txh) (\<lambda>txh.
        let txh = write_varint txh (ptx_outputs_cnt ptx) in
        sbind (sfold (\<lambda>o_index (txh, total_out).
                 sbind (request_tx_output o_index (Some prev_hash) (STAGE_REQUEST_2_PREV_OUTPUT P o_index))
                   (\<lambda>txo_bin.
                      let txh = write_tx_output txh txo_bin in
                      if o_index = prev_index then
                        (let total_out = total_out + bin_amount txo_bin in
                         if (case bin_decred_script_version txo_bin of
                               None \<Rightarrow> False
                             | Some v \<Rightarrow> v \<noteq> 0)
                         then sraise (SigningError (Some ProcessError)
                                        ''Cannot use utxo that has script_version != 0'')
                         else sreturn (txh, total_out))
                      else sreturn (txh, total_out)))
               [0..<ptx_outputs_cnt ptx] (txh, 0)) (\<lambda>(txh, total_out).
        let txh = write_uint32 txh (ptx_lock_time ptx);
            txh = write_uint32 txh (ptx_expiry ptx)
        in
        if get_tx_hash E BLAKE256 txh (coin_sign_hash_double c) True \<noteq> prev_hash then
          sraise (SigningError (Some ProcessError) ''Encountered invalid prev_hash'')
        else sreturn total_out)))))"

definition get_prevtx_output_value ::
  "signer_class \<Rightarrow> env \<Rightarrow> prevtx_host \<Rightarrow> bytes \<Rightarrow> nat \<Rightarrow> nat signer" where
  "get_prevtx_output_value cls E P prev_hash prev_index =
     (case cls of
        Bitcoin \<Rightarrow> Bitcoin_get_prevtx_output_value E P prev_hash prev_index
      | Decred \<Rightarrow> Decred_get_prevtx_output_value E P prev_hash prev_index)"

subsection \<open>Phase 1\<close>

text \<open>An optional amount is false in a condition when it is absent or zero.\<close>

text \<open>\<^verbatim>\<open>phase1_process_input\<close> ends with the branch on the script type of the input, which
  records whether the input is segwit and adds its amount to the sums.\<close>

definition phase1_input_by_script_type ::
  "signer_class \<Rightarrow> env \<Rightarrow> host \<Rightarrow> nat \<Rightarrow> TxInputType \<Rightarrow> CoinInfo \<Rightarrow> unit signer" where
  "phase1_input_by_script_type cls E H i txi c =
     (if txi_script_type txi = SPENDWITNESS \<or> txi_script_type txi = SPENDP2SHWITNESS then
        (if \<not> coin_segwit c then
           sraise (SigningError (Some DataError) ''Segwit not enabled on this coin'')
         else
           (case txi_amount txi of
              None \<Rightarrow> sraise (SigningError (Some DataError) ''Segwit input without amount'')
            | Some amount \<Rightarrow>
                if amount = 0 then
                  sraise (SigningError (Some DataError) ''Segwit input without amount'')
                else
                  smodify (\<lambda>s. s\<lparr>self_segwit := AList.update i True (self_segwit s),
                                  self_bip143_in := self_bip143_in s + amount,
                                  self_total_in := self_total_in s + amount\<rparr>)))
      else if txi_script_type txi = SPENDADDRESS \<or> txi_script_type txi = SPENDMULTISIG then
        (if \<not> BITCOIN_ONLY E \<and> (coin_force_bip143 c \<or> coin_overwintered c) then
           (case txi_amount txi of
              None \<Rightarrow> sraise (SigningError (Some DataError) ''Expected input with amount'')
            | Some amount \<Rightarrow>
                if amount = 0 then
                  sraise (SigningError (Some DataError) ''Expected input with amount'')
                else
                  smodify (\<lambda>s. s\<lparr>self_segwit := AList.update i False (self_segwit s),
                                  self_bip143_in := self_bip143_in s + amount,
                                  self_total_in := self_total_in s + amount\<rparr>))
         else
           sthen (smodify (\<lambda>s. s\<lparr>self_segwit := AList.update i False (self_segwit s)\<rparr>))
          (sbind (get_prevtx_output_value cls E (STAGE_REQUEST_2_PREV H i)
                    (txi_prev_hash txi) (txi_prev_index txi)) (\<lambda>v.
           smodify (\<lambda>s. s\<lparr>self_total_in := self_total_in s + v\<rparr>))))
      else sraise (SigningError (Some DataError) ''Wrong input script type''))"

definition Bitcoin_phase1_process_input ::
  "signer_class \<Rightarrow> env \<Rightarrow> host \<Rightarrow> (nat \<Rightarrow> ui_call \<Rightarrow> bool) \<Rightarrow> nat \<Rightarrow> TxInputType \<Rightarrow> unit signer" where
  "Bitcoin_phase1_process_input cls E H U i txi =
     sthen (smodify (\<lambda>s. s\<lparr>self_wallet_path := input_extract_wallet_path txi (self_wallet_path s)\<rparr>))
    (sthen (smodify (\<lambda>s. s\<lparr>self_h_first := write_tx_input_check E (self_h_first s) txi\<rparr>))
    (sthen (on_hash143 (\<lambda>h. hash143_add_prevouts E h txi))
    (sthen (on_hash143 (\<lambda>h. hash143_add_sequence E h txi))
    (sbind (sget self_coin) (\<lambda>c.
     sthen (if \<not> validate_full_path E (txi_address_n txi) c (txi_script_type txi)
            then sbind (confirm U (UiConfirmForeignAddress (txi_address_n txi))) (\<lambda>_. sreturn ())
            else sreturn ())
    (sthen (smodify (\<lambda>s.
              case txi_multisig txi of
                Some ms \<Rightarrow> s\<lparr>self_multisig_fp := MultisigFingerprint_add E (self_multisig_fp s) ms\<rparr>
              | None \<Rightarrow> s\<lparr>self_multisig_fp := (self_multisig_fp s)\<lparr>fp_mismatch := True\<rparr>\<rparr>))
       (phase1_input_by_script_type cls E H i txi c)))))))"

definition Decred_phase1_process_input ::
  "env \<Rightarrow> host \<Rightarrow> (nat \<Rightarrow> ui_call \<Rightarrow> bool) \<Rightarrow> nat \<Rightarrow> TxInputType \<Rightarrow> unit signer" where
  "Decred_phase1_process_input E H U i txi =
     sthen (Bitcoin_phase1_process_input Decred E H U i txi)
       (smodify (\<lambda>s.
          let w_txi = [];
              w_txi = (if i = 0 then write_tx_header E s w_txi else w_txi);
              w_txi = write_tx_input_decred E w_txi txi
          in s\<lparr>self_tx_req_serialized :=
                 Some \<lparr>ser_signature_index = None, ser_signature = None,
                       ser_serialized_tx = Some w_txi\<rparr>\<rparr>))"

definition phase1_process_input ::
  "signer_class \<Rightarrow> env \<Rightarrow> host \<Rightarrow> (nat \<Rightarrow> ui_call \<Rightarrow> bool) \<Rightarrow> nat \<Rightarrow> TxInputType \<Rightarrow> unit signer" where
  "phase1_process_input cls E H U i txi =
     (case cls of
        Bitcoin \<Rightarrow> Bitcoin_phase1_process_input Bitcoin E H U i txi
      | Decred \<Rightarrow> Decred_phase1_process_input E H U i txi)"

text \<open>In \<^verbatim>\<open>change_out == 0 and output_is_change(txo)\<close> the second operand is evaluated
  only when the first holds.\<close>

definition Bitcoin_phase1_confirm_output ::
  "env \<Rightarrow> (nat \<Rightarrow> ui_call \<Rightarrow> bool) \<Rightarrow> nat \<Rightarrow> TxOutputType \<Rightarrow> TxOutputBinType \<Rightarrow> unit signer" where
  "Bitcoin_phase1_confirm_output E U i txo txo_bin =
     sbind (sget id) (\<lambda>s0.
     sbind (if self_change_out s0 = 0 then slift (output_is_change E s0 txo) else sreturn False)
       (\<lambda>is_change.
     sthen (if is_change then smodify (\<lambda>s. s\<lparr>self_change_out := txo_amount txo\<rparr>)
            else sbind (confirm U (UiConfirmOutput txo (self_coin s0))) (\<lambda>ok.
                   if \<not> ok then sraise (SigningError (Some ActionCancelled) ''Output cancelled'')
                   else sreturn ()))
       (smodify (\<lambda>s. s\<lparr>self_h_first := write_tx_output (self_h_first s) txo_bin,
                        self_hash143 := hash143_add_output E (self_hash143 s) txo_bin,
                        self_total_out := self_total_out s + bin_amount txo_bin\<rparr>))))"

text \<open>\<^verbatim>\<open>self.hash143\<close> of a Decred signer is its prefix hasher.\<close>

definition on_decred_hasher :: "(DecredPrefixHasher \<Rightarrow> DecredPrefixHasher) \<Rightarrow> unit signer" where
  "on_decred_hasher f =
     sbind (sget self_hash143) (\<lambda>h.
       case h of
         HDecred d \<Rightarrow> smodify (\<lambda>s. s\<lparr>self_hash143 := HDecred (f d)\<rparr>)
       | _ \<Rightarrow> sraise AttributeError)"

definition Decred_phase1_confirm_output ::
  "env \<Rightarrow> (nat \<Rightarrow> ui_call \<Rightarrow> bool) \<Rightarrow> nat \<Rightarrow> TxOutputType \<Rightarrow> TxOutputBinType \<Rightarrow> unit signer" where
  "Decred_phase1_confirm_output E U i txo txo_bin =
     (if (case txo_decred_script_version txo of None \<Rightarrow> False | Some v \<Rightarrow> v \<noteq> 0) then
        sraise (SigningError (Some ActionCancelled)
                  ''Cannot send to output with script version != 0'')
      else
        (let txo_bin = txo_bin\<lparr>bin_decred_script_version := txo_decred_script_version txo\<rparr>;
             w_txo_bin = []
         in
         sbind (sget self_tx) (\<lambda>t.
         sbind (if i = 0 then
                  sthen (on_decred_hasher (\<lambda>d. Decred_add_output_count d t))
                    (sreturn (write_varint w_txo_bin (tx_outputs_count t)))
                else sreturn w_txo_bin) (\<lambda>w_txo_bin.
         let w_txo_bin = write_tx_output w_txo_bin txo_bin in
         sthen (smodify (\<lambda>s. s\<lparr>self_tx_req_serialized :=
                                  Some \<lparr>ser_signature_index = None, ser_signature = None,
                                        ser_serialized_tx = Some w_txo_bin\<rparr>,
                                self_last_output_bytes := Some w_txo_bin\<rparr>))
           (Bitcoin_phase1_confirm_output E U i txo txo_bin)))))"

definition phase1_confirm_output ::
  "signer_class \<Rightarrow> env \<Rightarrow> (nat \<Rightarrow> ui_call \<Rightarrow> bool) \<Rightarrow> nat \<Rightarrow> TxOutputType \<Rightarrow> TxOutputBinType
     \<Rightarrow> unit signer" where
  "phase1_confirm_output cls E U i txo txo_bin =
     (case cls of
        Bitcoin \<Rightarrow> Bitcoin_phase1_confirm_output E U i txo txo_bin
      | Decred \<Rightarrow> Decred_phase1_confirm_output E U i txo txo_bin)"

text \<open>
  \<^verbatim>\<open>phase1\<close> in its steps: the loop over the inputs, the loop over the outputs (the two
  together are \<open>phase1_loops\<close>), and the checks and confirmations that follow. The weight calculator is a local of the method
  and is handed from step to step. The fee threshold
  \<^verbatim>\<open>fee > (maxfee_kb / 1000) * (weight / 4)\<close> is computed with the floating-point
  operations of the environment.
\<close>

definition phase1_inputs ::
  "signer_class \<Rightarrow> env \<Rightarrow> host \<Rightarrow> (nat \<Rightarrow> ui_call \<Rightarrow> bool) \<Rightarrow> nat signer" where
  "phase1_inputs cls E H U =
     sbind (sget self_tx) (\<lambda>t.
     sfold (\<lambda>i weight.
              sbind (request_tx_input i None (STAGE_REQUEST_1_INPUT H i)) (\<lambda>txi.
              let weight = weight_add_input E weight txi in
              sthen (phase1_process_input cls E H U i txi) (sreturn weight)))
       [0..<tx_inputs_count t]
       (weight_init E (tx_inputs_count t) (tx_outputs_count t)))"

definition phase1_outputs ::
  "signer_class \<Rightarrow> env \<Rightarrow> host \<Rightarrow> (nat \<Rightarrow> ui_call \<Rightarrow> bool) \<Rightarrow> nat \<Rightarrow> nat signer" where
  "phase1_outputs cls E H U weight =
     sbind (sget self_tx) (\<lambda>t.
     sbind (sget self_coin) (\<lambda>c.
     sfold (\<lambda>i weight.
              sbind (request_tx_output i None (STAGE_REQUEST_3_OUTPUT H i)) (\<lambda>txo.
              sbind (slift (output_derive_script E c txo)) (\<lambda>(script_pubkey, txo).
              let txo_bin = \<lparr>bin_amount = txo_amount txo, bin_script_pubkey = script_pubkey,
                             bin_decred_script_version = None\<rparr>;
                  weight = weight_add_output E weight (bin_script_pubkey txo_bin)
              in sthen (phase1_confirm_output cls E U i txo txo_bin) (sreturn weight))))
       [0..<tx_outputs_count t] weight))"

definition phase1_fee ::
  "env \<Rightarrow> (nat \<Rightarrow> ui_call \<Rightarrow> bool) \<Rightarrow> nat \<Rightarrow> unit signer" where
  "phase1_fee E U weight =
     sbind (sget id) (\<lambda>s.
     let c = self_coin s;
         fee = int (self_total_in s) - int (self_total_out s)
     in
     sthen (if \<not> BITCOIN_ONLY E \<and> coin_negative_fee c then sreturn ()
            else if fee < 0 then sraise (SigningError (Some NotEnoughFunds) ''Not enough funds'')
            else sreturn ())
    (sthen (if int_gt_float E fee
                 (float_mul E (int_truediv E (int (coin_maxfee_kb c)) 1000)
                    (int_truediv E (int (weight_get_total E weight)) 4)) then
              sbind (confirm U (UiConfirmFeeOverThreshold fee c)) (\<lambda>ok.
                if \<not> ok then sraise (SigningError (Some ActionCancelled) ''Signing cancelled'')
                else sreturn ())
            else sreturn ())
    (sthen (if tx_lock_time (self_tx s) > 0 then
              sbind (confirm U (UiConfirmNonDefaultLocktime (tx_lock_time (self_tx s)))) (\<lambda>ok.
                if \<not> ok then sraise (SigningError (Some ActionCancelled) ''Locktime cancelled'')
                else sreturn ())
            else sreturn ())
       (sbind (confirm U (UiConfirmTotal (int (self_total_in s) - int (self_change_out s)) fee c))
          (\<lambda>ok.
            if \<not> ok then sraise (SigningError (Some ActionCancelled) ''Total cancelled'')
            else sreturn ())))))"

definition phase1_loops ::
  "signer_class \<Rightarrow> env \<Rightarrow> host \<Rightarrow> (nat \<Rightarrow> ui_call \<Rightarrow> bool) \<Rightarrow> nat signer" where
  "phase1_loops cls E H U =
     sbind (phase1_inputs cls E H U) (\<lambda>weight. phase1_outputs cls E H U weight)"

definition Bitcoin_phase1 ::
  "signer_class \<Rightarrow> env \<Rightarrow> host \<Rightarrow> (nat \<Rightarrow> ui_call \<Rightarrow> bool) \<Rightarrow> unit signer" where
  "Bitcoin_phase1 cls E H U =
     sbind (phase1_loops cls E H U) (\<lambda>weight. phase1_fee E U weight)"

definition Decred_phase1 :: "env \<Rightarrow> host \<Rightarrow> (nat \<Rightarrow> ui_call \<Rightarrow> bool) \<Rightarrow> unit signer" where
  "Decred_phase1 E H U =
     sthen (Bitcoin_phase1 Decred E H U)
       (sbind (sget self_tx) (\<lambda>t. on_decred_hasher (\<lambda>d. Decred_add_locktime_expiry d t)))"

definition phase1 ::
  "signer_class \<Rightarrow> env \<Rightarrow> host \<Rightarrow> (nat \<Rightarrow> ui_call \<Rightarrow> bool) \<Rightarrow> unit signer" where
  "phase1 cls E H U =
     (case cls of Bitcoin \<Rightarrow> Bitcoin_phase1 Bitcoin E H U | Decred \<Rightarrow> Decred_phase1 E H U)"

subsection \<open>Phase 2\<close>


definition changed_during_signing :: exn where
  "changed_during_signing =
     SigningError (Some ProcessError) ''Transaction has changed during signing''"

definition phase2_serialize_segwit_input :: "env \<Rightarrow> host \<Rightarrow> nat \<Rightarrow> unit signer" where
  "phase2_serialize_segwit_input E H i_sign =
     sbind (request_tx_input i_sign None (STAGE_REQUEST_SEGWIT_INPUT H i_sign)) (\<lambda>txi_sign.
     if \<not> input_is_segwit txi_sign then sraise changed_during_signing
     else
       sbind (sget id) (\<lambda>s.
       sthen (slift (input_check_wallet_path txi_sign (self_wallet_path s)))
         (let key_sign = keychain_derive E (txi_address_n txi_sign) (coin_curve_name (self_coin s));
              key_sign_pub = public_key E key_sign
          in
          sbind (slift (input_derive_script E (self_coin s) txi_sign key_sign_pub None))
            (\<lambda>script_sig.
          let txi_sign = txi_sign\<lparr>txi_script_sig := script_sig\<rparr>;
              w_txi = [];
              w_txi = (if i_sign = 0 then write_tx_header E s w_txi else w_txi);
              w_txi = write_tx_input E w_txi txi_sign
          in smodify (\<lambda>s. s\<lparr>self_tx_req_serialized :=
                               Some \<lparr>ser_signature_index = None, ser_signature = None,
                                     ser_serialized_tx = Some w_txi\<rparr>\<rparr>)))))"

text \<open>In \<^verbatim>\<open>not input_is_segwit(txi) or txi.amount > self.bip143_in\<close> the comparison is
  evaluated only for a segwit input; comparing an absent amount is a type error.\<close>

definition phase2_sign_segwit_input :: "env \<Rightarrow> host \<Rightarrow> nat \<Rightarrow> (bytes \<times> bytes) signer" where
  "phase2_sign_segwit_input E H i =
     sbind (request_tx_input i None (STAGE_REQUEST_SEGWIT_WITNESS H i)) (\<lambda>txi.
     sbind (sget id) (\<lambda>s.
     sthen (slift (input_check_wallet_path txi (self_wallet_path s)))
    (sthen (slift (input_check_multisig_fingerprint E txi (self_multisig_fp s)))
       (if \<not> input_is_segwit txi then sraise changed_during_signing
        else
          (case txi_amount txi of
             None \<Rightarrow> sraise TypeError
           | Some amount \<Rightarrow>
               if amount > self_bip143_in s then sraise changed_during_signing
               else
                 sthen (smodify (\<lambda>s. s\<lparr>self_bip143_in := self_bip143_in s - amount\<rparr>))
                   (let c = self_coin s;
                        key_sign = keychain_derive E (txi_address_n txi) (coin_curve_name c);
                        key_sign_pub = public_key E key_sign
                    in
                    sbind (slift (hash143_preimage_hash E (self_hash143 s) c (self_tx s) txi
                                    (ecdsa_hash_pubkey E key_sign_pub c) (get_hash_type c)))
                      (\<lambda>hash143_hash.
                    let signature = ecdsa_sign E key_sign hash143_hash in
                    (case txi_multisig txi of
                       Some ms \<Rightarrow>
                         sbind (slift (multisig_pubkey_index E ms key_sign_pub))
                           (\<lambda>signature_index.
                              sreturn (witness_p2wsh E ms signature signature_index
                                         (get_hash_type c), signature))
                     | None \<Rightarrow>
                         sreturn (witness_p2wpkh E signature key_sign_pub (get_hash_type c),
                                  signature)))))))))"

definition phase2_sign_bip143_input :: "env \<Rightarrow> host \<Rightarrow> nat \<Rightarrow> unit signer" where
  "phase2_sign_bip143_input E H i_sign =
     sbind (request_tx_input i_sign None (STAGE_REQUEST_SEGWIT_INPUT H i_sign)) (\<lambda>txi_sign.
     sbind (sget id) (\<lambda>s.
     sthen (slift (input_check_wallet_path txi_sign (self_wallet_path s)))
    (sthen (slift (input_check_multisig_fingerprint E txi_sign (self_multisig_fp s)))
       (let is_bip143 = (txi_script_type txi_sign = SPENDADDRESS
                         \<or> txi_script_type txi_sign = SPENDMULTISIG)
        in
        if \<not> is_bip143 then sraise changed_during_signing
        else
          (case txi_amount txi_sign of
             None \<Rightarrow> sraise TypeError
           | Some amount \<Rightarrow>
               if amount > self_bip143_in s then sraise changed_during_signing
               else
                 sthen (smodify (\<lambda>s. s\<lparr>self_bip143_in := self_bip143_in s - amount\<rparr>))
                   (let c = self_coin s;
                        key_sign = keychain_derive E (txi_address_n txi_sign) (coin_curve_name c);
                        key_sign_pub = public_key E key_sign
                    in
                    sbind (slift (hash143_preimage_hash E (self_hash143 s) c (self_tx s) txi_sign
                                    (ecdsa_hash_pubkey E key_sign_pub c) (get_hash_type c)))
                      (\<lambda>hash143_hash.
                    sthen (case txi_multisig txi_sign of
                             Some ms \<Rightarrow>
                               sbind (slift (multisig_pubkey_index E ms key_sign_pub))
                                 (\<lambda>_. sreturn ())
                           | None \<Rightarrow> sreturn ())
                      (let signature = ecdsa_sign E key_sign hash143_hash in
                       sbind (slift (input_derive_script E c txi_sign key_sign_pub (Some signature)))
                         (\<lambda>script_sig.
                       let txi_sign = txi_sign\<lparr>txi_script_sig := script_sig\<rparr>;
                           w_txi_sign = [];
                           w_txi_sign = (if i_sign = 0 then write_tx_header E s w_txi_sign
                                         else w_txi_sign);
                           w_txi_sign = write_tx_input E w_txi_sign txi_sign
                       in smodify (\<lambda>s. s\<lparr>self_tx_req_serialized :=
                                            Some \<lparr>ser_signature_index = Some i_sign,
                                                  ser_signature = Some signature,
                                                  ser_serialized_tx = Some w_txi_sign\<rparr>\<rparr>))))))))))"

text \<open>
  \<^verbatim>\<open>phase2_sign_legacy_input\<close> streams the whole transaction again. The first part of
  the method, up to the comparison of the control digests, computes the two hash writers
  and remembers the input to sign and its key; \<^verbatim>\<open>txi_sign\<close> and \<^verbatim>\<open>key_sign\<close> are
  unbound until the loop has met input \<^verbatim>\<open>i_sign\<close>.
\<close>

definition legacy_stream_input ::
  "env \<Rightarrow> host \<Rightarrow> nat \<Rightarrow> nat \<Rightarrow> bytes \<times> bytes \<times> (TxInputType \<times> HDNode) option
     \<Rightarrow> (bytes \<times> bytes \<times> (TxInputType \<times> HDNode) option) signer" where
  "legacy_stream_input E H i_sign i =
     (\<lambda>(h_sign, h_second, signing).
     sbind (request_tx_input i None (STAGE_REQUEST_4_INPUT H i_sign i)) (\<lambda>txi.
     sbind (sget id) (\<lambda>s.
     sthen (slift (input_check_wallet_path txi (self_wallet_path s)))
       (let h_second = write_tx_input_check E h_second txi in
        if i = i_sign then
          sthen (slift (input_check_multisig_fingerprint E txi (self_multisig_fp s)))
            (let c = self_coin s;
                 key_sign = keychain_derive E (txi_address_n txi) (coin_curve_name c);
                 key_sign_pub = public_key E key_sign
             in
             sbind (if txi_script_type txi = SPENDMULTISIG then
                      (case txi_multisig txi of
                         None \<Rightarrow> sraise AttributeError
                       | Some ms \<Rightarrow>
                           sreturn (output_script_multisig E (multisig_get_pubkeys E ms) (ms_m ms)))
                    else if txi_script_type txi = SPENDADDRESS then
                      sreturn (output_script_p2pkh E (ecdsa_hash_pubkey E key_sign_pub c))
                    else sraise (SigningError (Some ProcessError) ''Unknown transaction type''))
               (\<lambda>script_sig.
             let txi_sign = txi\<lparr>txi_script_sig := script_sig\<rparr> in
             sreturn (write_tx_input E h_sign txi_sign, h_second, Some (txi_sign, key_sign))))
        else
          (let txi = txi\<lparr>txi_script_sig := []\<rparr> in
           sreturn (write_tx_input E h_sign txi, h_second, signing))))))"

definition legacy_stream_output ::
  "env \<Rightarrow> host \<Rightarrow> nat \<Rightarrow> nat \<Rightarrow> bytes \<times> bytes \<Rightarrow> (bytes \<times> bytes) signer" where
  "legacy_stream_output E H i_sign i =
     (\<lambda>(h_sign, h_second).
     sbind (request_tx_output i None (STAGE_REQUEST_4_OUTPUT H i_sign i)) (\<lambda>txo.
     sbind (sget self_coin) (\<lambda>c.
     sbind (slift (output_derive_script E c txo)) (\<lambda>(script_pubkey, txo).
     let txo_bin = \<lparr>bin_amount = txo_amount txo, bin_script_pubkey = script_pubkey,
                    bin_decred_script_version = None\<rparr>;
         h_second = write_tx_output h_second txo_bin;
         h_sign = write_tx_output h_sign txo_bin
     in sreturn (h_sign, h_second)))))"

definition legacy_streams ::
  "env \<Rightarrow> host \<Rightarrow> nat \<Rightarrow> (bytes \<times> bytes \<times> (TxInputType \<times> HDNode) option) signer" where
  "legacy_streams E H i_sign =
     sbind (sget id) (\<lambda>s0.
     let t = self_tx s0;
         c = self_coin s0;
         h_sign = [];
         h_second = [];
         h_sign = write_uint32 h_sign (tx_version t);
         h_sign = (if \<not> BITCOIN_ONLY E \<and> coin_timestamp c
                   then write_uint32 h_sign (tx_timestamp t) else h_sign);
         h_sign = write_varint h_sign (tx_inputs_count t)
     in
     sbind (sfold (legacy_stream_input E H i_sign) [0..<tx_inputs_count t]
              (h_sign, h_second, None)) (\<lambda>(h_sign, h_second, signing).
     let h_sign = write_varint h_sign (tx_outputs_count t) in
     sbind (sfold (legacy_stream_output E H i_sign) [0..<tx_outputs_count t]
              (h_sign, h_second)) (\<lambda>(h_sign, h_second).
     let h_sign = write_uint32 h_sign (tx_lock_time t);
         h_sign = write_uint32 h_sign (get_hash_type c)
     in sreturn (h_sign, h_second, signing))))"

definition phase2_sign_legacy_input :: "env \<Rightarrow> host \<Rightarrow> nat \<Rightarrow> unit signer" where
  "phase2_sign_legacy_input E H i_sign =
     sbind (legacy_streams E H i_sign) (\<lambda>(h_sign, h_second, signing).
     sbind (sget id) (\<lambda>s.
     if get_tx_hash E SHA256 (self_h_first s) False False \<noteq> get_tx_hash E SHA256 h_second False False
     then sraise changed_during_signing
     else
       (case signing of
          None \<Rightarrow> sraise UnboundLocalError
        | Some (txi_sign, key_sign) \<Rightarrow>
            (let c = self_coin s;
                 key_sign_pub = public_key E key_sign
             in
             sthen (case txi_multisig txi_sign of
                      Some ms \<Rightarrow>
                        sbind (slift (multisig_pubkey_index E ms key_sign_pub)) (\<lambda>_. sreturn ())
                    | None \<Rightarrow> sreturn ())
               (let signature = ecdsa_sign E key_sign
                                  (get_tx_hash E SHA256 h_sign (coin_sign_hash_double c) False)
                in
                sbind (slift (input_derive_script E c txi_sign key_sign_pub (Some signature)))
                  (\<lambda>script_sig.
                let txi_sign = txi_sign\<lparr>txi_script_sig := script_sig\<rparr>;
                    w_txi_sign = [];
                    w_txi_sign = (if i_sign = 0 then write_tx_header E s w_txi_sign
                                  else w_txi_sign);
                    w_txi_sign = write_tx_input E w_txi_sign txi_sign
                in smodify (\<lambda>s. s\<lparr>self_tx_req_serialized :=
                                     Some \<lparr>ser_signature_index = Some i_sign,
                                           ser_signature = Some signature,
                                           ser_serialized_tx = Some w_txi_sign\<rparr>\<rparr>)))))))"

definition phase2_serialize_output :: "env \<Rightarrow> host \<Rightarrow> nat \<Rightarrow> bytes signer" where
  "phase2_serialize_output E H i =
     sbind (request_tx_output i None (STAGE_REQUEST_5_OUTPUT H i)) (\<lambda>txo.
     sbind (sget id) (\<lambda>s.
     sbind (slift (output_derive_script E (self_coin s) txo)) (\<lambda>(script_pubkey, txo).
     let txo_bin = \<lparr>bin_amount = txo_amount txo, bin_script_pubkey = script_pubkey,
                    bin_decred_script_version = None\<rparr>;
         w_txo_bin = [];
         w_txo_bin = (if i = 0 then write_varint w_txo_bin (tx_outputs_count (self_tx s))
                      else w_txo_bin);
         w_txo_bin = write_tx_output w_txo_bin txo_bin
     in sreturn w_txo_bin)))"

text \<open>
  \<^verbatim>\<open>phase2\<close> in its steps. \<^verbatim>\<open>tx_ser\<close> is a local object that the method keeps
  updating; \<^verbatim>\<open>self.tx_req.serialized\<close> is made to refer to it at the end of every round
  of the second and third loop, so what is pending at the next request is \<^verbatim>\<open>tx_ser\<close> as
  it is then. \<^verbatim>\<open>bytearray(1)\<close> is one zero byte; appending to an absent
  \<^verbatim>\<open>serialized_tx\<close> is a type error and writing into it an attribute error.
\<close>

definition phase2_input :: "env \<Rightarrow> host \<Rightarrow> nat \<Rightarrow> unit signer" where
  "phase2_input E H i =
     sbind (sget id) (\<lambda>s.
     case map_of (self_segwit s) i of
       None \<Rightarrow> sraise KeyError
     | Some is_segwit \<Rightarrow>
         if is_segwit then phase2_serialize_segwit_input E H i
         else if \<not> BITCOIN_ONLY E
                 \<and> (coin_force_bip143 (self_coin s) \<or> coin_overwintered (self_coin s))
         then phase2_sign_bip143_input E H i
         else phase2_sign_legacy_input E H i)"

definition phase2_inputs :: "env \<Rightarrow> host \<Rightarrow> unit signer" where
  "phase2_inputs E H =
     sbind (sget self_tx) (\<lambda>t. sfor [0..<tx_inputs_count t] (phase2_input E H))"

definition phase2_output ::
  "env \<Rightarrow> host \<Rightarrow> nat \<Rightarrow> TxRequestSerializedType \<Rightarrow> TxRequestSerializedType signer" where
  "phase2_output E H i tx_ser =
     sbind (phase2_serialize_output E H i) (\<lambda>w.
     let tx_ser = tx_ser\<lparr>ser_serialized_tx := Some w\<rparr> in
     sthen (smodify (\<lambda>s. s\<lparr>self_tx_req_serialized := Some tx_ser\<rparr>)) (sreturn tx_ser))"

definition phase2_outputs :: "env \<Rightarrow> host \<Rightarrow> TxRequestSerializedType signer" where
  "phase2_outputs E H =
     sbind (sget self_tx) (\<lambda>t.
     sfold (phase2_output E H) [0..<tx_outputs_count t]
       \<lparr>ser_signature_index = None, ser_signature = None, ser_serialized_tx = None\<rparr>)"

definition phase2_witness ::
  "env \<Rightarrow> host \<Rightarrow> bool \<Rightarrow> nat \<Rightarrow> TxRequestSerializedType \<Rightarrow> TxRequestSerializedType signer" where
  "phase2_witness E H any_sw i tx_ser =
     sbind (sget id) (\<lambda>s.
     sbind (case map_of (self_segwit s) i of
              None \<Rightarrow> sraise KeyError
            | Some is_segwit \<Rightarrow>
                if is_segwit then
                  sbind (phase2_sign_segwit_input E H i) (\<lambda>(witness, signature).
                  sreturn (tx_ser\<lparr>ser_serialized_tx := Some witness,
                                   ser_signature_index := Some i,
                                   ser_signature := Some signature\<rparr>))
                else if any_sw then
                  (case ser_serialized_tx tx_ser of
                     None \<Rightarrow> sraise TypeError
                   | Some b \<Rightarrow>
                       sreturn (tx_ser\<lparr>ser_serialized_tx := Some (b @ replicate 1 0),
                                        ser_signature_index := None,
                                        ser_signature := None\<rparr>))
                else sreturn tx_ser) (\<lambda>tx_ser.
     sthen (smodify (\<lambda>s. s\<lparr>self_tx_req_serialized := Some tx_ser\<rparr>)) (sreturn tx_ser)))"

definition phase2_witnesses ::
  "env \<Rightarrow> host \<Rightarrow> TxRequestSerializedType \<Rightarrow> TxRequestSerializedType signer" where
  "phase2_witnesses E H tx_ser =
     sbind (sget id) (\<lambda>s.
     sfold (phase2_witness E H (any_segwit s)) [0..<tx_inputs_count (self_tx s)] tx_ser)"

text \<open>The bytes written after the witnesses: the lock time and, for an overwintered coin,
  the fields that close a Zcash transaction.\<close>

definition write_trailer :: "env \<Rightarrow> CoinInfo \<Rightarrow> SignTx \<Rightarrow> bytes \<Rightarrow> exn + bytes" where
  "write_trailer E c t w =
     (let w = write_uint32 w (tx_lock_time t) in
      if \<not> BITCOIN_ONLY E \<and> coin_overwintered c then
        (if tx_version t = 3 then
           (let w = write_uint32 w (tx_expiry t);
                w = write_varint w 0
            in Inr w)
         else if tx_version t = 4 then
           (let w = write_uint32 w (tx_expiry t);
                w = write_uint64 w 0;
                w = write_varint w 0;
                w = write_varint w 0;
                w = write_varint w 0
            in Inr w)
         else Inl (SigningError (Some DataError)
                     ''Unsupported version for overwintered transaction''))
      else Inr w)"

definition phase2_finish :: "env \<Rightarrow> TxRequestSerializedType \<Rightarrow> unit signer" where
  "phase2_finish E tx_ser =
     sbind (sget id) (\<lambda>s.
     case ser_serialized_tx tx_ser of
       None \<Rightarrow> sraise AttributeError
     | Some b \<Rightarrow>
         sbind (slift (write_trailer E (self_coin s) (self_tx s) b)) (\<lambda>b.
         sthen (smodify (\<lambda>s. s\<lparr>self_tx_req_serialized :=
                                  Some (tx_ser\<lparr>ser_serialized_tx := Some b\<rparr>)\<rparr>))
           request_tx_finish))"

definition Bitcoin_phase2 :: "env \<Rightarrow> host \<Rightarrow> unit signer" where
  "Bitcoin_phase2 E H =
     sthen (smodify (\<lambda>s. s\<lparr>self_tx_req_serialized := None\<rparr>))
    (sthen (phase2_inputs E H)
    (sbind (phase2_outputs E H) (\<lambda>tx_ser.
     sbind (phase2_witnesses E H tx_ser) (\<lambda>tx_ser.
     phase2_finish E tx_ser))))"

subsection \<open>Phase 2 of the Decred signer (decred.py)\<close>

text \<open>The two hashes of \<^verbatim>\<open>Decred.phase2\<close> for the input \<^verbatim>\<open>i_sign\<close>: the witness hash
  over the script of the previous output, and the digest that is signed.\<close>

definition Decred_witness_hash :: "env \<Rightarrow> CoinInfo \<Rightarrow> SignTx \<Rightarrow> nat \<Rightarrow> bytes \<Rightarrow> bytes" where
  "Decred_witness_hash E c t i_sign prev_pkscript =
     (let h_witness = [];
          h_witness = write_uint32 h_witness (tx_version t OR DECRED_SERIALIZE_WITNESS_SIGNING);
          h_witness = write_varint h_witness (tx_inputs_count t);
          h_witness = foldl (\<lambda>h_witness ii.
                               if ii = i_sign then write_bytes_prefixed h_witness prev_pkscript
                               else write_varint h_witness 0)
                        h_witness [0..<tx_inputs_count t]
      in get_tx_hash E BLAKE256 h_witness (coin_sign_hash_double c) False)"

definition Decred_sig_hash :: "env \<Rightarrow> CoinInfo \<Rightarrow> bytes \<Rightarrow> bytes \<Rightarrow> bytes" where
  "Decred_sig_hash E c prefix_digest witness_hash =
     (let h_sign = [];
          h_sign = write_uint32 h_sign DECRED_SIGHASHALL;
          h_sign = write_bytes_fixed h_sign prefix_digest TX_HASH_SIZE;
          h_sign = write_bytes_fixed h_sign witness_hash TX_HASH_SIZE
      in get_tx_hash E BLAKE256 h_sign (coin_sign_hash_double c) False)"

definition Decred_phase2_input :: "env \<Rightarrow> host \<Rightarrow> bytes \<Rightarrow> nat \<Rightarrow> unit signer" where
  "Decred_phase2_input E H prefix_digest i_sign =
     sbind (request_tx_input i_sign None (STAGE_REQUEST_DECRED_WITNESS H i_sign)) (\<lambda>txi_sign.
     sbind (sget id) (\<lambda>s.
     sthen (slift (input_check_wallet_path txi_sign (self_wallet_path s)))
    (sthen (slift (input_check_multisig_fingerprint E txi_sign (self_multisig_fp s)))
       (let c = self_coin s;
            t = self_tx s;
            key_sign = keychain_derive E (txi_address_n txi_sign) (coin_curve_name c);
            key_sign_pub = public_key E key_sign
        in
        sbind (if txi_script_type txi_sign = SPENDMULTISIG then
                 (case txi_multisig txi_sign of
                    None \<Rightarrow> sraise AttributeError
                  | Some ms \<Rightarrow>
                      sreturn (output_script_multisig E (multisig_get_pubkeys E ms) (ms_m ms)))
               else if txi_script_type txi_sign = SPENDADDRESS then
                 sreturn (output_script_p2pkh E (ecdsa_hash_pubkey E key_sign_pub c))
               else sraise (SigningError None ''Unsupported input script type''))
          (\<lambda>prev_pkscript.
        let witness_hash = Decred_witness_hash E c t i_sign prev_pkscript;
            sig_hash = Decred_sig_hash E c prefix_digest witness_hash;
            signature = ecdsa_sign E key_sign sig_hash
        in
        sbind (slift (input_derive_script E c txi_sign key_sign_pub (Some signature)))
          (\<lambda>script_sig.
        let txi_sign = txi_sign\<lparr>txi_script_sig := script_sig\<rparr>;
            w_txi_sign = []
        in
        sbind (if i_sign = 0 then
                 (case self_last_output_bytes s of
                    None \<Rightarrow> sraise TypeError
                  | Some last_bytes \<Rightarrow>
                      (let w = write_bytes_unchecked w_txi_sign last_bytes;
                           w = write_uint32 w (tx_lock_time t);
                           w = write_uint32 w (tx_expiry t);
                           w = write_varint w (tx_inputs_count t)
                       in sreturn w))
               else sreturn w_txi_sign) (\<lambda>w_txi_sign.
        let w_txi_sign = write_tx_input_decred_witness E w_txi_sign txi_sign in
        smodify (\<lambda>s. s\<lparr>self_tx_req_serialized :=
                          Some \<lparr>ser_signature_index = Some i_sign,
                                ser_signature = Some signature,
                                ser_serialized_tx = Some w_txi_sign\<rparr>\<rparr>))))))))"

definition Decred_phase2 :: "env \<Rightarrow> host \<Rightarrow> unit signer" where
  "Decred_phase2 E H =
     sthen (smodify (\<lambda>s. s\<lparr>self_tx_req_serialized := None\<rparr>))
       (sbind (sget id) (\<lambda>s.
        case self_hash143 s of
          HDecred d \<Rightarrow>
            (let prefix_digest = prefix_hash E d in
             sthen (sfor [0..<tx_inputs_count (self_tx s)] (Decred_phase2_input E H prefix_digest))
               request_tx_finish)
        | _ \<Rightarrow> sraise AttributeError))"

definition phase2 :: "signer_class \<Rightarrow> env \<Rightarrow> host \<Rightarrow> unit signer" where
  "phase2 cls E H = (case cls of Bitcoin \<Rightarrow> Bitcoin_phase2 E H | Decred \<Rightarrow> Decred_phase2 E H)"

text \<open>\<^verbatim>\<open>signer\<close>: the state is set up, phase 1 runs and then phase 2.\<close>

definition signer ::
  "signer_class \<Rightarrow> env \<Rightarrow> host \<Rightarrow> (nat \<Rightarrow> ui_call \<Rightarrow> bool) \<Rightarrow> SignTx \<Rightarrow> CoinInfo
     \<Rightarrow> exn + (exn + unit) \<times> self" where
  "signer cls E H U t c =
     (case initialize cls E t c of
        Inl e \<Rightarrow> Inl e
      | Inr s \<Rightarrow> Inr (sthen (phase1 cls E H U) (phase2 cls E H) s))"

section \<open>Predicates on signer methods\<close>

text \<open>A method preserves a projection of the state when the projection is the same
  before and after, whether the method returns or raises.\<close>

definition preserves :: "(self \<Rightarrow> 'p) \<Rightarrow> 'a signer \<Rightarrow> bool" where
  "preserves \<pi> m = (\<forall>s r s'. m s = (r, s') \<longrightarrow> \<pi> s' = \<pi> s)"

text \<open>The projections that requests leave alone.\<close>

definition quiet :: "(self \<Rightarrow> 'p) \<Rightarrow> bool" where
  "quiet \<pi> = ((\<forall>s x. \<pi> (s\<lparr>sent := x\<rparr>) = \<pi> s)
              \<and> (\<forall>s x. \<pi> (s\<lparr>self_tx_req_serialized := x\<rparr>) = \<pi> s))"

text \<open>A method asks only questions of a given kind when the record of confirmations
  grows by such questions only, whether the method returns or raises.\<close>

definition asks_only :: "ui_call set \<Rightarrow> 'a signer \<Rightarrow> bool" where
  "asks_only A m =
     (\<forall>s r s'. m s = (r, s') \<longrightarrow> (\<exists>new. asked s' = asked s @ new \<and> set new \<subseteq> A))"

text \<open>The confirmations of phase 1 that are about the totals of the transaction: the fee
  over the threshold, the lock time, and the total with the fee.\<close>

definition totals_call :: "ui_call \<Rightarrow> bool" where
  "totals_call call =
     (case call of
        UiConfirmFeeOverThreshold fee c \<Rightarrow> True
      | UiConfirmNonDefaultLocktime lock_time \<Rightarrow> True
      | UiConfirmTotal spending fee c \<Rightarrow> True
      | _ \<Rightarrow> False)"

text \<open>Phase 2 changes the pending fragment, the record of requests and the running sum
  \<^verbatim>\<open>bip143_in\<close>, and nothing else.\<close>

definition phase2_quiet :: "(self \<Rightarrow> 'p) \<Rightarrow> bool" where
  "phase2_quiet \<pi> = (quiet \<pi> \<and> (\<forall>s x. \<pi> (s\<lparr>self_bip143_in := x\<rparr>) = \<pi> s))"

text \<open>
  The amounts that count towards \<^verbatim>\<open>bip143_in\<close>. An input is signed with the BIP-143
  digest when its script type is a segwit one, or when it is a legacy one and the coin
  forces BIP-143 (in a build that is not Bitcoin-only). \<open>phase1_amount\<close> is the amount
  the host declares for such an input when it is streamed in phase 1, and
  \<open>phase2_amount\<close> the amount it declares when the input is streamed in phase 2 to be
  signed: with the request for the witness when phase 1 recorded the input as segwit, and
  with the request of the first loop when it did not.
\<close>

definition reply_amount :: "exn + TxInputType \<Rightarrow> nat" where
  "reply_amount r =
     (case r of
        Inl e \<Rightarrow> 0
      | Inr txi \<Rightarrow> (case txi_amount txi of None \<Rightarrow> 0 | Some a \<Rightarrow> a))"

definition bip143_forced :: "env \<Rightarrow> CoinInfo \<Rightarrow> bool" where
  "bip143_forced E c = (\<not> BITCOIN_ONLY E \<and> (coin_force_bip143 c \<or> coin_overwintered c))"

definition phase1_amount :: "env \<Rightarrow> host \<Rightarrow> CoinInfo \<Rightarrow> nat \<Rightarrow> nat" where
  "phase1_amount E H c i =
     (case STAGE_REQUEST_1_INPUT H i of
        Inl e \<Rightarrow> 0
      | Inr txi \<Rightarrow>
          if input_is_segwit txi
             \<or> ((txi_script_type txi = SPENDADDRESS \<or> txi_script_type txi = SPENDMULTISIG)
                 \<and> bip143_forced E c)
          then reply_amount (Inr txi) else 0)"

definition phase2_amount :: "env \<Rightarrow> host \<Rightarrow> self \<Rightarrow> nat \<Rightarrow> nat" where
  "phase2_amount E H s i =
     (case map_of (self_segwit s) i of
        None \<Rightarrow> 0
      | Some is_segwit \<Rightarrow>
          if is_segwit then reply_amount (STAGE_REQUEST_SEGWIT_WITNESS H i)
          else if bip143_forced E (self_coin s) then reply_amount (STAGE_REQUEST_SEGWIT_INPUT H i)
          else 0)"

definition core :: "self \<Rightarrow> self" where
  "core s = s\<lparr>sent := [], self_tx_req_serialized := None\<rparr>"

definition counts_for_bip143 :: "env \<Rightarrow> CoinInfo \<Rightarrow> TxInputType \<Rightarrow> bool" where
  "counts_for_bip143 E c txi =
     (input_is_segwit txi
      \<or> ((txi_script_type txi = SPENDADDRESS \<or> txi_script_type txi = SPENDMULTISIG)
          \<and> bip143_forced E c))"

definition phase1_input :: "host \<Rightarrow> nat \<Rightarrow> TxInputType" where
  "phase1_input H i = projr (STAGE_REQUEST_1_INPUT H i)"

text \<open>The state after the loop over the inputs, in terms of the inputs the host streamed.\<close>

definition inputs_done :: "env \<Rightarrow> host \<Rightarrow> self \<Rightarrow> nat list \<Rightarrow> self \<Rightarrow> bool" where
  "inputs_done E H s pre s1 =
     (self_coin s1 = self_coin s \<and> self_tx s1 = self_tx s
      \<and> self_change_out s1 = self_change_out s \<and> self_total_out s1 = self_total_out s
      \<and> self_last_output_bytes s1 = self_last_output_bytes s
      \<and> self_wallet_path s1 =
          foldl (\<lambda>wp i. input_extract_wallet_path (phase1_input H i) wp) (self_wallet_path s) pre
      \<and> self_h_first s1 =
          self_h_first s @ concat (map (\<lambda>i. tx_input_check_bytes E (phase1_input H i)) pre)
      \<and> self_hash143 s1 =
          foldl (\<lambda>h i. projr (hash143_add_sequence E
                                  (projr (hash143_add_prevouts E h (phase1_input H i)))
                                  (phase1_input H i))) (self_hash143 s) pre
      \<and> self_segwit s1 =
          foldl (\<lambda>d i. AList.update i (input_is_segwit (phase1_input H i)) d) (self_segwit s) pre
      \<and> self_bip143_in s1 =
          self_bip143_in s + (\<Sum>i\<leftarrow>pre. phase1_amount E H (self_coin s) i)
      \<and> (\<forall>i \<in> set pre. \<exists>txi. STAGE_REQUEST_1_INPUT H i = Inr txi))"

text \<open>What the loop over the outputs and the confirmations after it leave unchanged.\<close>

definition inputs_part ::
  "self \<Rightarrow> CoinInfo \<times> SignTx \<times> nat \<times> (nat \<times> bool) list \<times> nat list option
            \<times> MultisigFingerprint \<times> nat" where
  "inputs_part s =
     (self_coin s, self_tx s, self_bip143_in s, self_segwit s, self_wallet_path s,
      self_multisig_fp s, self_total_in s)"

definition phase2_declared :: "env \<Rightarrow> host \<Rightarrow> CoinInfo \<Rightarrow> nat \<Rightarrow> nat" where
  "phase2_declared E H c i =
     (if input_is_segwit (phase1_input H i) then reply_amount (STAGE_REQUEST_SEGWIT_WITNESS H i)
      else if bip143_forced E c then reply_amount (STAGE_REQUEST_SEGWIT_INPUT H i)
      else 0)"

text \<open>The bytes of the transaction that a state holds: what has been sent to the host
  and what is pending for the next request.\<close>

definition emitted :: "self \<Rightarrow> bytes" where
  "emitted s = stream s @ serialized_bytes (self_tx_req_serialized s)"

text \<open>What the signing of a segwit input reads of the state, the accumulator
  \<^verbatim>\<open>bip143_in\<close> apart.\<close>

definition signing_context ::
  "self \<Rightarrow> nat list option \<times> MultisigFingerprint \<times> CoinInfo \<times> hash143 \<times> SignTx \<times> (nat \<times> bool) list" where
  "signing_context s =
     (self_wallet_path s, self_multisig_fp s, self_coin s, self_hash143 s, self_tx s,
      self_segwit s)"

text \<open>The witness that \<^verbatim>\<open>phase2_sign_segwit_input\<close> returns for input \<open>i\<close> when the
  accumulator covers the amount of the input.\<close>

definition witness_of :: "env \<Rightarrow> host \<Rightarrow> self \<Rightarrow> nat \<Rightarrow> bytes" where
  "witness_of E H s i =
     (case fst (phase2_sign_segwit_input E H i
                  (s\<lparr>self_bip143_in := reply_amount (STAGE_REQUEST_SEGWIT_WITNESS H i)\<rparr>)) of
        Inr (witness, signature) \<Rightarrow> witness
      | Inl e \<Rightarrow> [])"

text \<open>The witnesses in the words of the specification (invariant I5): the witness of
  the input at a segwit position, one zero byte at any other position when some input is
  segwit, and nothing when none is.\<close>

definition spec_witnesses :: "(nat \<Rightarrow> bool) \<Rightarrow> (nat \<Rightarrow> bytes) \<Rightarrow> nat \<Rightarrow> bytes" where
  "spec_witnesses is_segwit witness n =
     concat (map (\<lambda>i. if is_segwit i then witness i
                       else if list_ex is_segwit [0..<n] then [0] else [])
               [0..<n])"

named_theorems preserves_intros

named_theorems asks_intros

section \<open>The layouts the specification describes\<close>




section \<open>Example data\<close>

text \<open>
  Concrete messages, a concrete coin and a concrete environment on which the theorems
  below are run. The environment's hash functions tag their argument (so the digest of
  a digest differs from the digest), its scripts and serialisers are short byte strings
  built from their arguments, and its codecs accept every address.
\<close>

definition example_input :: "nat list \<Rightarrow> InputScriptType \<Rightarrow> nat option \<Rightarrow> TxInputType" where
  "example_input path st amt =
     \<lparr>txi_address_n = path, txi_prev_hash = replicate 32 0, txi_prev_index = 0,
      txi_script_sig = [], txi_sequence = 4294967295, txi_script_type = st,
      txi_multisig = None, txi_amount = amt\<rparr>"

definition example_output :: "string \<Rightarrow> nat list \<Rightarrow> OutputScriptType \<Rightarrow> nat \<Rightarrow> TxOutputType" where
  "example_output addr path st amt =
     \<lparr>txo_address = (if addr = [] then None else Some addr), txo_address_n = path,
      txo_amount = amt, txo_script_type = st, txo_multisig = None,
      txo_op_return_data = None, txo_decred_script_version = None\<rparr>"

definition example_coin :: "bool \<Rightarrow> CoinInfo" where
  "example_coin double =
     \<lparr>coin_curve_name = ''secp256k1'', coin_sign_hash_double = double, coin_maxfee_kb = 2000000,
      coin_negative_fee = False, coin_segwit = True, coin_force_bip143 = False,
      coin_overwintered = False, coin_timestamp = False, coin_extra_data = False,
      coin_fork_id = None, coin_bech32_prefix = None, coin_cashaddr_prefix = None,
      coin_address_type = 0, coin_address_type_p2sh = 5\<rparr>"

definition example_tx :: "nat \<Rightarrow> nat \<Rightarrow> nat \<Rightarrow> SignTx" where
  "example_tx v n_in n_out =
     \<lparr>tx_version = v, tx_inputs_count = n_in, tx_outputs_count = n_out, tx_lock_time = 0,
      tx_expiry = 0, tx_timestamp = 0, tx_version_group_id = 0, tx_branch_id = None\<rparr>"

definition example_env :: "bool \<Rightarrow> env" where
  "example_env bitcoin_only =
     \<lparr>BITCOIN_ONLY = bitcoin_only,
      OVERWINTERED = 0x80000000,
      sha256 = (\<lambda>b. 83 # b),
      blake256 = (\<lambda>b. 66 # b),
      secp256k1_sign = (\<lambda>k d. 0 # d),
      der_encode_seq = concat,
      keychain_derive = (\<lambda>path curve. map of_nat path),
      public_key = (\<lambda>n. n),
      private_key = (\<lambda>n. n),
      output_script_p2pkh = (\<lambda>h. 118 # h),
      output_script_p2sh = (\<lambda>h. 169 # h),
      output_script_multisig = (\<lambda>ks m. 174 # concat ks),
      output_script_native_p2wpkh_or_p2wsh = (\<lambda>w. 0 # w),
      output_script_paytoopreturn = (\<lambda>d. [106]),
      input_script_p2pkh_or_p2sh = (\<lambda>pk sg ht. pk),
      input_script_p2wsh_in_p2sh = (\<lambda>h. 34 # h),
      input_script_p2wpkh_in_p2sh = (\<lambda>h. 22 # h),
      input_script_native_p2wpkh_or_p2wsh = [],
      input_script_multisig = (\<lambda>ms sg idx ht c. [0]),
      witness_p2wsh = (\<lambda>ms sg idx ht. 3 # sg),
      witness_p2wpkh = (\<lambda>sg pk ht. 2 # sg),
      multisig_get_pubkeys = ms_pubkeys,
      multisig_pubkey_index = (\<lambda>ms pk. Inr 0),
      multisig_fingerprint = (\<lambda>ms. concat (ms_pubkeys ms)),
      validate_full_path = (\<lambda>path c st. True),
      ecdsa_hash_pubkey = (\<lambda>pk c. pk),
      get_address = (\<lambda>st c node ms. Inr ''change''),
      decode_bech32_address = (\<lambda>p a. Inr []),
      cashaddr_decode = (\<lambda>p a. Inr (0, [])),
      cashaddr_ADDRESS_TYPE_P2KH = 0,
      cashaddr_ADDRESS_TYPE_P2SH = 8,
      base58_decode_check = (\<lambda>a c. Some (0 # map (\<lambda>ch. of_nat (of_char ch)) a)),
      address_type_check = (\<lambda>ty raw. take 1 raw = [of_nat ty]),
      address_type_strip = (\<lambda>ty raw. drop 1 raw),
      tx_input_bytes = (\<lambda>i. le_bytes 4 (txi_prev_index i) @ varint (length (txi_script_sig i))
                              @ txi_script_sig i @ le_bytes 4 (txi_sequence i)),
      tx_input_check_bytes = (\<lambda>i. le_bytes 4 (txi_prev_index i) @ le_bytes 4 (txi_sequence i)
                                    @ le_bytes 8 (case txi_amount i of None \<Rightarrow> 0 | Some a \<Rightarrow> a)),
      tx_input_decred_bytes = (\<lambda>i. le_bytes 4 (txi_prev_index i) @ le_bytes 4 (txi_sequence i)),
      tx_input_decred_witness_bytes = (\<lambda>i. varint (length (txi_script_sig i)) @ txi_script_sig i),
      weight_init = (\<lambda>n_in n_out. 0),
      weight_add_input = (\<lambda>w i. w + 1),
      weight_add_output = (\<lambda>w script. w + 1),
      weight_get_total = (\<lambda>w. 400 * w),
      int_truediv = (\<lambda>a b. PyFloat (a * 1024 div b) (- 10)),
      float_mul = (\<lambda>x y. case x of PyFloat m e \<Rightarrow> (case y of PyFloat n f \<Rightarrow> PyFloat (m * n) (e + f))),
      int_gt_float = (\<lambda>a x. case x of PyFloat m e \<Rightarrow>
                        if 0 \<le> e then a > m * 2 ^ nat e else a * 2 ^ nat (- e) > m),
      CHANGE_OUTPUT_SCRIPT_TYPES = [PAYTOADDRESS, PAYTOMULTISIG, PAYTOWITNESS, PAYTOP2SHWITNESS],
      CHANGE_OUTPUT_TO_INPUT_SCRIPT_TYPES =
        (\<lambda>st. case st of
                 PAYTOADDRESS \<Rightarrow> Some SPENDADDRESS
               | PAYTOMULTISIG \<Rightarrow> Some SPENDMULTISIG
               | PAYTOWITNESS \<Rightarrow> Some SPENDWITNESS
               | PAYTOP2SHWITNESS \<Rightarrow> Some SPENDP2SHWITNESS
               | _ \<Rightarrow> None),
      zip_init = (\<lambda>v branch. []),
      zip_add_prevouts = (\<lambda>z i. z),
      zip_add_sequence = (\<lambda>z i. z),
      zip_add_output = (\<lambda>z o_bin. z),
      zip_preimage_hash = (\<lambda>z c t i pkh sighash. Inr [90])\<rparr>"

text \<open>A host that replies from lists: one list of inputs and one of outputs for
  phase 1, and one of each for phase 2. A previous transaction has no inputs and one
  output, of the given amount.\<close>

definition nth_reply :: "'a list \<Rightarrow> nat \<Rightarrow> exn + 'a" where
  "nth_reply xs i = (if i < length xs then Inr (xs ! i) else Inl HostSilent)"

definition example_prevtx :: "nat \<Rightarrow> prevtx_host" where
  "example_prevtx v =
     \<lparr>STAGE_REQUEST_2_PREV_META =
        Inr \<lparr>ptx_version = 1, ptx_inputs_cnt = 0, ptx_outputs_cnt = 1, ptx_lock_time = 0,
             ptx_extra_data_len = 0, ptx_version_group_id = 0, ptx_timestamp = 0,
             ptx_expiry = 0\<rparr>,
      STAGE_REQUEST_2_PREV_INPUT = (\<lambda>i. Inl HostSilent),
      STAGE_REQUEST_2_PREV_OUTPUT =
        (\<lambda>i. Inr \<lparr>bin_amount = v, bin_script_pubkey = [], bin_decred_script_version = None\<rparr>),
      PREV_EXTRA_DATA = []\<rparr>"

definition example_host ::
  "TxInputType list \<Rightarrow> TxOutputType list \<Rightarrow> TxInputType list \<Rightarrow> TxOutputType list \<Rightarrow> host" where
  "example_host txis1 txos1 txis2 txos2 =
     \<lparr>STAGE_REQUEST_1_INPUT = nth_reply txis1,
      STAGE_REQUEST_2_PREV = (\<lambda>i. example_prevtx 10),
      STAGE_REQUEST_3_OUTPUT = nth_reply txos1,
      STAGE_REQUEST_4_INPUT = (\<lambda>i_sign. nth_reply txis2),
      STAGE_REQUEST_4_OUTPUT = (\<lambda>i_sign. nth_reply txos2),
      STAGE_REQUEST_5_OUTPUT = nth_reply txos2,
      STAGE_REQUEST_SEGWIT_INPUT = nth_reply txis2,
      STAGE_REQUEST_SEGWIT_WITNESS = nth_reply txis2,
      STAGE_REQUEST_DECRED_WITNESS = nth_reply txis2\<rparr>"

text \<open>A user who confirms everything, and the state in which phase 1 leaves a signer
  that was set up for a transaction and a coin.\<close>

definition yes :: "nat \<Rightarrow> ui_call \<Rightarrow> bool" where
  "yes n call = True"

definition after_phase1 ::
  "signer_class \<Rightarrow> env \<Rightarrow> host \<Rightarrow> (nat \<Rightarrow> ui_call \<Rightarrow> bool) \<Rightarrow> SignTx \<Rightarrow> CoinInfo \<Rightarrow> self" where
  "after_phase1 cls E H U t c = snd (phase1 cls E H U (projr (initialize cls E t c)))"

text \<open>An overwintered coin with one input and one output.\<close>

definition example_zcoin :: CoinInfo where
  "example_zcoin = (example_coin True)\<lparr>coin_overwintered := True\<rparr>"

definition example_ztx :: "nat \<Rightarrow> SignTx" where
  "example_ztx v = (example_tx v 1 1)\<lparr>tx_lock_time := 1, tx_expiry := 16909060\<rparr>"

definition example_zhost :: host where
  "example_zhost =
     example_host [example_input [44, 133, 0, 0, 0] SPENDADDRESS (Some 10)]
                  [example_output ''t1dest'' [] PAYTOADDRESS 9]
                  [example_input [44, 133, 0, 0, 0] SPENDADDRESS (Some 10)]
                  [example_output ''t1dest'' [] PAYTOADDRESS 9]"

text \<open>
  The examples below run the Bitcoin signer on the overwintered coin in a build that is
  not Bitcoin-only: for every other coin the hasher is a \<^verbatim>\<open>Bip143\<close>, and phase 1 stops
  at its first input.
\<close>



text \<open>A transaction with two inputs, declared as 10 and 20 in phase 1 and as \<open>a\<close> and
  \<open>b\<close> in phase 2, and one output of 29.\<close>

definition example_swap_host :: "nat \<Rightarrow> nat \<Rightarrow> host" where
  "example_swap_host a b =
     example_host [example_input [44, 133, 0, 0, 0] SPENDADDRESS (Some 10),
                   example_input [44, 133, 0, 0, 1] SPENDADDRESS (Some 20)]
                  [example_output ''t1dest'' [] PAYTOADDRESS 29]
                  [example_input [44, 133, 0, 0, 0] SPENDADDRESS (Some a),
                   example_input [44, 133, 0, 0, 1] SPENDADDRESS (Some b)]
                  [example_output ''t1dest'' [] PAYTOADDRESS 29]"

definition example_ztx2 :: SignTx where
  "example_ztx2 = (example_tx 4 2 1)\<lparr>tx_lock_time := 1, tx_expiry := 16909060\<rparr>"

definition example_swap_start :: self where
  "example_swap_start = projr (initialize Bitcoin (example_env False) example_ztx2 example_zcoin)"

text \<open>A host that declares 11 in phase 2 for an input it declared as 10 in phase 1, and
  one that does so with 35 for a segwit input it declared as 30.\<close>

definition example_greedy_zhost :: host where
  "example_greedy_zhost =
     example_host [example_input [44, 133, 0, 0, 0] SPENDADDRESS (Some 10)]
                  [example_output ''t1dest'' [] PAYTOADDRESS 9]
                  [example_input [44, 133, 0, 0, 0] SPENDADDRESS (Some 11)]
                  [example_output ''t1dest'' [] PAYTOADDRESS 9]"

definition example_greedy_segwit_host :: host where
  "example_greedy_segwit_host =
     example_host [example_input [49, 133, 0, 0, 0] SPENDP2SHWITNESS (Some 30)]
                  [example_output ''t1dest'' [] PAYTOADDRESS 29]
                  [example_input [49, 133, 0, 0, 0] SPENDP2SHWITNESS (Some 35)]
                  [example_output ''t1dest'' [] PAYTOADDRESS 29]"

text \<open>A transaction with an input of 10 that is not segwit and a segwit input of 20.\<close>

definition example_mixed_host :: host where
  "example_mixed_host =
     example_host [example_input [44, 133, 0, 0, 0] SPENDADDRESS (Some 10),
                   example_input [49, 133, 0, 0, 1] SPENDP2SHWITNESS (Some 20)]
                  [example_output ''t1dest'' [] PAYTOADDRESS 29]
                  [example_input [44, 133, 0, 0, 0] SPENDADDRESS (Some 10),
                   example_input [49, 133, 0, 0, 1] SPENDP2SHWITNESS (Some 20)]
                  [example_output ''t1dest'' [] PAYTOADDRESS 29]"

section \<open>Properties of the wallet path\<close>

lemma extract_None [simp]: "input_extract_wallet_path txi None = None"
  by (simp add: input_extract_wallet_path_def)

lemma foldl_extract_None [simp]:
  "foldl (\<lambda>wp txi. input_extract_wallet_path txi wp) None txis = None"
  by (induction txis) simp_all

lemma extract_Some:
  "wp \<noteq> [] \<Longrightarrow>
   input_extract_wallet_path a (Some wp) =
     (if drop_last BIP32_WALLET_DEPTH (txi_address_n a) = wp then Some wp else None)"
  by (auto simp add: input_extract_wallet_path_def Let_def)

lemma foldl_extract_Some:
  "wp \<noteq> [] \<Longrightarrow>
   foldl (\<lambda>wp txi. input_extract_wallet_path txi wp) (Some wp) txis =
     (if \<forall>a \<in> set txis. drop_last BIP32_WALLET_DEPTH (txi_address_n a) = wp
      then Some wp else None)"
  by (induction txis) (simp_all add: extract_Some)

lemma wallet_path_after_Cons:
  "wallet_path_after (a # txis) =
     (let p = drop_last BIP32_WALLET_DEPTH (txi_address_n a) in
      if p = [] then None
      else if \<forall>b \<in> set txis. drop_last BIP32_WALLET_DEPTH (txi_address_n b) = p
      then Some p else None)"
proof -
  have first: "input_extract_wallet_path a (Some []) =
      (let p = drop_last BIP32_WALLET_DEPTH (txi_address_n a) in if p = [] then None else Some p)"
    by (simp add: input_extract_wallet_path_def Let_def)
  show ?thesis
    unfolding wallet_path_after_def foldl_Cons first Let_def
    by (simp add: foldl_extract_Some)
qed

lemma wallet_path_after_None_iff:
  "wallet_path_after txis = None \<longleftrightarrow>
     (\<exists>a \<in> set txis. drop_last BIP32_WALLET_DEPTH (txi_address_n a) = []) \<or>
     (\<exists>a \<in> set txis. \<exists>b \<in> set txis.
        drop_last BIP32_WALLET_DEPTH (txi_address_n a) \<noteq>
        drop_last BIP32_WALLET_DEPTH (txi_address_n b))"
proof (cases txis)
  case Nil
  then show ?thesis by (simp add: wallet_path_after_def)
next
  case (Cons a rest)
  then show ?thesis
    unfolding Cons wallet_path_after_Cons Let_def
    by (auto split: if_splits)
qed

text \<open>
  C10. When some phase-1 input has a BIP-32 path that is empty once its last two levels
  are stripped, or two phase-1 inputs disagree on that stripped prefix, phase 1 leaves
  the wallet path absent (\<^term>\<open>None\<close>), and then \<^const>\<open>input_check_wallet_path\<close>
  accepts every phase-2 input, whatever its \<^verbatim>\<open>address_n\<close>: it returns without
  raising.
\<close>

theorem absent_wallet_path_accepts_any_input:
  assumes "(\<exists>a \<in> set txis. drop_last BIP32_WALLET_DEPTH (txi_address_n a) = []) \<or>
           (\<exists>a \<in> set txis. \<exists>b \<in> set txis.
              drop_last BIP32_WALLET_DEPTH (txi_address_n a) \<noteq>
              drop_last BIP32_WALLET_DEPTH (txi_address_n b))"
  shows "wallet_path_after txis = None \<and>
         input_check_wallet_path txi (wallet_path_after txis) = Inr ()"
proof -
  from assms have "wallet_path_after txis = None"
    by (simp only: wallet_path_after_None_iff)
  then show ?thesis
    by (simp add: input_check_wallet_path_def)
qed

theorem absent_wallet_path_accepts_any_input_witness:
  "drop_last BIP32_WALLET_DEPTH (txi_address_n (example_input [44] SPENDADDRESS None)) = [] \<and>
   wallet_path_after [example_input [44] SPENDADDRESS None] = None \<and>
   input_check_wallet_path (example_input [49, 0, 0, 1, 7] SPENDADDRESS None)
     (wallet_path_after [example_input [44] SPENDADDRESS None]) = Inr ()"
proof -
  have d: "drop_last BIP32_WALLET_DEPTH (txi_address_n (example_input [44] SPENDADDRESS None)) = []"
    by (simp add: example_input_def drop_last_def BIP32_WALLET_DEPTH_def)
  have "wallet_path_after [example_input [44] SPENDADDRESS None] = None \<and>
        input_check_wallet_path (example_input [49, 0, 0, 1, 7] SPENDADDRESS None)
          (wallet_path_after [example_input [44] SPENDADDRESS None]) = Inr ()"
    by (rule absent_wallet_path_accepts_any_input) (simp add: d)
  with d show ?thesis
    by (intro conjI) (erule conjunct1 | erule conjunct2 | assumption)+
qed

section \<open>The BIP-143 preimage\<close>









lemma example_env_sha256 [simp]: "sha256 (example_env bo) = (\<lambda>b. 83 # b)"
  by (simp add: example_env_def)

lemma example_env_scripts [simp]:
  "output_script_p2pkh (example_env bo) = (\<lambda>h. 118 # h)"
  "output_script_multisig (example_env bo) = (\<lambda>ks m. 174 # concat ks)"
  by (simp_all add: example_env_def)



section \<open>Reasoning about signer methods\<close>

lemma sbind_Inr_iff:
  "sbind m k s = (Inr b, s') \<longleftrightarrow> (\<exists>a s1. m s = (Inr a, s1) \<and> k a s1 = (Inr b, s'))"
  by (auto simp add: sbind_def split: prod.splits sum.splits)

lemma sbind_InrE:
  assumes "sbind m k s = (Inr b, s')"
  obtains a s1 where "m s = (Inr a, s1)" and "k a s1 = (Inr b, s')"
  using assms by (auto simp add: sbind_Inr_iff)


lemma sbind_Inl: "m s = (Inl e, s1) \<Longrightarrow> sbind m k s = (Inl e, s1)"
  by (simp add: sbind_def)

lemma sthen_Inr_iff:
  "sthen m n s = (Inr b, s') \<longleftrightarrow> (\<exists>s1. m s = (Inr (), s1) \<and> n s1 = (Inr b, s'))"
  by (simp add: sthen_def sbind_Inr_iff)

lemma sthen_Inr: "m s = (Inr (), s1) \<Longrightarrow> sthen m n s = n s1"
  by (simp add: sthen_def sbind_def)


lemma sreturn_apply [simp]: "sreturn a s = (Inr a, s)"
  by (simp add: sreturn_def)

lemma sraise_apply [simp]: "sraise e s = (Inl e, s)"
  by (simp add: sraise_def)

lemma sget_apply [simp]: "sget f s = (Inr (f s), s)"
  by (simp add: sget_def)

lemma smodify_apply [simp]: "smodify f s = (Inr (), f s)"
  by (simp add: smodify_def)

lemma slift_apply [simp]: "slift r s = (r, s)"
  by (simp add: slift_def)

lemma preservesD: "preserves \<pi> m \<Longrightarrow> m s = (r, s') \<Longrightarrow> \<pi> s' = \<pi> s"
  by (auto simp add: preserves_def)

lemma preserves_sreturn [preserves_intros]: "preserves \<pi> (sreturn a)"
  by (simp add: preserves_def)

lemma preserves_sraise [preserves_intros]: "preserves \<pi> (sraise e)"
  by (simp add: preserves_def)

lemma preserves_sget [preserves_intros]: "preserves \<pi> (sget f)"
  by (simp add: preserves_def)

lemma preserves_slift [preserves_intros]: "preserves \<pi> (slift r)"
  by (simp add: preserves_def)

lemma preserves_smodify: "(\<And>s. \<pi> (f s) = \<pi> s) \<Longrightarrow> preserves \<pi> (smodify f)"
  by (auto simp add: preserves_def)

lemma preserves_sbind [preserves_intros]:
  "preserves \<pi> m \<Longrightarrow> (\<And>a. preserves \<pi> (k a)) \<Longrightarrow> preserves \<pi> (sbind m k)"
  unfolding preserves_def sbind_def
  by (auto split: prod.splits sum.splits)

lemma preserves_sthen [preserves_intros]:
  "preserves \<pi> m \<Longrightarrow> preserves \<pi> n \<Longrightarrow> preserves \<pi> (sthen m n)"
  by (simp add: sthen_def preserves_sbind)

lemma preserves_sfold [preserves_intros]:
  "(\<And>x a. preserves \<pi> (f x a)) \<Longrightarrow> preserves \<pi> (sfold f xs a)"
  by (induction xs arbitrary: a) (auto intro!: preserves_intros)

lemma preserves_sfor [preserves_intros]:
  "(\<And>x. preserves \<pi> (f x)) \<Longrightarrow> preserves \<pi> (sfor xs f)"
  by (simp add: sfor_def preserves_sfold)

lemma preserves_if [preserves_intros]:
  "(b \<Longrightarrow> preserves \<pi> m) \<Longrightarrow> (\<not> b \<Longrightarrow> preserves \<pi> n) \<Longrightarrow> preserves \<pi> (if b then m else n)"
  by simp

lemma preserves_case_option [preserves_intros]:
  "(x = None \<Longrightarrow> preserves \<pi> m) \<Longrightarrow> (\<And>y. x = Some y \<Longrightarrow> preserves \<pi> (n y)) \<Longrightarrow>
   preserves \<pi> (case x of None \<Rightarrow> m | Some y \<Rightarrow> n y)"
  by (cases x) simp_all

lemma preserves_case_prod [preserves_intros]:
  "(\<And>a b. preserves \<pi> (m a b)) \<Longrightarrow> preserves \<pi> (case x of (a, b) \<Rightarrow> m a b)"
  by (cases x) simp

lemma preserves_case_prod_fun [preserves_intros]:
  "(\<And>a b. preserves \<pi> (m a b y)) \<Longrightarrow> preserves \<pi> ((case x of (a, b) \<Rightarrow> m a b) y)"
  by (cases x) simp

lemma preserves_case_hash143 [preserves_intros]:
  "(\<And>b. preserves \<pi> (f1 b)) \<Longrightarrow> (\<And>z. preserves \<pi> (f2 z)) \<Longrightarrow> (\<And>z. preserves \<pi> (f3 z)) \<Longrightarrow>
   (\<And>d. preserves \<pi> (f4 d)) \<Longrightarrow>
   preserves \<pi> (case h of HBip143 b \<Rightarrow> f1 b | HZip143 z \<Rightarrow> f2 z | HZip243 z \<Rightarrow> f3 z | HDecred d \<Rightarrow> f4 d)"
  by (cases h) simp_all

lemma preserves_case_class [preserves_intros]:
  "preserves \<pi> m \<Longrightarrow> preserves \<pi> n \<Longrightarrow>
   preserves \<pi> (case cls of Bitcoin \<Rightarrow> m | Decred \<Rightarrow> n)"
  by (cases cls) simp_all

lemma preserves_let [preserves_intros]:
  "preserves \<pi> (f x) \<Longrightarrow> preserves \<pi> (Let x f)"
  by simp

lemma preserves_on_hash143:
  "(\<And>s x. \<pi> (s\<lparr>self_hash143 := x\<rparr>) = \<pi> s) \<Longrightarrow> preserves \<pi> (on_hash143 f)"
  unfolding on_hash143_def by (auto intro!: preserves_intros preserves_smodify)

text \<open>A request touches the pending fragment and the record of requests; a confirmation
  touches the record of confirmations.\<close>

lemma preserves_request:
  "(\<And>s x y. \<pi> (s\<lparr>sent := x, self_tx_req_serialized := y\<rparr>) = \<pi> s) \<Longrightarrow>
   preserves \<pi> (request rt idx ph reply)"
  by (auto simp add: preserves_def request_def)

lemma preserves_confirm:
  "(\<And>s x. \<pi> (s\<lparr>asked := x\<rparr>) = \<pi> s) \<Longrightarrow> preserves \<pi> (confirm U call)"
  by (auto simp add: preserves_def confirm_def)

lemma quiet_request [preserves_intros]: "quiet \<pi> \<Longrightarrow> preserves \<pi> (request rt idx ph reply)"
  by (auto simp add: preserves_def request_def quiet_def)

lemma quiet_requests [preserves_intros]:
  "quiet \<pi> \<Longrightarrow> preserves \<pi> (request_tx_input i ph r1)"
  "quiet \<pi> \<Longrightarrow> preserves \<pi> (request_tx_output i ph r2)"
  "quiet \<pi> \<Longrightarrow> preserves \<pi> (request_tx_meta ph r3)"
  "quiet \<pi> \<Longrightarrow> preserves \<pi> (request_tx_extra_data ofs sz ph r4)"
  "quiet \<pi> \<Longrightarrow> preserves \<pi> request_tx_finish"
  by (simp_all add: request_tx_input_def request_tx_output_def request_tx_meta_def
      request_tx_extra_data_def request_tx_finish_def quiet_request)

lemma preserves_extra_data_loop [preserves_intros]:
  "quiet \<pi> \<Longrightarrow> preserves \<pi> (extra_data_loop ph len replies acc)"
proof (induction replies arbitrary: acc)
  case Nil
  then show ?case by (cases acc) (auto intro!: preserves_intros)
next
  case (Cons r rs)
  then show ?case by (cases acc) (auto intro!: preserves_intros)
qed

lemma preserves_get_prevtx_output_value [preserves_intros]:
  "quiet \<pi> \<Longrightarrow> preserves \<pi> (get_prevtx_output_value cls E P prev_hash prev_index)"
  unfolding get_prevtx_output_value_def Bitcoin_get_prevtx_output_value_def
    Decred_get_prevtx_output_value_def
  by (auto intro!: preserves_intros simp add: Let_def split: signer_class.splits)

section \<open>What phase 2 leaves unchanged\<close>

lemmas monad_splits = option.splits sum.splits prod.splits if_splits bool.splits

lemma preserves_input_checks [preserves_intros]:
  "preserves \<pi> (slift (input_check_wallet_path txi wp))"
  "preserves \<pi> (slift (input_check_multisig_fingerprint E txi fp))"
  by (rule preserves_slift)+

lemma phase2_quietD:
  "phase2_quiet \<pi> \<Longrightarrow> quiet \<pi>"
  "phase2_quiet \<pi> \<Longrightarrow> \<pi> (s\<lparr>self_bip143_in := x\<rparr>) = \<pi> s"
  "phase2_quiet \<pi> \<Longrightarrow> \<pi> (s\<lparr>self_tx_req_serialized := y\<rparr>) = \<pi> s"
  by (auto simp add: phase2_quiet_def quiet_def)

lemma preserves_phase2_serialize_segwit_input [preserves_intros]:
  "phase2_quiet \<pi> \<Longrightarrow> preserves \<pi> (phase2_serialize_segwit_input E H i)"
  unfolding phase2_serialize_segwit_input_def
  by (auto intro!: preserves_intros preserves_smodify simp add: Let_def phase2_quietD)

lemma preserves_phase2_sign_segwit_input [preserves_intros]:
  "phase2_quiet \<pi> \<Longrightarrow> preserves \<pi> (phase2_sign_segwit_input E H i)"
  unfolding phase2_sign_segwit_input_def
  by (auto intro!: preserves_intros preserves_smodify simp add: Let_def phase2_quietD)

lemma preserves_phase2_sign_bip143_input [preserves_intros]:
  "phase2_quiet \<pi> \<Longrightarrow> preserves \<pi> (phase2_sign_bip143_input E H i)"
  unfolding phase2_sign_bip143_input_def
  by (auto intro!: preserves_intros preserves_smodify simp add: Let_def phase2_quietD)

lemma preserves_legacy_stream_input [preserves_intros]:
  "phase2_quiet \<pi> \<Longrightarrow> preserves \<pi> (legacy_stream_input E H i_sign i acc)"
  unfolding legacy_stream_input_def
  by (auto intro!: preserves_intros preserves_smodify simp add: Let_def phase2_quietD
      split: prod.splits)

lemma preserves_legacy_stream_output [preserves_intros]:
  "phase2_quiet \<pi> \<Longrightarrow> preserves \<pi> (legacy_stream_output E H i_sign i acc)"
  unfolding legacy_stream_output_def
  by (auto intro!: preserves_intros preserves_smodify simp add: Let_def phase2_quietD
      split: prod.splits)

lemma preserves_legacy_streams [preserves_intros]:
  "phase2_quiet \<pi> \<Longrightarrow> preserves \<pi> (legacy_streams E H i_sign)"
  unfolding legacy_streams_def
  by (auto intro!: preserves_intros preserves_smodify simp add: Let_def phase2_quietD
      split: prod.splits)

lemma preserves_phase2_sign_legacy_input [preserves_intros]:
  "phase2_quiet \<pi> \<Longrightarrow> preserves \<pi> (phase2_sign_legacy_input E H i)"
  unfolding phase2_sign_legacy_input_def
  by (auto intro!: preserves_intros preserves_smodify simp add: Let_def phase2_quietD
      split: prod.splits)

lemma preserves_phase2_input [preserves_intros]:
  "phase2_quiet \<pi> \<Longrightarrow> preserves \<pi> (phase2_input E H i)"
  unfolding phase2_input_def
  by (auto intro!: preserves_intros)

lemma preserves_phase2_inputs [preserves_intros]:
  "phase2_quiet \<pi> \<Longrightarrow> preserves \<pi> (phase2_inputs E H)"
  unfolding phase2_inputs_def
  by (auto intro!: preserves_intros)

lemma preserves_phase2_serialize_output [preserves_intros]:
  "phase2_quiet \<pi> \<Longrightarrow> preserves \<pi> (phase2_serialize_output E H i)"
  unfolding phase2_serialize_output_def
  by (auto intro!: preserves_intros simp add: Let_def phase2_quietD split: prod.splits)

lemma preserves_phase2_outputs [preserves_intros]:
  "phase2_quiet \<pi> \<Longrightarrow> preserves \<pi> (phase2_outputs E H)"
  unfolding phase2_outputs_def phase2_output_def
  by (auto intro!: preserves_intros preserves_smodify simp add: Let_def phase2_quietD)

lemma preserves_phase2_witnesses [preserves_intros]:
  "phase2_quiet \<pi> \<Longrightarrow> preserves \<pi> (phase2_witnesses E H tx_ser)"
  unfolding phase2_witnesses_def phase2_witness_def
  by (auto intro!: preserves_intros preserves_smodify simp add: Let_def phase2_quietD
      split: prod.splits)


lemma stream_request:
  "request rt idx ph reply s = (r, s') \<Longrightarrow>
   stream s' = stream s @ serialized_bytes (self_tx_req_serialized s)"
  by (auto simp add: request_def stream_def)

lemma write_trailer_v3:
  "\<not> BITCOIN_ONLY E \<Longrightarrow> coin_overwintered c \<Longrightarrow> tx_version t = 3 \<Longrightarrow>
   write_trailer E c t w = Inr (w @ le_bytes 4 (tx_lock_time t) @ le_bytes 4 (tx_expiry t) @ varint 0)"
  by (simp add: write_trailer_def Let_def write_uint32_def write_varint_def)

lemma write_trailer_v4:
  "\<not> BITCOIN_ONLY E \<Longrightarrow> coin_overwintered c \<Longrightarrow> tx_version t = 4 \<Longrightarrow>
   write_trailer E c t w =
     Inr (w @ le_bytes 4 (tx_lock_time t) @ le_bytes 4 (tx_expiry t) @ le_bytes 8 0
            @ varint 0 @ varint 0 @ varint 0)"
  by (simp add: write_trailer_def Let_def write_uint32_def write_uint64_def write_varint_def)

lemma write_trailer_other:
  "\<not> BITCOIN_ONLY E \<Longrightarrow> coin_overwintered c \<Longrightarrow> tx_version t \<noteq> 3 \<Longrightarrow> tx_version t \<noteq> 4 \<Longrightarrow>
   write_trailer E c t w =
     Inl (SigningError (Some DataError) ''Unsupported version for overwintered transaction'')"
  by (simp add: write_trailer_def Let_def)

lemma phase2_finish_stream:
  assumes "phase2_finish E tx_ser s = (Inr (), s')"
  shows "\<exists>b b'. ser_serialized_tx tx_ser = Some b
           \<and> write_trailer E (self_coin s) (self_tx s) b = Inr b'
           \<and> stream s' = stream s @ b'"
proof (cases "ser_serialized_tx tx_ser")
  case None
  with assms show ?thesis by (simp add: phase2_finish_def sbind_def)
next
  case (Some b)
  show ?thesis
  proof (cases "write_trailer E (self_coin s) (self_tx s) b")
    case (Inl e)
    with assms Some show ?thesis by (simp add: phase2_finish_def sbind_def)
  next
    case (Inr b')
    with assms Some
    have "request_tx_finish
            (s\<lparr>self_tx_req_serialized := Some (tx_ser\<lparr>ser_serialized_tx := Some b'\<rparr>)\<rparr>)
          = (Inr (), s')"
      by (simp add: phase2_finish_def sbind_def sthen_def)
    then have "stream s' = stream s @ b'"
      by (auto simp add: request_tx_finish_def request_def stream_def serialized_bytes_def)
    with Some Inr show ?thesis by simp
  qed
qed

lemma phase2_quiet_coin_tx: "phase2_quiet (\<lambda>s. (self_coin s, self_tx s))"
  by (simp add: phase2_quiet_def quiet_def)

lemma Bitcoin_phase2_trailer:
  assumes "Bitcoin_phase2 E H s = (Inr (), s')"
  shows "\<exists>pre b'. write_trailer E (self_coin s) (self_tx s) [] = Inr b' \<and> stream s' = pre @ b'"
proof -
  from assms obtain s1 s2 tx_ser1 s3 tx_ser where
    st: "phase2_inputs E H (s\<lparr>self_tx_req_serialized := None\<rparr>) = (Inr (), s1)"
      "phase2_outputs E H s1 = (Inr tx_ser1, s2)"
      "phase2_witnesses E H tx_ser1 s2 = (Inr tx_ser, s3)"
      "phase2_finish E tx_ser s3 = (Inr (), s')"
    by (auto simp add: Bitcoin_phase2_def sthen_Inr_iff sbind_Inr_iff)
  let ?\<pi> = "\<lambda>s. (self_coin s, self_tx s)"
  have "?\<pi> s1 = ?\<pi> (s\<lparr>self_tx_req_serialized := None\<rparr>)"
    by (rule preservesD [OF preserves_phase2_inputs [OF phase2_quiet_coin_tx] st(1)])
  moreover have "?\<pi> s2 = ?\<pi> s1"
    by (rule preservesD [OF preserves_phase2_outputs [OF phase2_quiet_coin_tx] st(2)])
  moreover have "?\<pi> s3 = ?\<pi> s2"
    by (rule preservesD [OF preserves_phase2_witnesses [OF phase2_quiet_coin_tx] st(3)])
  ultimately have same: "self_coin s3 = self_coin s" "self_tx s3 = self_tx s"
    by simp_all
  from phase2_finish_stream [OF st(4)] obtain b b' where
    fin: "write_trailer E (self_coin s) (self_tx s) b = Inr b'" "stream s' = stream s3 @ b'"
    by (auto simp add: same)
  have app: "write_trailer E c t w = Inr w' \<Longrightarrow>
             \<exists>x. write_trailer E c t [] = Inr x \<and> w' = w @ x" for c t w w'
    by (auto simp add: write_trailer_def Let_def write_uint32_def write_uint64_def
        write_varint_def split: if_splits)
  from app [OF fin(1)] obtain x where
    "write_trailer E (self_coin s) (self_tx s) [] = Inr x" "b' = b @ x"
    by blast
  with fin(2) show ?thesis by auto
qed


section \<open>Running the signer on the example data\<close>

lemma example_env_sel [simp]:
  "BITCOIN_ONLY (example_env bo) = bo"
  "OVERWINTERED (example_env bo) = 0x80000000"
  "sha256 (example_env bo) = (\<lambda>b. 83 # b)"
  "blake256 (example_env bo) = (\<lambda>b. 66 # b)"
  "secp256k1_sign (example_env bo) = (\<lambda>k d. 0 # d)"
  "der_encode_seq (example_env bo) = concat"
  "keychain_derive (example_env bo) = (\<lambda>path curve. map of_nat path)"
  "public_key (example_env bo) = (\<lambda>n. n)"
  "private_key (example_env bo) = (\<lambda>n. n)"
  "output_script_p2pkh (example_env bo) = (\<lambda>h. 118 # h)"
  "output_script_p2sh (example_env bo) = (\<lambda>h. 169 # h)"
  "output_script_multisig (example_env bo) = (\<lambda>ks m. 174 # concat ks)"
  "output_script_native_p2wpkh_or_p2wsh (example_env bo) = (\<lambda>w. 0 # w)"
  "output_script_paytoopreturn (example_env bo) = (\<lambda>d. [106])"
  "input_script_p2pkh_or_p2sh (example_env bo) = (\<lambda>pk sg ht. pk)"
  "input_script_p2wsh_in_p2sh (example_env bo) = (\<lambda>h. 34 # h)"
  "input_script_p2wpkh_in_p2sh (example_env bo) = (\<lambda>h. 22 # h)"
  "input_script_native_p2wpkh_or_p2wsh (example_env bo) = []"
  "input_script_multisig (example_env bo) = (\<lambda>ms sg idx ht c. [0])"
  "witness_p2wsh (example_env bo) = (\<lambda>ms sg idx ht. 3 # sg)"
  "witness_p2wpkh (example_env bo) = (\<lambda>sg pk ht. 2 # sg)"
  "multisig_get_pubkeys (example_env bo) = ms_pubkeys"
  "multisig_pubkey_index (example_env bo) = (\<lambda>ms pk. Inr 0)"
  "multisig_fingerprint (example_env bo) = (\<lambda>ms. concat (ms_pubkeys ms))"
  "validate_full_path (example_env bo) = (\<lambda>path c st. True)"
  "ecdsa_hash_pubkey (example_env bo) = (\<lambda>pk c. pk)"
  "get_address (example_env bo) = (\<lambda>st c node ms. Inr ''change'')"
  "decode_bech32_address (example_env bo) = (\<lambda>p a. Inr [])"
  "cashaddr_decode (example_env bo) = (\<lambda>p a. Inr (0, []))"
  "cashaddr_ADDRESS_TYPE_P2KH (example_env bo) = 0"
  "cashaddr_ADDRESS_TYPE_P2SH (example_env bo) = 8"
  "base58_decode_check (example_env bo) = (\<lambda>a c. Some (0 # map (\<lambda>ch. of_nat (of_char ch)) a))"
  "address_type_check (example_env bo) = (\<lambda>ty raw. take 1 raw = [of_nat ty])"
  "address_type_strip (example_env bo) = (\<lambda>ty raw. drop 1 raw)"
  "tx_input_bytes (example_env bo) = (\<lambda>i. le_bytes 4 (txi_prev_index i) @ varint (length (txi_script_sig i)) @ txi_script_sig i @ le_bytes 4 (txi_sequence i))"
  "tx_input_check_bytes (example_env bo) = (\<lambda>i. le_bytes 4 (txi_prev_index i) @ le_bytes 4 (txi_sequence i) @ le_bytes 8 (case txi_amount i of None \<Rightarrow> 0 | Some a \<Rightarrow> a))"
  "tx_input_decred_bytes (example_env bo) = (\<lambda>i. le_bytes 4 (txi_prev_index i) @ le_bytes 4 (txi_sequence i))"
  "tx_input_decred_witness_bytes (example_env bo) = (\<lambda>i. varint (length (txi_script_sig i)) @ txi_script_sig i)"
  "weight_init (example_env bo) = (\<lambda>n_in n_out. 0)"
  "weight_add_input (example_env bo) = (\<lambda>w i. w + 1)"
  "weight_add_output (example_env bo) = (\<lambda>w script. w + 1)"
  "weight_get_total (example_env bo) = (\<lambda>w. 400 * w)"
  "int_truediv (example_env bo) = (\<lambda>a b. PyFloat (a * 1024 div b) (- 10))"
  "float_mul (example_env bo) = (\<lambda>x y. case x of PyFloat m e \<Rightarrow> (case y of PyFloat n f \<Rightarrow> PyFloat (m * n) (e + f)))"
  "int_gt_float (example_env bo) = (\<lambda>a x. case x of PyFloat m e \<Rightarrow> if 0 \<le> e then a > m * 2 ^ nat e else a * 2 ^ nat (- e) > m)"
  "CHANGE_OUTPUT_SCRIPT_TYPES (example_env bo) = [PAYTOADDRESS, PAYTOMULTISIG, PAYTOWITNESS, PAYTOP2SHWITNESS]"
  "CHANGE_OUTPUT_TO_INPUT_SCRIPT_TYPES (example_env bo) = (\<lambda>st. case st of PAYTOADDRESS \<Rightarrow> Some SPENDADDRESS | PAYTOMULTISIG \<Rightarrow> Some SPENDMULTISIG | PAYTOWITNESS \<Rightarrow> Some SPENDWITNESS | PAYTOP2SHWITNESS \<Rightarrow> Some SPENDP2SHWITNESS | _ \<Rightarrow> None)"
  "zip_init (example_env bo) = (\<lambda>v branch. [])"
  "zip_add_prevouts (example_env bo) = (\<lambda>z i. z)"
  "zip_add_sequence (example_env bo) = (\<lambda>z i. z)"
  "zip_add_output (example_env bo) = (\<lambda>z o_bin. z)"
  "zip_preimage_hash (example_env bo) = (\<lambda>z c t i pkh sighash. Inr [90])"
  by (simp_all add: example_env_def)

lemma example_host_sel [simp]:
  "STAGE_REQUEST_1_INPUT (example_host a b c d) = nth_reply a"
  "STAGE_REQUEST_2_PREV (example_host a b c d) = (\<lambda>i. example_prevtx 10)"
  "STAGE_REQUEST_3_OUTPUT (example_host a b c d) = nth_reply b"
  "STAGE_REQUEST_4_INPUT (example_host a b c d) = (\<lambda>i_sign. nth_reply c)"
  "STAGE_REQUEST_4_OUTPUT (example_host a b c d) = (\<lambda>i_sign. nth_reply d)"
  "STAGE_REQUEST_5_OUTPUT (example_host a b c d) = nth_reply d"
  "STAGE_REQUEST_SEGWIT_INPUT (example_host a b c d) = nth_reply c"
  "STAGE_REQUEST_SEGWIT_WITNESS (example_host a b c d) = nth_reply c"
  "STAGE_REQUEST_DECRED_WITNESS (example_host a b c d) = nth_reply c"
  by (simp_all add: example_host_def)

lemmas signer_defs =
  signer_def initialize_def init_hash143_def Bitcoin_init_hash143_def Decred_init_hash143_def
  phase1_def Bitcoin_phase1_def Decred_phase1_def phase1_loops_def phase1_inputs_def
  phase1_outputs_def
  phase1_fee_def phase1_process_input_def Bitcoin_phase1_process_input_def
  phase1_input_by_script_type_def
  Decred_phase1_process_input_def phase1_confirm_output_def Bitcoin_phase1_confirm_output_def
  Decred_phase1_confirm_output_def output_is_change_def output_derive_script_def
  address_to_script_def get_address_for_change_def
  phase2_def Bitcoin_phase2_def phase2_inputs_def phase2_input_def phase2_outputs_def
  phase2_output_def phase2_witnesses_def phase2_witness_def phase2_finish_def write_trailer_def
  phase2_serialize_segwit_input_def phase2_sign_segwit_input_def phase2_sign_bip143_input_def
  phase2_sign_legacy_input_def legacy_streams_def legacy_stream_input_def
  legacy_stream_output_def phase2_serialize_output_def input_derive_script_def
  on_hash143_def hash143_add_prevouts_def hash143_add_sequence_def hash143_add_output_def
  hash143_preimage_hash_def input_check_wallet_path_def input_extract_wallet_path_def
  input_check_multisig_fingerprint_def input_is_segwit_def write_tx_header_def any_segwit_def
  get_hash_type_def ecdsa_sign_def after_phase1_def changed_during_signing_def

lemmas monad_defs =
  sbind_def sthen_def sreturn_def sraise_def sget_def smodify_def slift_def sfor_def
  request_def request_tx_input_def request_tx_output_def request_tx_meta_def
  request_tx_extra_data_def request_tx_finish_def confirm_def

lemmas data_defs =
  example_input_def example_output_def example_coin_def example_tx_def nth_reply_def yes_def
  MultisigFingerprint_init_def MultisigFingerprint_add_def MultisigFingerprint_matches_def
  drop_last_def from_end_def BIP32_WALLET_DEPTH_def BIP32_CHANGE_CHAIN_def
  BIP32_MAX_LAST_ELEMENT_def startswith_def or_default_def SIGHASH_ALL_def SIGHASH_FORKID_def

lemmas writer_defs =
  write_tx_input_check_def write_tx_input_def write_tx_output_def write_tx_input_decred_def
  write_tx_input_decred_witness_def write_uint8_def write_uint16_def write_uint32_def
  write_uint64_def write_varint_def write_bytes_prefixed_def write_bytes_unchecked_def
  write_bytes_fixed_def write_bytes_reversed_def

section \<open>The end of the serialized transaction\<close>

text \<open>
  C9 (amended). In a build that is not Bitcoin-only, a phase 2 that completes for an
  overwintered coin has a transaction of version 3 or 4, and the serialized stream ends,
  after the lock time, with \<open>expiryHeight \<parallel> nJoinSplit = 0\<close> for version 3 and with
  \<open>expiryHeight \<parallel> valueBalance = 0 \<parallel> nShieldedSpend = 0 \<parallel> nShieldedOutput = 0 \<parallel>
  nJoinSplit = 0\<close> for version 4; for any other version writing the end of the
  transaction raises a data error.
\<close>

theorem overwintered_trailer:
  assumes "\<not> BITCOIN_ONLY E" and "coin_overwintered (self_coin s)"
  shows "(fst (Bitcoin_phase2 E H s) = Inr () \<longrightarrow>
          (tx_version (self_tx s) = 3 \<and>
            (\<exists>pre. stream (snd (Bitcoin_phase2 E H s)) =
               pre @ le_bytes 4 (tx_lock_time (self_tx s)) @ le_bytes 4 (tx_expiry (self_tx s))
                   @ varint 0))
        \<or> (tx_version (self_tx s) = 4 \<and>
            (\<exists>pre. stream (snd (Bitcoin_phase2 E H s)) =
               pre @ le_bytes 4 (tx_lock_time (self_tx s)) @ le_bytes 4 (tx_expiry (self_tx s))
                   @ le_bytes 8 0 @ varint 0 @ varint 0 @ varint 0)))
       \<and> (tx_version (self_tx s) \<noteq> 3 \<and> tx_version (self_tx s) \<noteq> 4 \<longrightarrow>
            write_trailer E (self_coin s) (self_tx s) w =
              Inl (SigningError (Some DataError)
                     ''Unsupported version for overwintered transaction''))"
proof (intro conjI impI)
  assume ok: "fst (Bitcoin_phase2 E H s) = Inr ()"
  then have run: "Bitcoin_phase2 E H s = (Inr (), snd (Bitcoin_phase2 E H s))"
    by (metis prod.collapse)
  from Bitcoin_phase2_trailer [OF run] obtain pre b' where
    tr: "write_trailer E (self_coin s) (self_tx s) [] = Inr b'"
        "stream (snd (Bitcoin_phase2 E H s)) = pre @ b'"
    by blast
  consider "tx_version (self_tx s) = 3" | "tx_version (self_tx s) = 4"
    | "tx_version (self_tx s) \<noteq> 3" "tx_version (self_tx s) \<noteq> 4"
    by blast
  then show "(tx_version (self_tx s) = 3 \<and>
            (\<exists>pre. stream (snd (Bitcoin_phase2 E H s)) =
               pre @ le_bytes 4 (tx_lock_time (self_tx s)) @ le_bytes 4 (tx_expiry (self_tx s))
                   @ varint 0))
        \<or> (tx_version (self_tx s) = 4 \<and>
            (\<exists>pre. stream (snd (Bitcoin_phase2 E H s)) =
               pre @ le_bytes 4 (tx_lock_time (self_tx s)) @ le_bytes 4 (tx_expiry (self_tx s))
                   @ le_bytes 8 0 @ varint 0 @ varint 0 @ varint 0))"
  proof cases
    case 1
    with tr write_trailer_v3 [OF assms(1,2) 1, of "[]"] show ?thesis by auto
  next
    case 2
    with tr write_trailer_v4 [OF assms(1,2) 2, of "[]"] show ?thesis by auto
  next
    case 3
    with tr write_trailer_other [OF assms(1,2) 3, of "[]"] show ?thesis by simp
  qed
next
  assume "tx_version (self_tx s) \<noteq> 3 \<and> tx_version (self_tx s) \<noteq> 4"
  then show "write_trailer E (self_coin s) (self_tx s) w =
     Inl (SigningError (Some DataError) ''Unsupported version for overwintered transaction'')"
    using write_trailer_other [OF assms(1,2)] by blast
qed

lemma example_z_phase1:
  "fst (phase1 Bitcoin (example_env False) example_zhost yes
          (projr (initialize Bitcoin (example_env False) (example_ztx v) example_zcoin))) = Inr ()"
  "self_coin (after_phase1 Bitcoin (example_env False) example_zhost yes (example_ztx v) example_zcoin)
     = example_zcoin"
  "self_tx (after_phase1 Bitcoin (example_env False) example_zhost yes (example_ztx v) example_zcoin)
     = example_ztx v"
  if "v = 3 \<or> v = 4"
  using that
  by (auto simp add: signer_defs monad_defs data_defs writer_defs example_zcoin_def
      example_ztx_def example_zhost_def Let_def)

lemma example_z_phase2:
  "Bitcoin_phase2 (example_env False) example_zhost
      (after_phase1 Bitcoin (example_env False) example_zhost yes (example_ztx v) example_zcoin)
   = (Inr (), snd (Bitcoin_phase2 (example_env False) example_zhost
      (after_phase1 Bitcoin (example_env False) example_zhost yes (example_ztx v) example_zcoin)))"
  if "v = 3 \<or> v = 4"
  using that
  by (auto simp add: signer_defs monad_defs data_defs writer_defs example_zcoin_def
      example_ztx_def example_zhost_def Let_def)


lemma le_bytes_unfold:
  "le_bytes 1 n = [of_nat n]"
  "le_bytes (Suc 0) n = [of_nat n]"
  "le_bytes 2 n = [of_nat n, of_nat (n div 256)]"
  "le_bytes 4 n = [of_nat n, of_nat (n div 256), of_nat (n div 65536), of_nat (n div 16777216)]"
  "le_bytes 8 n = [of_nat n, of_nat (n div 256), of_nat (n div 65536), of_nat (n div 16777216),
                   of_nat (n div 4294967296), of_nat (n div 1099511627776),
                   of_nat (n div 281474976710656), of_nat (n div 72057594037927936)]"
  by (simp_all add: le_bytes_def upt_rec [of _ "numeral k" for k] upt_rec [of _ "Suc k" for k]
      upt_rec [of _ 1])

text \<open>
  C9 as stated has the version-3 transaction end like the version-4 one, with a
  \<open>valueBalance\<close> and the counters of shielded spends and outputs. On the example
  transaction of version 3 the stream ends with the lock time, the expiry height and the
  single byte of \<open>nJoinSplit\<close>.
\<close>

theorem overwinter_v3_trailer_counterexample:
  "fst (Bitcoin_phase2 (example_env False) example_zhost
      (after_phase1 Bitcoin (example_env False) example_zhost yes (example_ztx 3) example_zcoin))
     = Inr ()
   \<and> drop (length (stream (snd (Bitcoin_phase2 (example_env False) example_zhost
      (after_phase1 Bitcoin (example_env False) example_zhost yes (example_ztx 3) example_zcoin)))) - 9)
        (stream (snd (Bitcoin_phase2 (example_env False) example_zhost
      (after_phase1 Bitcoin (example_env False) example_zhost yes (example_ztx 3) example_zcoin))))
     = le_bytes 4 1 @ le_bytes 4 16909060 @ varint 0
   \<and> drop (length (stream (snd (Bitcoin_phase2 (example_env False) example_zhost
      (after_phase1 Bitcoin (example_env False) example_zhost yes (example_ztx 3) example_zcoin)))) - 19)
        (stream (snd (Bitcoin_phase2 (example_env False) example_zhost
      (after_phase1 Bitcoin (example_env False) example_zhost yes (example_ztx 3) example_zcoin))))
     \<noteq> le_bytes 4 1 @ le_bytes 4 16909060 @ le_bytes 8 0 @ varint 0 @ varint 0 @ varint 0"
  by (simp add: signer_defs monad_defs data_defs writer_defs example_zcoin_def
      example_ztx_def example_zhost_def Let_def stream_def serialized_bytes_def le_bytes_unfold
      varint_def)

theorem overwintered_trailer_witness:
  "\<not> BITCOIN_ONLY (example_env False)
   \<and> coin_overwintered (self_coin
        (after_phase1 Bitcoin (example_env False) example_zhost yes (example_ztx 4) example_zcoin))
   \<and> fst (Bitcoin_phase2 (example_env False) example_zhost
        (after_phase1 Bitcoin (example_env False) example_zhost yes (example_ztx 4) example_zcoin))
       = Inr ()
   \<and> (\<exists>pre. stream (snd (Bitcoin_phase2 (example_env False) example_zhost
        (after_phase1 Bitcoin (example_env False) example_zhost yes (example_ztx 4) example_zcoin)))
       = pre @ le_bytes 4 1 @ le_bytes 4 16909060 @ le_bytes 8 0 @ varint 0 @ varint 0 @ varint 0)
   \<and> write_trailer (example_env False) example_zcoin (example_ztx 5) []
       = Inl (SigningError (Some DataError) ''Unsupported version for overwintered transaction'')"
proof -
  let ?E = "example_env False"
  let ?s = "after_phase1 Bitcoin ?E example_zhost yes (example_ztx 4) example_zcoin"
  have bo: "\<not> BITCOIN_ONLY ?E" by simp
  have c: "self_coin ?s = example_zcoin" and t: "self_tx ?s = example_ztx 4"
    by (simp_all add: example_z_phase1)
  have ow: "coin_overwintered (self_coin ?s)"
    unfolding c by (simp add: example_zcoin_def example_coin_def)
  have ok: "fst (Bitcoin_phase2 ?E example_zhost ?s) = Inr ()"
    using example_z_phase2 [of 4] by (metis fst_conv)
  have v: "tx_version (self_tx ?s) = 4" "tx_lock_time (self_tx ?s) = 1"
    "tx_expiry (self_tx ?s) = 16909060"
    unfolding t by (simp_all add: example_ztx_def example_tx_def)
  from overwintered_trailer [OF bo ow, of example_zhost "[]"] ok v
  have 1: "\<exists>pre. stream (snd (Bitcoin_phase2 ?E example_zhost ?s))
       = pre @ le_bytes 4 1 @ le_bytes 4 16909060 @ le_bytes 8 0 @ varint 0 @ varint 0 @ varint 0"
    by simp
  let ?s5 = "?s\<lparr>self_tx := example_ztx 5\<rparr>"
  have ow5: "coin_overwintered (self_coin ?s5)"
    using ow by simp
  have sc: "self_coin ?s5 = example_zcoin" using c by simp
  have st: "self_tx ?s5 = example_ztx 5" by simp
  have v5: "tx_version (example_ztx 5) \<noteq> 3 \<and> tx_version (example_ztx 5) \<noteq> 4"
    by (simp add: example_ztx_def example_tx_def)
  from overwintered_trailer [OF bo ow5, of example_zhost "[]", unfolded sc st] v5
  have 2: "write_trailer ?E example_zcoin (example_ztx 5) []
       = Inl (SigningError (Some DataError) ''Unsupported version for overwintered transaction'')"
    by blast
  from bo ow ok 1 2 show ?thesis by blast
qed

section \<open>What a method asks the user\<close>

lemma asks_onlyD:
  "asks_only A m \<Longrightarrow> m s = (r, s') \<Longrightarrow> \<exists>new. asked s' = asked s @ new \<and> set new \<subseteq> A"
  by (auto simp add: asks_only_def)

lemma preserves_asks_only: "preserves asked m \<Longrightarrow> asks_only A m"
  by (auto simp add: asks_only_def preserves_def)

lemma quiet_asked: "quiet asked"
  by (simp add: quiet_def)

lemma phase2_quiet_asked: "phase2_quiet asked"
  by (simp add: phase2_quiet_def quiet_def)

lemma asks_only_simple [asks_intros]:
  "asks_only A (sreturn a)"
  "asks_only A (sraise e)"
  "asks_only A (sget f)"
  "asks_only A (slift r)"
  "asks_only A (request rt idx ph reply)"
  "asks_only A (request_tx_input i ph r1)"
  "asks_only A (request_tx_output i ph r2)"
  "asks_only A (get_prevtx_output_value cls E P prev_hash prev_index)"
  by (auto intro!: preserves_asks_only preserves_intros quiet_asked)

lemma asks_only_smodify: "(\<And>s. asked (f s) = asked s) \<Longrightarrow> asks_only A (smodify f)"
  by (auto simp add: asks_only_def)

lemma asks_only_confirm: "call \<in> A \<Longrightarrow> asks_only A (confirm U call)"
  by (auto simp add: asks_only_def confirm_def)

lemma asks_only_sbind [asks_intros]:
  assumes "asks_only A m" and "\<And>a. asks_only A (k a)"
  shows "asks_only A (sbind m k)"
  unfolding asks_only_def
proof (intro allI impI)
  fix s r s'
  assume run: "sbind m k s = (r, s')"
  obtain r1 s1 where m: "m s = (r1, s1)" by (cases "m s")
  from asks_onlyD [OF assms(1) m] obtain new1 where
    n1: "asked s1 = asked s @ new1" "set new1 \<subseteq> A" by blast
  show "\<exists>new. asked s' = asked s @ new \<and> set new \<subseteq> A"
  proof (cases r1)
    case (Inl e)
    with run m have "s' = s1" by (simp add: sbind_def)
    with n1 show ?thesis by blast
  next
    case (Inr a)
    with run m have "k a s1 = (r, s')" by (simp add: sbind_def)
    from asks_onlyD [OF assms(2) this] obtain new2 where
      "asked s' = asked s1 @ new2" "set new2 \<subseteq> A" by blast
    with n1 have "asked s' = asked s @ (new1 @ new2) \<and> set (new1 @ new2) \<subseteq> A" by simp
    then show ?thesis by blast
  qed
qed

lemma asks_only_sthen [asks_intros]:
  "asks_only A m \<Longrightarrow> asks_only A n \<Longrightarrow> asks_only A (sthen m n)"
  by (simp add: sthen_def asks_only_sbind)

lemma asks_only_sfold [asks_intros]:
  "(\<And>x a. asks_only A (f x a)) \<Longrightarrow> asks_only A (sfold f xs a)"
  by (induction xs arbitrary: a) (auto intro!: asks_intros)

lemma asks_only_if [asks_intros]:
  "(b \<Longrightarrow> asks_only A m) \<Longrightarrow> (\<not> b \<Longrightarrow> asks_only A n) \<Longrightarrow> asks_only A (if b then m else n)"
  by simp

lemma asks_only_case_option [asks_intros]:
  "(x = None \<Longrightarrow> asks_only A m) \<Longrightarrow> (\<And>y. x = Some y \<Longrightarrow> asks_only A (n y)) \<Longrightarrow>
   asks_only A (case x of None \<Rightarrow> m | Some y \<Rightarrow> n y)"
  by (cases x) simp_all

lemma asks_only_case_prod [asks_intros]:
  "(\<And>a b. asks_only A (m a b)) \<Longrightarrow> asks_only A (case x of (a, b) \<Rightarrow> m a b)"
  by (cases x) simp

lemma asks_only_case_hash143 [asks_intros]:
  "(\<And>b. asks_only A (f1 b)) \<Longrightarrow> (\<And>z. asks_only A (f2 z)) \<Longrightarrow> (\<And>z. asks_only A (f3 z)) \<Longrightarrow>
   (\<And>d. asks_only A (f4 d)) \<Longrightarrow>
   asks_only A (case h of HBip143 b \<Rightarrow> f1 b | HZip143 z \<Rightarrow> f2 z | HZip243 z \<Rightarrow> f3 z | HDecred d \<Rightarrow> f4 d)"
  by (cases h) simp_all

lemma asks_only_case_class [asks_intros]:
  "asks_only A m \<Longrightarrow> asks_only A n \<Longrightarrow> asks_only A (case cls of Bitcoin \<Rightarrow> m | Decred \<Rightarrow> n)"
  by (cases cls) simp_all

lemma asks_only_on_hash143 [asks_intros]: "asks_only A (on_hash143 f)"
  unfolding on_hash143_def by (auto intro!: asks_intros asks_only_smodify)

lemma asks_only_phase1_process_input [asks_intros]:
  "asks_only {c. \<not> totals_call c} (phase1_process_input cls E H U i txi)"
  unfolding phase1_process_input_def Bitcoin_phase1_process_input_def
    Decred_phase1_process_input_def phase1_input_by_script_type_def
  by (auto intro!: asks_intros asks_only_smodify asks_only_confirm
      simp add: Let_def totals_call_def split: option.splits)

lemma asks_only_phase1_inputs [asks_intros]:
  "asks_only {c. \<not> totals_call c} (phase1_inputs cls E H U)"
  unfolding phase1_inputs_def
  by (auto intro!: asks_intros simp add: Let_def)

lemma asks_only_phase1_confirm_output [asks_intros]:
  "asks_only {c. \<not> totals_call c} (phase1_confirm_output cls E U i txo txo_bin)"
  unfolding phase1_confirm_output_def Bitcoin_phase1_confirm_output_def
    Decred_phase1_confirm_output_def on_decred_hasher_def
  by (auto intro!: asks_intros asks_only_smodify asks_only_confirm
      simp add: Let_def totals_call_def split: option.splits)

lemma asks_only_phase1_outputs [asks_intros]:
  "asks_only {c. \<not> totals_call c} (phase1_outputs cls E H U w)"
  unfolding phase1_outputs_def
  by (auto intro!: asks_intros simp add: Let_def)

section \<open>The fee check of phase 1\<close>









section \<open>Loops\<close>

lemma sfold_rule_pre:
  assumes step: "\<And>pre x a1 s1 a2 s2. I pre a1 s1 \<Longrightarrow> f x a1 s1 = (Inr a2, s2) \<Longrightarrow> I (pre @ [x]) a2 s2"
  shows "I pre a s \<Longrightarrow> sfold f xs a s = (Inr a', s') \<Longrightarrow> I (pre @ xs) a' s'"
proof (induction xs arbitrary: pre a s)
  case Nil
  then show ?case by simp
next
  case (Cons x xs)
  from Cons.prems(2) obtain a1 s1 where
    one: "f x a s = (Inr a1, s1)" and rest: "sfold f xs a1 s1 = (Inr a', s')"
    by (auto simp add: sbind_Inr_iff)
  from step [OF Cons.prems(1) one] have "I (pre @ [x]) a1 s1" .
  from Cons.IH [OF this rest] show ?case by simp
qed

lemma sfold_rule:
  assumes "sfold f xs a s = (Inr a', s')" and "I [] a s"
    and "\<And>pre x a1 s1 a2 s2. I pre a1 s1 \<Longrightarrow> f x a1 s1 = (Inr a2, s2) \<Longrightarrow> I (pre @ [x]) a2 s2"
  shows "I xs a' s'"
  using sfold_rule_pre [where I = I and pre = "[]", OF assms(3) assms(2) assms(1)] by simp

lemma sfor_rule:
  assumes "sfor xs f s = (Inr u, s')" and "I [] s"
    and "\<And>pre x s1 s2. I pre s1 \<Longrightarrow> f x s1 = (Inr (), s2) \<Longrightarrow> I (pre @ [x]) s2"
  shows "I xs s'"
proof -
  from assms(1) have run: "sfold (\<lambda>x _. f x) xs () s = (Inr u, s')"
    by (simp add: sfor_def)
  show ?thesis
    by (rule sfold_rule [where I = "\<lambda>pre _ s. I pre s", OF run assms(2)]) (simp add: assms(3))
qed

section \<open>The amounts of phase 2\<close>

lemma preserves_quiet_phase2 [preserves_intros]:
  "quiet \<pi> \<Longrightarrow> preserves \<pi> (phase2_serialize_segwit_input E H i)"
  "quiet \<pi> \<Longrightarrow> preserves \<pi> (phase2_sign_legacy_input E H i)"
  "quiet \<pi> \<Longrightarrow> preserves \<pi> (phase2_serialize_output E H i)"
  "quiet \<pi> \<Longrightarrow> preserves \<pi> (phase2_outputs E H)"
  unfolding phase2_serialize_segwit_input_def phase2_sign_legacy_input_def legacy_streams_def
    legacy_stream_input_def legacy_stream_output_def phase2_serialize_output_def
    phase2_outputs_def phase2_output_def
  by (auto intro!: preserves_intros preserves_smodify simp add: Let_def quiet_def
      split: prod.splits)

lemma quiet_bip143_in: "quiet self_bip143_in"
  by (simp add: quiet_def)

lemma phase2_sign_segwit_input_amount:
  assumes "phase2_sign_segwit_input E H i s = (Inr r, s')"
  shows "\<exists>txi a. STAGE_REQUEST_SEGWIT_WITNESS H i = Inr txi \<and> txi_amount txi = Some a
           \<and> input_is_segwit txi
           \<and> a \<le> self_bip143_in s \<and> self_bip143_in s' = self_bip143_in s - a"
  using assms
  by (cases "STAGE_REQUEST_SEGWIT_WITNESS H i")
     (auto simp add: phase2_sign_segwit_input_def monad_defs Let_def
        split: if_splits option.splits sum.splits prod.splits)

lemma phase2_sign_bip143_input_amount:
  assumes "phase2_sign_bip143_input E H i s = (Inr r, s')"
  shows "\<exists>txi a. STAGE_REQUEST_SEGWIT_INPUT H i = Inr txi \<and> txi_amount txi = Some a
           \<and> a \<le> self_bip143_in s \<and> self_bip143_in s' = self_bip143_in s - a"
  using assms
  by (cases "STAGE_REQUEST_SEGWIT_INPUT H i")
     (auto simp add: phase2_sign_bip143_input_def monad_defs Let_def
        split: if_splits option.splits sum.splits prod.splits)

lemma phase2_quiet_static: "phase2_quiet (\<lambda>s. (self_coin s, self_tx s, self_segwit s))"
  by (simp add: phase2_quiet_def quiet_def)

lemma phase2_input_amount:
  assumes "phase2_input E H i s = (Inr (), s')"
  shows "self_bip143_in s =
           self_bip143_in s'
           + (if map_of (self_segwit s) i = Some False \<and> bip143_forced E (self_coin s)
              then reply_amount (STAGE_REQUEST_SEGWIT_INPUT H i) else 0)"
proof (cases "map_of (self_segwit s) i")
  case None
  with assms show ?thesis by (simp add: phase2_input_def monad_defs)
next
  case (Some is_segwit)
  show ?thesis
  proof (cases is_segwit)
    case True
    with assms Some have "phase2_serialize_segwit_input E H i s = (Inr (), s')"
      by (simp add: phase2_input_def monad_defs)
    from preservesD [OF preserves_quiet_phase2(1) [OF quiet_bip143_in] this] Some True
    show ?thesis by simp
  next
    case False
    show ?thesis
    proof (cases "bip143_forced E (self_coin s)")
      case True
      with assms Some False have "phase2_sign_bip143_input E H i s = (Inr (), s')"
        by (simp add: phase2_input_def monad_defs bip143_forced_def)
      from phase2_sign_bip143_input_amount [OF this] Some False True
      show ?thesis by (auto simp add: reply_amount_def)
    next
      case nf: False
      then have c: "(\<not> BITCOIN_ONLY E
          \<and> (coin_force_bip143 (self_coin s) \<or> coin_overwintered (self_coin s))) = False"
        by (simp add: bip143_forced_def)
      from assms Some False have "phase2_sign_legacy_input E H i s = (Inr (), s')"
        by (simp add: phase2_input_def monad_defs c)
      from preservesD [OF preserves_quiet_phase2(2) [OF quiet_bip143_in] this] Some False nf
      show ?thesis by simp
    qed
  qed
qed

lemma phase2_witness_amount:
  assumes "phase2_witness E H any_sw i tx_ser s = (Inr tx_ser', s')"
  shows "self_bip143_in s =
           self_bip143_in s'
           + (if map_of (self_segwit s) i = Some True
              then reply_amount (STAGE_REQUEST_SEGWIT_WITNESS H i) else 0)"
proof (cases "map_of (self_segwit s) i")
  case None
  with assms show ?thesis by (simp add: phase2_witness_def monad_defs)
next
  case (Some is_segwit)
  show ?thesis
  proof (cases is_segwit)
    case True
    with assms Some obtain r s1 where "phase2_sign_segwit_input E H i s = (Inr r, s1)"
      and "self_bip143_in s' = self_bip143_in s1"
      by (auto simp add: phase2_witness_def monad_defs split: prod.splits sum.splits)
    with phase2_sign_segwit_input_amount [OF this(1)] Some True
    show ?thesis by (auto simp add: reply_amount_def)
  next
    case False
    with assms Some show ?thesis
      by (auto simp add: phase2_witness_def monad_defs split: option.splits if_splits)
  qed
qed

lemma phase2_inputs_amounts:
  assumes "phase2_inputs E H s = (Inr (), s')"
  shows "self_bip143_in s =
           self_bip143_in s'
           + (\<Sum>i\<leftarrow>[0..<tx_inputs_count (self_tx s)].
                if map_of (self_segwit s) i = Some False \<and> bip143_forced E (self_coin s)
                then reply_amount (STAGE_REQUEST_SEGWIT_INPUT H i) else 0)"
proof -
  let ?st = "\<lambda>s. (self_coin s, self_tx s, self_segwit s)"
  let ?g = "\<lambda>i. if map_of (self_segwit s) i = Some False \<and> bip143_forced E (self_coin s)
                then reply_amount (STAGE_REQUEST_SEGWIT_INPUT H i) else 0"
  from assms have run: "sfor [0..<tx_inputs_count (self_tx s)] (phase2_input E H) s = (Inr (), s')"
    by (simp add: phase2_inputs_def monad_defs)
  have "?st s' = ?st s \<and> self_bip143_in s = self_bip143_in s'
          + sum_list (map ?g [0..<tx_inputs_count (self_tx s)])"
  proof (rule sfor_rule [OF run, where I = "\<lambda>pre s1. ?st s1 = ?st s \<and> self_bip143_in s =
      self_bip143_in s1 + sum_list (map ?g pre)"], goal_cases)
    case 1
    show ?case by simp
  next
    case (2 pre x s1 s2)
    from preservesD [OF preserves_phase2_input [OF phase2_quiet_static] 2(2)]
    have "?st s2 = ?st s1" .
    with 2(1) phase2_input_amount [OF 2(2)] show ?case by simp
  qed
  then show ?thesis by simp
qed

lemma phase2_witnesses_amounts:
  assumes "phase2_witnesses E H tx_ser s = (Inr tx_ser', s')"
  shows "self_bip143_in s =
           self_bip143_in s'
           + (\<Sum>i\<leftarrow>[0..<tx_inputs_count (self_tx s)].
                if map_of (self_segwit s) i = Some True
                then reply_amount (STAGE_REQUEST_SEGWIT_WITNESS H i) else 0)"
proof -
  let ?st = "\<lambda>s. (self_coin s, self_tx s, self_segwit s)"
  let ?g = "\<lambda>i. if map_of (self_segwit s) i = Some True
                then reply_amount (STAGE_REQUEST_SEGWIT_WITNESS H i) else 0"
  from assms have run: "sfold (phase2_witness E H (any_segwit s))
      [0..<tx_inputs_count (self_tx s)] tx_ser s = (Inr tx_ser', s')"
    by (simp add: phase2_witnesses_def monad_defs)
  have pw: "preserves ?st (phase2_witness E H b i ts)" for b i ts
    unfolding phase2_witness_def
    by (auto intro!: preserves_intros preserves_smodify phase2_quiet_static
        simp add: Let_def split: prod.splits)
  have "?st s' = ?st s \<and> self_bip143_in s = self_bip143_in s'
          + sum_list (map ?g [0..<tx_inputs_count (self_tx s)])"
  proof (rule sfold_rule [OF run, where I = "\<lambda>pre a s1. ?st s1 = ?st s \<and> self_bip143_in s =
      self_bip143_in s1 + sum_list (map ?g pre)"], goal_cases)
    case 1
    show ?case by simp
  next
    case (2 pre x a1 s1 a2 s2)
    from preservesD [OF pw 2(2)] have "?st s2 = ?st s1" .
    with 2(1) phase2_witness_amount [OF 2(2)] show ?case by simp
  qed
  then show ?thesis by simp
qed

lemma sum_list_phase2_amount:
  "(\<Sum>i\<leftarrow>xs. if map_of (self_segwit s) i = Some False \<and> bip143_forced E (self_coin s)
                then reply_amount (STAGE_REQUEST_SEGWIT_INPUT H i) else 0)
   + (\<Sum>i\<leftarrow>xs. if map_of (self_segwit s) i = Some True
                then reply_amount (STAGE_REQUEST_SEGWIT_WITNESS H i) else 0)
   = (\<Sum>i\<leftarrow>xs. phase2_amount E H s i)"
  by (induction xs) (auto simp add: phase2_amount_def split: option.splits)

lemma Bitcoin_phase2_amounts:
  assumes "Bitcoin_phase2 E H s = (Inr (), s')"
  shows "(\<Sum>i\<leftarrow>[0..<tx_inputs_count (self_tx s)]. phase2_amount E H s i) \<le> self_bip143_in s"
proof -
  let ?s0 = "s\<lparr>self_tx_req_serialized := None\<rparr>"
  let ?st = "\<lambda>s. (self_coin s, self_tx s, self_segwit s)"
  from assms obtain s1 s2 tx_ser1 s3 tx_ser where
    st: "phase2_inputs E H ?s0 = (Inr (), s1)"
      "phase2_outputs E H s1 = (Inr tx_ser1, s2)"
      "phase2_witnesses E H tx_ser1 s2 = (Inr tx_ser, s3)"
    by (auto simp add: Bitcoin_phase2_def sthen_Inr_iff sbind_Inr_iff)
  have "?st s1 = ?st ?s0"
    by (rule preservesD [OF preserves_phase2_inputs [OF phase2_quiet_static] st(1)])
  moreover have "?st s2 = ?st s1"
    by (rule preservesD [OF preserves_phase2_outputs [OF phase2_quiet_static] st(2)])
  ultimately have same: "?st s2 = ?st s" by simp
  have b12: "self_bip143_in s2 = self_bip143_in s1"
    by (rule preservesD [OF preserves_quiet_phase2(4) [OF quiet_bip143_in] st(2)])
  from phase2_inputs_amounts [OF st(1)] phase2_witnesses_amounts [OF st(3)] same b12
  have "self_bip143_in s = self_bip143_in s3
      + ((\<Sum>i\<leftarrow>[0..<tx_inputs_count (self_tx s)].
            if map_of (self_segwit s) i = Some False \<and> bip143_forced E (self_coin s)
            then reply_amount (STAGE_REQUEST_SEGWIT_INPUT H i) else 0)
       + (\<Sum>i\<leftarrow>[0..<tx_inputs_count (self_tx s)].
            if map_of (self_segwit s) i = Some True
            then reply_amount (STAGE_REQUEST_SEGWIT_WITNESS H i) else 0))"
    by simp
  then show ?thesis
    unfolding sum_list_phase2_amount by simp
qed

section \<open>The effect of phase 1 on the state\<close>

lemma quiet_core: "quiet core"
  by (simp add: quiet_def core_def)

lemma core_fields:
  assumes "core s' = core s"
  shows "self_coin s' = self_coin s" "self_tx s' = self_tx s"
    "self_multisig_fp s' = self_multisig_fp s" "self_wallet_path s' = self_wallet_path s"
    "self_bip143_in s' = self_bip143_in s" "self_segwit s' = self_segwit s"
    "self_total_in s' = self_total_in s" "self_total_out s' = self_total_out s"
    "self_change_out s' = self_change_out s" "self_h_first s' = self_h_first s"
    "self_hash143 s' = self_hash143 s" "self_last_output_bytes s' = self_last_output_bytes s"
    "asked s' = asked s"
proof -
  have "self_coin (core s') = self_coin (core s)" "self_tx (core s') = self_tx (core s)"
    "self_multisig_fp (core s') = self_multisig_fp (core s)"
    "self_wallet_path (core s') = self_wallet_path (core s)"
    "self_bip143_in (core s') = self_bip143_in (core s)"
    "self_segwit (core s') = self_segwit (core s)"
    "self_total_in (core s') = self_total_in (core s)"
    "self_total_out (core s') = self_total_out (core s)"
    "self_change_out (core s') = self_change_out (core s)"
    "self_h_first (core s') = self_h_first (core s)"
    "self_hash143 (core s') = self_hash143 (core s)"
    "self_last_output_bytes (core s') = self_last_output_bytes (core s)"
    "asked (core s') = asked (core s)"
    by (simp_all only: assms)
  then show "self_coin s' = self_coin s" "self_tx s' = self_tx s"
    "self_multisig_fp s' = self_multisig_fp s" "self_wallet_path s' = self_wallet_path s"
    "self_bip143_in s' = self_bip143_in s" "self_segwit s' = self_segwit s"
    "self_total_in s' = self_total_in s" "self_total_out s' = self_total_out s"
    "self_change_out s' = self_change_out s" "self_h_first s' = self_h_first s"
    "self_hash143 s' = self_hash143 s" "self_last_output_bytes s' = self_last_output_bytes s"
    "asked s' = asked s"
    by (simp_all add: core_def)
qed

lemma get_prevtx_output_value_core:
  "get_prevtx_output_value cls E P prev_hash prev_index s = (r, s') \<Longrightarrow> core s' = core s"
  by (rule preservesD [OF preserves_get_prevtx_output_value [OF quiet_core]])

lemma on_hash143_InrD:
  "on_hash143 f s = (Inr u, s') \<Longrightarrow>
   \<exists>h'. f (self_hash143 s) = Inr h' \<and> s' = s\<lparr>self_hash143 := h'\<rparr>"
  by (auto simp add: on_hash143_def sbind_def split: sum.splits)

lemma phase1_input_by_script_type_effect:
  assumes "phase1_input_by_script_type cls E H i txi c s = (Inr (), s')"
  shows "self_coin s' = self_coin s" "self_tx s' = self_tx s"
    "self_wallet_path s' = self_wallet_path s" "self_h_first s' = self_h_first s"
    "self_hash143 s' = self_hash143 s"
    "self_segwit s' = AList.update i (input_is_segwit txi) (self_segwit s)"
    "self_bip143_in s' = self_bip143_in s
       + (if counts_for_bip143 E c txi then reply_amount (Inr txi) else 0)"
    "self_change_out s' = self_change_out s" "self_total_out s' = self_total_out s"
    "self_last_output_bytes s' = self_last_output_bytes s"
  using assms
  unfolding phase1_input_by_script_type_def
  by (auto simp add: sthen_Inr_iff sbind_Inr_iff input_is_segwit_def counts_for_bip143_def
      bip143_forced_def reply_amount_def
      split: if_splits option.splits
      dest!: get_prevtx_output_value_core dest: core_fields)

lemma foreign_address_confirm_effect:
  assumes "(if b then sbind (confirm U call) (\<lambda>_. sreturn ()) else sreturn ()) s = (Inr (), s')"
  shows "\<exists>x. s' = s\<lparr>asked := x\<rparr>"
  using assms
  by (cases b) (auto simp add: confirm_def sbind_def intro: exI [of _ "asked s"])

lemma Bitcoin_phase1_process_input_effect:
  assumes "Bitcoin_phase1_process_input cls E H U i txi s = (Inr (), s')"
  shows "self_coin s' = self_coin s" "self_tx s' = self_tx s"
    "self_wallet_path s' = input_extract_wallet_path txi (self_wallet_path s)"
    "self_h_first s' = write_tx_input_check E (self_h_first s) txi"
    "self_hash143 s' = projr (hash143_add_sequence E
                                (projr (hash143_add_prevouts E (self_hash143 s) txi)) txi)"
    "self_segwit s' = AList.update i (input_is_segwit txi) (self_segwit s)"
    "self_bip143_in s' = self_bip143_in s
       + (if counts_for_bip143 E (self_coin s) txi then reply_amount (Inr txi) else 0)"
    "self_change_out s' = self_change_out s" "self_total_out s' = self_total_out s"
    "self_last_output_bytes s' = self_last_output_bytes s"
proof -
  let ?fp = "\<lambda>s. case txi_multisig txi of
                Some ms \<Rightarrow> s\<lparr>self_multisig_fp := MultisigFingerprint_add E (self_multisig_fp s) ms\<rparr>
              | None \<Rightarrow> s\<lparr>self_multisig_fp := (self_multisig_fp s)\<lparr>fp_mismatch := True\<rparr>\<rparr>"
  from assms obtain s2 s3 s4 s5 where
    s2: "s2 = s\<lparr>self_wallet_path := input_extract_wallet_path txi (self_wallet_path s),
                 self_h_first := write_tx_input_check E (self_h_first s) txi\<rparr>"
    and a: "on_hash143 (\<lambda>h. hash143_add_prevouts E h txi) s2 = (Inr (), s3)"
    and b: "on_hash143 (\<lambda>h. hash143_add_sequence E h txi) s3 = (Inr (), s4)"
    and c: "(if \<not> validate_full_path E (txi_address_n txi) (self_coin s4) (txi_script_type txi)
             then sbind (confirm U (UiConfirmForeignAddress (txi_address_n txi))) (\<lambda>_. sreturn ())
             else sreturn ()) s4 = (Inr (), s5)"
    and d: "phase1_input_by_script_type cls E H i txi (self_coin s4) (?fp s5) = (Inr (), s')"
    unfolding Bitcoin_phase1_process_input_def
    by (auto simp add: sthen_Inr_iff sbind_Inr_iff)
  from on_hash143_InrD [OF a] obtain h1 where
    h1: "hash143_add_prevouts E (self_hash143 s2) txi = Inr h1" "s3 = s2\<lparr>self_hash143 := h1\<rparr>"
    by blast
  from on_hash143_InrD [OF b] obtain h2 where
    h2: "hash143_add_sequence E (self_hash143 s3) txi = Inr h2" "s4 = s3\<lparr>self_hash143 := h2\<rparr>"
    by blast
  from foreign_address_confirm_effect [OF c] obtain x where s5: "s5 = s4\<lparr>asked := x\<rparr>"
    by blast
  have fp: "self_coin (?fp s5) = self_coin s5" "self_tx (?fp s5) = self_tx s5"
    "self_wallet_path (?fp s5) = self_wallet_path s5" "self_h_first (?fp s5) = self_h_first s5"
    "self_hash143 (?fp s5) = self_hash143 s5" "self_segwit (?fp s5) = self_segwit s5"
    "self_bip143_in (?fp s5) = self_bip143_in s5" "self_change_out (?fp s5) = self_change_out s5"
    "self_total_out (?fp s5) = self_total_out s5"
    "self_last_output_bytes (?fp s5) = self_last_output_bytes s5"
    by (simp_all split: option.splits)
  note e = phase1_input_by_script_type_effect [OF d]
  have hh: "self_hash143 s4 = projr (hash143_add_sequence E
                                (projr (hash143_add_prevouts E (self_hash143 s) txi)) txi)"
    using h1 h2 by (simp add: s2)
  have c4: "self_coin s4 = self_coin s" by (simp add: h2 h1 s2)
  show "self_coin s' = self_coin s" "self_tx s' = self_tx s"
    "self_wallet_path s' = input_extract_wallet_path txi (self_wallet_path s)"
    "self_h_first s' = write_tx_input_check E (self_h_first s) txi"
    "self_segwit s' = AList.update i (input_is_segwit txi) (self_segwit s)"
    "self_change_out s' = self_change_out s" "self_total_out s' = self_total_out s"
    "self_last_output_bytes s' = self_last_output_bytes s"
    by (simp_all add: e fp s5 h2(2) h1(2) s2)
  show "self_hash143 s' = projr (hash143_add_sequence E
                                (projr (hash143_add_prevouts E (self_hash143 s) txi)) txi)"
    using hh by (simp add: e(5) fp s5)
  show "self_bip143_in s' = self_bip143_in s
       + (if counts_for_bip143 E (self_coin s) txi then reply_amount (Inr txi) else 0)"
    by (simp add: e(7) fp s5 h2(2) h1(2) s2 c4)
qed

lemma request_Inr:
  "request rt idx ph reply s = (Inr a, s') \<Longrightarrow> reply = Inr a \<and> core s' = core s"
  by (auto simp add: request_def core_def)

lemma phase1_process_input_effect:
  assumes "phase1_process_input cls E H U i txi s = (Inr (), s')"
  shows "self_coin s' = self_coin s" "self_tx s' = self_tx s"
    "self_wallet_path s' = input_extract_wallet_path txi (self_wallet_path s)"
    "self_h_first s' = write_tx_input_check E (self_h_first s) txi"
    "self_hash143 s' = projr (hash143_add_sequence E
                                (projr (hash143_add_prevouts E (self_hash143 s) txi)) txi)"
    "self_segwit s' = AList.update i (input_is_segwit txi) (self_segwit s)"
    "self_bip143_in s' = self_bip143_in s
       + (if counts_for_bip143 E (self_coin s) txi then reply_amount (Inr txi) else 0)"
    "self_change_out s' = self_change_out s" "self_total_out s' = self_total_out s"
    "self_last_output_bytes s' = self_last_output_bytes s"
proof -
  obtain s1 where b: "Bitcoin_phase1_process_input cls E H U i txi s = (Inr (), s1)"
    and c: "self_coin s' = self_coin s1" "self_tx s' = self_tx s1"
      "self_wallet_path s' = self_wallet_path s1" "self_h_first s' = self_h_first s1"
      "self_hash143 s' = self_hash143 s1" "self_segwit s' = self_segwit s1"
      "self_bip143_in s' = self_bip143_in s1" "self_change_out s' = self_change_out s1"
      "self_total_out s' = self_total_out s1"
      "self_last_output_bytes s' = self_last_output_bytes s1"
    using assms
    by (cases cls)
       (auto simp add: phase1_process_input_def Decred_phase1_process_input_def sthen_Inr_iff
          Let_def)
  from Bitcoin_phase1_process_input_effect [OF b] c
  show "self_coin s' = self_coin s" "self_tx s' = self_tx s"
    "self_wallet_path s' = input_extract_wallet_path txi (self_wallet_path s)"
    "self_h_first s' = write_tx_input_check E (self_h_first s) txi"
    "self_hash143 s' = projr (hash143_add_sequence E
                                (projr (hash143_add_prevouts E (self_hash143 s) txi)) txi)"
    "self_segwit s' = AList.update i (input_is_segwit txi) (self_segwit s)"
    "self_bip143_in s' = self_bip143_in s
       + (if counts_for_bip143 E (self_coin s) txi then reply_amount (Inr txi) else 0)"
    "self_change_out s' = self_change_out s" "self_total_out s' = self_total_out s"
    "self_last_output_bytes s' = self_last_output_bytes s"
    by simp_all
qed

lemma phase1_inputs_effect:
  assumes "phase1_inputs cls E H U s = (Inr w, s')"
  shows "inputs_done E H s [0..<tx_inputs_count (self_tx s)] s'"
proof -
  from assms have run:
    "sfold (\<lambda>i weight.
              sbind (request_tx_input i None (STAGE_REQUEST_1_INPUT H i)) (\<lambda>txi.
              let weight = weight_add_input E weight txi in
              sthen (phase1_process_input cls E H U i txi) (sreturn weight)))
       [0..<tx_inputs_count (self_tx s)]
       (weight_init E (tx_inputs_count (self_tx s)) (tx_outputs_count (self_tx s))) s
     = (Inr w, s')"
    by (simp add: phase1_inputs_def sbind_def sget_def)
  show ?thesis
  proof (rule sfold_rule [OF run, where I = "\<lambda>pre a s1. inputs_done E H s pre s1"], goal_cases)
    case 1
    show ?case by (simp add: inputs_done_def)
  next
    case (2 pre x a1 s1 a2 s2)
    from 2(2) obtain txi sa where
      req: "request TXINPUT (Some x) None (STAGE_REQUEST_1_INPUT H x) s1 = (Inr txi, sa)"
      and step: "phase1_process_input cls E H U x txi sa = (Inr (), s2)"
      by (auto simp add: sbind_Inr_iff sthen_Inr_iff request_tx_input_def Let_def)
    from request_Inr [OF req] have reply: "STAGE_REQUEST_1_INPUT H x = Inr txi"
      and co: "core sa = core s1" by simp_all
    from reply have txi: "phase1_input H x = txi" by (simp add: phase1_input_def)
    have amt: "phase1_amount E H (self_coin s) x =
        (if counts_for_bip143 E (self_coin s) txi then reply_amount (Inr txi) else 0)"
      by (simp add: phase1_amount_def reply counts_for_bip143_def)
    note eff = phase1_process_input_effect [OF step]
    note cf = core_fields [OF co]
    from 2(1) have coin: "self_coin s1 = self_coin s" by (simp add: inputs_done_def)
    from 2(1) show ?case
      unfolding inputs_done_def
      by (simp add: eff cf txi amt coin reply write_tx_input_check_def)
  qed
qed

lemma quiet_inputs_part: "quiet inputs_part"
  by (simp add: quiet_def inputs_part_def)

lemma preserves_inputs_part_outputs:
  "preserves inputs_part (phase1_outputs cls E H U w)"
  unfolding phase1_outputs_def phase1_confirm_output_def Bitcoin_phase1_confirm_output_def
    Decred_phase1_confirm_output_def on_decred_hasher_def
  by (auto intro!: preserves_intros preserves_smodify preserves_confirm quiet_inputs_part
      simp add: Let_def inputs_part_def split: prod.splits)

lemma preserves_inputs_part_fee:
  "preserves inputs_part (phase1_fee E U w)"
  unfolding phase1_fee_def
  by (auto intro!: preserves_intros preserves_smodify preserves_confirm quiet_inputs_part
      simp add: Let_def inputs_part_def)

lemma phase1_inputs_part:
  assumes "phase1 cls E H U s = (Inr (), s')"
  obtains w s1 where "phase1_inputs cls E H U s = (Inr w, s1)"
    and "inputs_part s' = inputs_part s1"
proof -
  have bp: "\<exists>w s1. phase1_inputs cls' E H U s = (Inr w, s1) \<and> inputs_part s2 = inputs_part s1"
    if "Bitcoin_phase1 cls' E H U s = (Inr (), s2)" for cls' s2
  proof -
    from that obtain w s1 w2 sb where
      i: "phase1_inputs cls' E H U s = (Inr w, s1)"
      and o: "phase1_outputs cls' E H U w s1 = (Inr w2, sb)"
      and f: "phase1_fee E U w2 sb = (Inr (), s2)"
      by (auto simp add: Bitcoin_phase1_def phase1_loops_def sbind_Inr_iff)
    from preservesD [OF preserves_inputs_part_outputs o]
      preservesD [OF preserves_inputs_part_fee f] i
    show ?thesis by simp
  qed
  show ?thesis
  proof (cases cls)
    case Bitcoin
    with assms bp [of Bitcoin s'] that show ?thesis
      by (auto simp add: phase1_def)
  next
    case Decred
    have pr: "preserves inputs_part
        (sbind (sget self_tx) (\<lambda>t. on_decred_hasher (\<lambda>d. Decred_add_locktime_expiry d t)))"
      unfolding on_decred_hasher_def
      by (auto intro!: preserves_intros preserves_smodify simp add: inputs_part_def)
    from Decred assms obtain s2 where b: "Bitcoin_phase1 Decred E H U s = (Inr (), s2)"
      and r: "sbind (sget self_tx) (\<lambda>t. on_decred_hasher (\<lambda>d. Decred_add_locktime_expiry d t)) s2
              = (Inr (), s')"
      by (auto simp add: phase1_def Decred_phase1_def sthen_Inr_iff)
    from preservesD [OF pr r] have d: "inputs_part s' = inputs_part s2" .
    with bp [OF b] Decred that show ?thesis by auto
  qed
qed

lemma map_of_segwit_foldl:
  "map_of (foldl (\<lambda>d i. AList.update i (f i) d) d0 [0..<n]) j =
     (if j < n then Some (f j) else map_of d0 j)"
  by (induction n) (auto simp add: update_conv')

lemma bip143_sum_bounded:
  assumes "self_bip143_in s = 0" and "self_segwit s = []"
    and "fst (phase1 Bitcoin E H U s) = Inr ()"
    and "fst (Bitcoin_phase2 E H (snd (phase1 Bitcoin E H U s))) = Inr ()"
  shows "(\<Sum>i\<leftarrow>[0..<tx_inputs_count (self_tx s)]. phase2_declared E H (self_coin s) i)
         \<le> (\<Sum>i\<leftarrow>[0..<tx_inputs_count (self_tx s)]. phase1_amount E H (self_coin s) i)"
proof -
  let ?s1 = "snd (phase1 Bitcoin E H U s)"
  let ?n = "tx_inputs_count (self_tx s)"
  from assms(3) have p1: "phase1 Bitcoin E H U s = (Inr (), ?s1)" by (metis prod.collapse)
  from assms(4) have p2: "Bitcoin_phase2 E H ?s1 = (Inr (), snd (Bitcoin_phase2 E H ?s1))"
    by (metis prod.collapse)
  from phase1_inputs_part [OF p1] obtain w sa where
    i: "phase1_inputs Bitcoin E H U s = (Inr w, sa)" and ip: "inputs_part ?s1 = inputs_part sa"
    by blast
  from phase1_inputs_effect [OF i] have dn: "inputs_done E H s [0..<?n] sa" .
  from dn ip have coin: "self_coin ?s1 = self_coin s" and t: "self_tx ?s1 = self_tx s"
    and b: "self_bip143_in ?s1 = (\<Sum>i\<leftarrow>[0..<?n]. phase1_amount E H (self_coin s) i)"
    and sw: "self_segwit ?s1 =
        foldl (\<lambda>d i. AList.update i (input_is_segwit (phase1_input H i)) d) [] [0..<?n]"
    by (simp_all add: inputs_done_def inputs_part_def assms(1,2))
  have "phase2_amount E H ?s1 i = phase2_declared E H (self_coin s) i" if "i < ?n" for i
    using that by (simp add: phase2_amount_def phase2_declared_def sw map_of_segwit_foldl coin)
  then have "(\<Sum>i\<leftarrow>[0..<?n]. phase2_amount E H ?s1 i)
      = (\<Sum>i\<leftarrow>[0..<?n]. phase2_declared E H (self_coin s) i)"
    by (intro arg_cong [where f = sum_list] map_cong) simp_all
  with Bitcoin_phase2_amounts [OF p2] t b show ?thesis by simp
qed

lemma upt_two: "[0..<2] = [0, Suc 0]"
  by (simp add: numeral_2_eq_2)

lemmas bip143_defs = Bip143_preimage_hash_def Bip143_preimage_def derive_script_code_def

lemma phase2_sign_segwit_input_exceeds:
  assumes "STAGE_REQUEST_SEGWIT_WITNESS H i = Inr txi"
    and "input_check_wallet_path txi (self_wallet_path s) = Inr ()"
    and "input_check_multisig_fingerprint E txi (self_multisig_fp s) = Inr ()"
    and "txi_amount txi = Some a" and "self_bip143_in s < a"
  shows "fst (phase2_sign_segwit_input E H i s) = Inl changed_during_signing"
  using assms
  by (simp add: phase2_sign_segwit_input_def monad_defs Let_def)

lemma phase2_sign_bip143_input_exceeds:
  assumes "STAGE_REQUEST_SEGWIT_INPUT H i = Inr txi"
    and "input_check_wallet_path txi (self_wallet_path s) = Inr ()"
    and "input_check_multisig_fingerprint E txi (self_multisig_fp s) = Inr ()"
    and "txi_amount txi = Some a" and "self_bip143_in s < a"
  shows "fst (phase2_sign_bip143_input E H i s) = Inl changed_during_signing"
  using assms
  by (simp add: phase2_sign_bip143_input_def monad_defs Let_def)

lemmas example_defs =
  signer_defs monad_defs data_defs writer_defs example_zcoin_def example_ztx_def
  example_ztx2_def Let_def upt_two varint_def le_bytes_unfold

lemma example_swap_run:
  "self_bip143_in example_swap_start = 0"
  "self_segwit example_swap_start = []"
  "self_coin example_swap_start = example_zcoin"
  "tx_inputs_count (self_tx example_swap_start) = 2"
  "fst (phase1 Bitcoin (example_env False) (example_swap_host a b) yes example_swap_start) = Inr ()"
  "self_bip143_in (snd (phase1 Bitcoin (example_env False) (example_swap_host a b) yes example_swap_start)) = 30"
  by (simp_all add: example_defs example_swap_host_def example_swap_start_def)

lemma example_swap_phase2:
  "fst (Bitcoin_phase2 (example_env False) (example_swap_host 25 5)
        (snd (phase1 Bitcoin (example_env False) (example_swap_host 25 5) yes example_swap_start)))
     = Inr ()"
  by (simp add: example_defs example_swap_host_def example_swap_start_def)

text \<open>
  C2 (amended). The amounts of the segwit and BIP-143-forced inputs are bounded in sum:
  when phase 1 and phase 2 both complete, the amounts the host declared in phase 2 for
  these inputs add up to at most the amounts it declared for them in phase 1. The bound
  is enforced through the accumulator \<^verbatim>\<open>bip143_in\<close>, which phase 1 sums up: an input
  whose phase-2 amount exceeds what is left in the accumulator, and that passes the checks
  of the wallet path and of the multisig fingerprint, is refused with \<^verbatim>\<open>ProcessError\<close>,
  both when a segwit input is signed and when a BIP-143-forced input is signed.
\<close>

theorem bip143_amounts_bounded:
  "(self_bip143_in s = 0 \<and> self_segwit s = [] \<and> fst (phase1 Bitcoin E H U s) = Inr ()
      \<and> fst (Bitcoin_phase2 E H (snd (phase1 Bitcoin E H U s))) = Inr () \<longrightarrow>
      (\<Sum>i\<leftarrow>[0..<tx_inputs_count (self_tx s)]. phase2_declared E H (self_coin s) i)
        \<le> (\<Sum>i\<leftarrow>[0..<tx_inputs_count (self_tx s)]. phase1_amount E H (self_coin s) i))
   \<and> (STAGE_REQUEST_SEGWIT_WITNESS H i = Inr txi
      \<and> input_check_wallet_path txi (self_wallet_path s2) = Inr ()
      \<and> input_check_multisig_fingerprint E txi (self_multisig_fp s2) = Inr ()
      \<and> txi_amount txi = Some a \<and> self_bip143_in s2 < a \<longrightarrow>
      fst (phase2_sign_segwit_input E H i s2) = Inl changed_during_signing)
   \<and> (STAGE_REQUEST_SEGWIT_INPUT H i = Inr txi
      \<and> input_check_wallet_path txi (self_wallet_path s2) = Inr ()
      \<and> input_check_multisig_fingerprint E txi (self_multisig_fp s2) = Inr ()
      \<and> txi_amount txi = Some a \<and> self_bip143_in s2 < a \<longrightarrow>
      fst (phase2_sign_bip143_input E H i s2) = Inl changed_during_signing)"
  using bip143_sum_bounded [of s E H U] phase2_sign_segwit_input_exceeds [of H i txi s2 E a]
    phase2_sign_bip143_input_exceeds [of H i txi s2 E a]
  by blast

text \<open>
  C2 as stated bounds each input by its own amount of phase 1. The accumulator holds
  the sum over all inputs, so the host can move value between inputs: on two
  BIP-143-forced inputs of the overwintered coin, declared as 10 and 20 in phase 1 and as
  25 and 5 in phase 2, both phases complete.
\<close>

theorem bip143_amount_per_input_counterexample:
  "fst (phase1 Bitcoin (example_env False) (example_swap_host 25 5) yes example_swap_start) = Inr ()
   \<and> fst (Bitcoin_phase2 (example_env False) (example_swap_host 25 5)
        (snd (phase1 Bitcoin (example_env False) (example_swap_host 25 5) yes example_swap_start)))
       = Inr ()
   \<and> bip143_forced (example_env False) (self_coin example_swap_start)
   \<and> phase1_amount (example_env False) (example_swap_host 25 5) (self_coin example_swap_start) 0
       = 10
   \<and> phase2_declared (example_env False) (example_swap_host 25 5) (self_coin example_swap_start) 0
       = 25
   \<and> reply_amount (STAGE_REQUEST_1_INPUT (example_swap_host 25 5) 0) = 10
   \<and> reply_amount (STAGE_REQUEST_SEGWIT_INPUT (example_swap_host 25 5) 0) = 25"
  by (simp add: example_defs example_swap_host_def example_swap_start_def reply_amount_def
      phase1_input_def phase1_amount_def phase2_declared_def bip143_forced_def)

lemma example_swap_sums:
  "(\<Sum>i\<leftarrow>[0..<tx_inputs_count (self_tx example_swap_start)].
       phase2_declared (example_env False) (example_swap_host a b) (self_coin example_swap_start) i)
     = a + b"
  "(\<Sum>i\<leftarrow>[0..<tx_inputs_count (self_tx example_swap_start)].
       phase1_amount (example_env False) (example_swap_host a b) (self_coin example_swap_start) i)
     = 30"
  by (simp_all add: example_swap_run upt_two phase2_declared_def phase1_amount_def
      phase1_input_def reply_amount_def example_swap_host_def data_defs input_is_segwit_def
      bip143_forced_def example_zcoin_def)

lemma example_greedy_segwit_exceeds:
  "STAGE_REQUEST_SEGWIT_WITNESS example_greedy_segwit_host 0
     = Inr (example_input [49, 133, 0, 0, 0] SPENDP2SHWITNESS (Some 35))"
  "input_check_wallet_path (example_input [49, 133, 0, 0, 0] SPENDP2SHWITNESS (Some 35))
     (self_wallet_path (after_phase1 Bitcoin (example_env False) example_greedy_segwit_host yes
        (example_ztx 4) example_zcoin)) = Inr ()"
  "input_check_multisig_fingerprint (example_env False)
     (example_input [49, 133, 0, 0, 0] SPENDP2SHWITNESS (Some 35))
     (self_multisig_fp (after_phase1 Bitcoin (example_env False) example_greedy_segwit_host yes
        (example_ztx 4) example_zcoin)) = Inr ()"
  "txi_amount (example_input [49, 133, 0, 0, 0] SPENDP2SHWITNESS (Some 35)) = Some 35"
  "self_bip143_in (after_phase1 Bitcoin (example_env False) example_greedy_segwit_host yes
        (example_ztx 4) example_zcoin) = 30"
  "fst (phase1 Bitcoin (example_env False) example_greedy_segwit_host yes
        (projr (initialize Bitcoin (example_env False) (example_ztx 4) example_zcoin))) = Inr ()"
  by (simp_all add: example_defs example_greedy_segwit_host_def)

lemma example_greedy_exceeds:
  "STAGE_REQUEST_SEGWIT_INPUT example_greedy_zhost 0
     = Inr (example_input [44, 133, 0, 0, 0] SPENDADDRESS (Some 11))"
  "input_check_wallet_path (example_input [44, 133, 0, 0, 0] SPENDADDRESS (Some 11))
     (self_wallet_path (after_phase1 Bitcoin (example_env False) example_greedy_zhost yes
        (example_ztx 4) example_zcoin)) = Inr ()"
  "input_check_multisig_fingerprint (example_env False)
     (example_input [44, 133, 0, 0, 0] SPENDADDRESS (Some 11))
     (self_multisig_fp (after_phase1 Bitcoin (example_env False) example_greedy_zhost yes
        (example_ztx 4) example_zcoin)) = Inr ()"
  "txi_amount (example_input [44, 133, 0, 0, 0] SPENDADDRESS (Some 11)) = Some 11"
  "self_bip143_in (after_phase1 Bitcoin (example_env False) example_greedy_zhost yes
        (example_ztx 4) example_zcoin) = 10"
  "fst (phase1 Bitcoin (example_env False) example_greedy_zhost yes
        (projr (initialize Bitcoin (example_env False) (example_ztx 4) example_zcoin))) = Inr ()"
  by (simp_all add: example_defs example_greedy_zhost_def)

theorem bip143_amounts_bounded_witness:
  "self_bip143_in example_swap_start = 0 \<and> self_segwit example_swap_start = []
   \<and> fst (phase1 Bitcoin (example_env False) (example_swap_host 25 5) yes example_swap_start) = Inr ()
   \<and> fst (Bitcoin_phase2 (example_env False) (example_swap_host 25 5)
        (snd (phase1 Bitcoin (example_env False) (example_swap_host 25 5) yes example_swap_start)))
       = Inr ()
   \<and> (\<Sum>i\<leftarrow>[0..<tx_inputs_count (self_tx example_swap_start)].
         phase2_declared (example_env False) (example_swap_host 25 5)
           (self_coin example_swap_start) i) \<le> 30
   \<and> fst (phase1 Bitcoin (example_env False) example_greedy_segwit_host yes
        (projr (initialize Bitcoin (example_env False) (example_ztx 4) example_zcoin))) = Inr ()
   \<and> self_bip143_in (after_phase1 Bitcoin (example_env False) example_greedy_segwit_host yes
        (example_ztx 4) example_zcoin) = 30
   \<and> fst (phase2_sign_segwit_input (example_env False) example_greedy_segwit_host 0
        (after_phase1 Bitcoin (example_env False) example_greedy_segwit_host yes (example_ztx 4)
           example_zcoin))
       = Inl changed_during_signing
   \<and> fst (phase1 Bitcoin (example_env False) example_greedy_zhost yes
        (projr (initialize Bitcoin (example_env False) (example_ztx 4) example_zcoin))) = Inr ()
   \<and> self_bip143_in (after_phase1 Bitcoin (example_env False) example_greedy_zhost yes
        (example_ztx 4) example_zcoin) = 10
   \<and> fst (phase2_sign_bip143_input (example_env False) example_greedy_zhost 0
        (after_phase1 Bitcoin (example_env False) example_greedy_zhost yes (example_ztx 4)
           example_zcoin))
       = Inl changed_during_signing"
proof -
  let ?E = "example_env False"
  let ?s = example_swap_start
  note a = bip143_amounts_bounded [of ?s ?E "example_swap_host 25 5" yes, THEN conjunct1]
  have 1: "(\<Sum>i\<leftarrow>[0..<tx_inputs_count (self_tx ?s)].
         phase2_declared ?E (example_swap_host 25 5) (self_coin ?s) i) \<le> 30"
    using a example_swap_run(1,2,5) example_swap_phase2 example_swap_sums(2) [of 25 5]
    by simp
  let ?s2 = "after_phase1 Bitcoin ?E example_greedy_segwit_host yes (example_ztx 4) example_zcoin"
  note b = bip143_amounts_bounded [where ?s2.0 = ?s2 and E = ?E
      and H = example_greedy_segwit_host and i = 0 and a = 35
      and txi = "example_input [49, 133, 0, 0, 0] SPENDP2SHWITNESS (Some 35)",
      THEN conjunct2, THEN conjunct1]
  have 2: "fst (phase2_sign_segwit_input ?E example_greedy_segwit_host 0 ?s2)
       = Inl changed_during_signing"
    using b example_greedy_segwit_exceeds by simp
  let ?s3 = "after_phase1 Bitcoin ?E example_greedy_zhost yes (example_ztx 4) example_zcoin"
  note c = bip143_amounts_bounded [where ?s2.0 = ?s3 and E = ?E and H = example_greedy_zhost
      and i = 0 and a = 11
      and txi = "example_input [44, 133, 0, 0, 0] SPENDADDRESS (Some 11)",
      THEN conjunct2, THEN conjunct2]
  have 3: "fst (phase2_sign_bip143_input ?E example_greedy_zhost 0 ?s3)
       = Inl changed_during_signing"
    using c example_greedy_exceeds by simp
  from 1 2 3 example_swap_run(1,2,5) example_swap_phase2 example_greedy_exceeds(5,6)
    example_greedy_segwit_exceeds(5,6)
  show ?thesis by simp
qed

section \<open>The witnesses in the serialized transaction\<close>

lemma phase2_quiet_signing_context: "phase2_quiet signing_context"
  by (simp add: phase2_quiet_def quiet_def signing_context_def)

lemma phase2_sign_segwit_input_emitted:
  assumes "phase2_sign_segwit_input E H i s = (Inr (w, sg), s')"
    and "signing_context s = signing_context s0"
  shows "stream s' = emitted s" and "self_tx_req_serialized s' = None"
    and "w = witness_of E H s0 i"
  using assms
  by (auto simp add: phase2_sign_segwit_input_def monad_defs Let_def emitted_def stream_def
      witness_of_def reply_amount_def signing_context_def
      split: sum.splits option.splits if_splits prod.splits)

lemma preserves_phase2_witness:
  "phase2_quiet \<pi> \<Longrightarrow> preserves \<pi> (phase2_witness E H a i tx_ser)"
  unfolding phase2_witness_def
  by (auto intro!: preserves_intros preserves_smodify simp add: Let_def phase2_quietD
      split: prod.splits)

lemma any_segwitI: "map_of (self_segwit s) i = Some True \<Longrightarrow> any_segwit s"
  by (force simp add: any_segwit_def dest: map_of_SomeD)

lemma sbind_sget: "sbind (sget f) k s = k (f s) s"
  by (simp add: sbind_def)

text \<open>One round of the loop over the witnesses.\<close>

lemma phase2_witness_emitted:
  assumes run: "phase2_witness E H a i tx_ser s = (Inr tx_ser', s')"
    and ctx: "signing_context s = signing_context s0"
  shows "\<exists>b. map_of (self_segwit s0) i = Some b
           \<and> self_tx_req_serialized s' = Some tx_ser'
           \<and> (b \<longrightarrow> emitted s' = emitted s @ witness_of E H s0 i)
           \<and> (\<not> b \<and> a \<longrightarrow> (\<exists>x. ser_serialized_tx tx_ser = Some x
                               \<and> emitted s' = stream s @ x @ [0]))
           \<and> (\<not> b \<and> \<not> a \<longrightarrow> tx_ser' = tx_ser
                               \<and> emitted s' = stream s @ serialized_bytes (Some tx_ser))"
proof -
  from ctx have sw: "self_segwit s = self_segwit s0" by (simp add: signing_context_def)
  have em: "emitted (s1\<lparr>self_tx_req_serialized := Some ts\<rparr>)
              = stream s1 @ serialized_bytes (Some ts)" for s1 ts
    by (simp add: emitted_def stream_def)
  show ?thesis
  proof (cases "map_of (self_segwit s) i")
    case None
    with run show ?thesis by (simp add: phase2_witness_def sbind_sget sbind_Inr_iff)
  next
    case (Some b)
    show ?thesis
    proof (cases b)
      case True
      from run Some True have "\<exists>w sg s1. phase2_sign_segwit_input E H i s = (Inr (w, sg), s1)
          \<and> tx_ser' = tx_ser\<lparr>ser_serialized_tx := Some w, ser_signature_index := Some i,
                                  ser_signature := Some sg\<rparr>
          \<and> s' = s1\<lparr>self_tx_req_serialized := Some tx_ser'\<rparr>"
        by (simp add: phase2_witness_def sbind_sget sbind_Inr_iff sthen_Inr_iff
            split: prod.splits) blast
      then obtain w sg s1 where
        one: "phase2_sign_segwit_input E H i s = (Inr (w, sg), s1)"
        and ts: "ser_serialized_tx tx_ser' = Some w"
        and s': "s' = s1\<lparr>self_tx_req_serialized := Some tx_ser'\<rparr>"
        by auto
      from phase2_sign_segwit_input_emitted [OF one ctx]
      have w: "stream s1 = emitted s" "w = witness_of E H s0 i" by simp_all
      have "emitted s' = emitted s @ witness_of E H s0 i"
        unfolding s' em by (simp add: w ts serialized_bytes_def)
      moreover have "self_tx_req_serialized s' = Some tx_ser'" unfolding s' by simp
      moreover have "map_of (self_segwit s0) i = Some True" using Some True sw by simp
      ultimately show ?thesis by (intro exI [of _ True]) simp
    next
      case False
      have m: "map_of (self_segwit s0) i = Some False" using Some False sw by simp
      show ?thesis
      proof (cases a)
        case na: False
        from run Some False na have "tx_ser' = tx_ser"
          and s': "s' = s\<lparr>self_tx_req_serialized := Some tx_ser\<rparr>"
          by (auto simp add: phase2_witness_def sbind_sget sbind_Inr_iff sthen_Inr_iff)
        with m na show ?thesis by (intro exI [of _ False]) (simp add: em)
      next
        case True
        show ?thesis
        proof (cases "ser_serialized_tx tx_ser")
          case None
          with run Some False True show ?thesis
            by (simp add: phase2_witness_def sbind_sget sbind_Inr_iff)
        next
          case (Some x)
          from run \<open>map_of (self_segwit s) i = Some b\<close> False True Some
          have ts: "ser_serialized_tx tx_ser' = Some (x @ [0])"
            and s': "s' = s\<lparr>self_tx_req_serialized := Some tx_ser'\<rparr>"
            by (auto simp add: phase2_witness_def sbind_sget sbind_Inr_iff sthen_Inr_iff)
          have "emitted s' = stream s @ x @ [0]"
            unfolding s' em by (simp add: ts serialized_bytes_def)
          moreover have "self_tx_req_serialized s' = Some tx_ser'" unfolding s' by simp
          ultimately show ?thesis using m True Some by (intro exI [of _ False]) simp
        qed
      qed
    qed
  qed
qed

text \<open>The loop over the witnesses. It starts either with the pending fragment being the
  local \<^verbatim>\<open>tx_ser\<close>, or with a \<^verbatim>\<open>tx_ser\<close> that has no bytes yet.\<close>

lemma phase2_witnesses_emitted:
  assumes run: "phase2_witnesses E H tx_ser s = (Inr tx_ser', s')"
    and start: "serialized_bytes (self_tx_req_serialized s) = serialized_bytes (Some tx_ser)
                \<or> ser_serialized_tx tx_ser = None"
    and fin: "ser_serialized_tx tx_ser' \<noteq> None"
    and ctx0: "signing_context s = signing_context s0"
  shows "emitted s' = emitted s @
           concat (map (\<lambda>i. if map_of (self_segwit s0) i = Some True then witness_of E H s0 i
                             else if any_segwit s0 then [0] else [])
                     [0..<tx_inputs_count (self_tx s0)])"
    and "serialized_bytes (self_tx_req_serialized s') = serialized_bytes (Some tx_ser')"
    and "signing_context s' = signing_context s0"
proof -
  let ?a = "any_segwit s0"
  from ctx0 have eq: "any_segwit s = ?a" "tx_inputs_count (self_tx s) = tx_inputs_count (self_tx s0)"
    by (simp_all add: signing_context_def any_segwit_def)
  let ?wit = "\<lambda>i. if map_of (self_segwit s0) i = Some True then witness_of E H s0 i
                    else if ?a then [0] else []"
  let ?I = "\<lambda>pre ts s1. signing_context s1 = signing_context s0
      \<and> ((serialized_bytes (self_tx_req_serialized s1) = serialized_bytes (Some ts)
           \<and> emitted s1 = emitted s @ concat (map ?wit pre))
         \<or> (ser_serialized_tx ts = None
             \<and> ((pre = [] \<and> emitted s1 = emitted s) \<or> \<not> ?a)))"
  from run have loop: "sfold (phase2_witness E H ?a) [0..<tx_inputs_count (self_tx s0)] tx_ser s
      = (Inr tx_ser', s')"
    by (simp add: phase2_witnesses_def monad_defs eq)
  have "?I [0..<tx_inputs_count (self_tx s0)] tx_ser' s'"
  proof (rule sfold_rule [OF loop, where I = ?I], goal_cases)
    case 1
    from start ctx0 show ?case by auto
  next
    case (2 pre x a1 s1 a2 s2)
    from 2(1) have ctx: "signing_context s1 = signing_context s0" by simp
    from preservesD [OF preserves_phase2_witness [OF phase2_quiet_signing_context] 2(2)] ctx
    have ctx2: "signing_context s2 = signing_context s0" by simp
    from phase2_witness_emitted [OF 2(2) ctx] obtain b where
      b: "map_of (self_segwit s0) x = Some b"
      and pend: "self_tx_req_serialized s2 = Some a2"
      and seg: "b \<Longrightarrow> emitted s2 = emitted s1 @ witness_of E H s0 x"
      and zero: "\<not> b \<Longrightarrow> ?a \<Longrightarrow> \<exists>y. ser_serialized_tx a1 = Some y
                               \<and> emitted s2 = stream s1 @ y @ [0]"
      and none: "\<not> b \<Longrightarrow> \<not> ?a \<Longrightarrow> a2 = a1
                               \<and> emitted s2 = stream s1 @ serialized_bytes (Some a1)"
      by blast
    show ?case
    proof (cases b)
      case True
      with b have a: "?a" by (auto intro: any_segwitI)
      from 2(1) a have e1: "emitted s1 = emitted s @ concat (map ?wit pre)"
        by auto
      from seg [OF True] e1 b True pend ctx2 show ?thesis by simp
    next
      case False
      show ?thesis
      proof (cases ?a)
        case True
        from zero [OF False True] obtain y where
          y: "ser_serialized_tx a1 = Some y" "emitted s2 = stream s1 @ y @ [0]" by blast
        with 2(1) have al: "serialized_bytes (self_tx_req_serialized s1) = y"
          and e1: "emitted s1 = emitted s @ concat (map ?wit pre)"
          by (auto simp add: serialized_bytes_def)
        from al have "emitted s1 = stream s1 @ y" by (simp add: emitted_def)
        with y e1 b False True pend ctx2 show ?thesis by simp
      next
        case na: False
        from none [OF False na] have
          n: "a2 = a1" "emitted s2 = stream s1 @ serialized_bytes (Some a1)" by simp_all
        from 2(1) consider
          (al) "serialized_bytes (self_tx_req_serialized s1) = serialized_bytes (Some a1)"
               "emitted s1 = emitted s @ concat (map ?wit pre)"
          | (em) "ser_serialized_tx a1 = None"
          by auto
        then show ?thesis
        proof cases
          case al
          from al(1) n(2) have "emitted s2 = emitted s1" by (simp add: emitted_def)
          with al(2) b False na pend ctx2 show ?thesis by simp
        next
          case em
          with n na ctx2 show ?thesis by simp
        qed
      qed
    qed
  qed
  with fin show "emitted s' = emitted s @ concat (map ?wit [0..<tx_inputs_count (self_tx s0)])"
    and "serialized_bytes (self_tx_req_serialized s') = serialized_bytes (Some tx_ser')"
    and "signing_context s' = signing_context s0"
    by auto
qed

lemma phase2_outputs_pending:
  assumes "phase2_outputs E H s = (Inr tx_ser, s')"
  shows "self_tx_req_serialized s' = Some tx_ser
         \<or> (ser_serialized_tx tx_ser = None \<and> s' = s)"
proof -
  let ?e = "\<lparr>ser_signature_index = None, ser_signature = None, ser_serialized_tx = None\<rparr>"
  from assms have loop: "sfold (phase2_output E H) [0..<tx_outputs_count (self_tx s)] ?e s
      = (Inr tx_ser, s')"
    by (simp add: phase2_outputs_def monad_defs)
  let ?I = "\<lambda>pre ts s1. self_tx_req_serialized s1 = Some ts \<or> (pre = [] \<and> ts = ?e \<and> s1 = s)"
  have "?I [0..<tx_outputs_count (self_tx s)] tx_ser s'"
  proof (rule sfold_rule [OF loop, where I = ?I], goal_cases)
    case 1
    show ?case by simp
  next
    case (2 pre x a1 s1 a2 s2)
    from 2(2) show ?case
      by (auto simp add: phase2_output_def sbind_Inr_iff sthen_Inr_iff Let_def)
  qed
  then show ?thesis by auto
qed

lemma write_trailer_append:
  "write_trailer E c t w = Inr w' \<Longrightarrow> \<exists>x. write_trailer E c t [] = Inr x \<and> w' = w @ x"
  by (auto simp add: write_trailer_def Let_def write_uint32_def write_uint64_def
      write_varint_def split: if_splits)

text \<open>Phase 2 as a whole: the stream is what the loops over the inputs and the outputs
  leave, then the witnesses, then the end of the transaction.\<close>

lemma Bitcoin_phase2_witnesses:
  assumes "Bitcoin_phase2 E H s = (Inr (), s')"
  shows "stream s' =
           emitted (snd (phase2_outputs E H
                      (snd (phase2_inputs E H (s\<lparr>self_tx_req_serialized := None\<rparr>))))) @
           concat (map (\<lambda>i. if map_of (self_segwit s) i = Some True then witness_of E H s i
                             else if any_segwit s then [0] else [])
                     [0..<tx_inputs_count (self_tx s)]) @
           projr (write_trailer E (self_coin s) (self_tx s) [])"
proof -
  let ?s0 = "s\<lparr>self_tx_req_serialized := None\<rparr>"
  from assms obtain s1 s2 tx_ser1 s3 tx_ser where
    st: "phase2_inputs E H ?s0 = (Inr (), s1)"
      "phase2_outputs E H s1 = (Inr tx_ser1, s2)"
      "phase2_witnesses E H tx_ser1 s2 = (Inr tx_ser, s3)"
      "phase2_finish E tx_ser s3 = (Inr (), s')"
    by (auto simp add: Bitcoin_phase2_def sthen_Inr_iff sbind_Inr_iff)
  have c0: "signing_context ?s0 = signing_context s" by (simp add: signing_context_def)
  from preservesD [OF preserves_phase2_inputs [OF phase2_quiet_signing_context] st(1)]
    preservesD [OF preserves_phase2_outputs [OF phase2_quiet_signing_context] st(2)] c0
  have c2: "signing_context s2 = signing_context s" by simp
  from phase2_finish_stream [OF st(4)] obtain b b' where
    fin: "ser_serialized_tx tx_ser = Some b"
      "write_trailer E (self_coin s3) (self_tx s3) b = Inr b'" "stream s' = stream s3 @ b'"
    by blast
  from phase2_outputs_pending [OF st(2)]
  have start: "serialized_bytes (self_tx_req_serialized s2) = serialized_bytes (Some tx_ser1)
                \<or> ser_serialized_tx tx_ser1 = None"
    by auto
  from fin(1) have ne: "ser_serialized_tx tx_ser \<noteq> None" by simp
  note w = phase2_witnesses_emitted [OF st(3) start ne c2]
  from w(3) have same: "self_coin s3 = self_coin s" "self_tx s3 = self_tx s"
    by (simp_all add: signing_context_def)
  from write_trailer_append [OF fin(2)] obtain x where
    x: "write_trailer E (self_coin s) (self_tx s) [] = Inr x" "b' = b @ x"
    by (auto simp add: same)
  from w(2) fin(1) have "emitted s3 = stream s3 @ b"
    by (simp add: emitted_def serialized_bytes_def)
  with fin(3) x have "stream s' = emitted s3 @ projr (write_trailer E (self_coin s) (self_tx s) [])"
    by simp
  with w(1) show ?thesis
    by (simp add: st)
qed

text \<open>The dictionary \<^verbatim>\<open>segwit\<close> after phase 1, and the flag that phase 2 computes from it.\<close>

lemma distinct_segwit_foldl:
  "distinct (map fst d0) \<Longrightarrow>
   distinct (map fst (foldl (\<lambda>d i. AList.update i (f i) d) d0 xs))"
  by (induction xs arbitrary: d0) (simp_all add: distinct_update)

lemma any_segwit_foldl:
  assumes "self_segwit s = foldl (\<lambda>d i. AList.update i (f i) d) [] [0..<n]"
  shows "any_segwit s = list_ex f [0..<n]"
proof -
  let ?d = "foldl (\<lambda>d i. AList.update i (f i) d) [] [0..<n]"
  have d: "distinct (map fst ?d)" by (rule distinct_segwit_foldl) simp
  have "True \<in> snd ` set ?d \<longleftrightarrow> (\<exists>k. map_of ?d k = Some True)"
    using d by (force simp add: image_iff)
  also have "\<dots> \<longleftrightarrow> (\<exists>k<n. f k)"
    by (auto simp add: map_of_segwit_foldl split: if_splits)
  finally show ?thesis
    by (auto simp add: any_segwit_def assms list_ex_iff)
qed

lemma phase1_segwit:
  assumes "self_segwit s = []" and "phase1 Bitcoin E H U s = (Inr (), s1)"
  shows "self_tx s1 = self_tx s" and "self_coin s1 = self_coin s"
    and "i < tx_inputs_count (self_tx s) \<Longrightarrow>
         map_of (self_segwit s1) i = Some (input_is_segwit (phase1_input H i))"
    and "any_segwit s1 =
         list_ex (\<lambda>i. input_is_segwit (phase1_input H i)) [0..<tx_inputs_count (self_tx s)]"
proof -
  from phase1_inputs_part [OF assms(2)] obtain w sa where
    i: "phase1_inputs Bitcoin E H U s = (Inr w, sa)" and ip: "inputs_part s1 = inputs_part sa"
    by blast
  from phase1_inputs_effect [OF i] have dn: "inputs_done E H s [0..<tx_inputs_count (self_tx s)] sa" .
  from dn ip show "self_tx s1 = self_tx s" "self_coin s1 = self_coin s"
    by (simp_all add: inputs_done_def inputs_part_def)
  from dn ip have sw: "self_segwit s1 =
        foldl (\<lambda>d i. AList.update i (input_is_segwit (phase1_input H i)) d) []
          [0..<tx_inputs_count (self_tx s)]"
    by (simp add: inputs_done_def inputs_part_def assms(1))
  show "map_of (self_segwit s1) i = Some (input_is_segwit (phase1_input H i))"
    if "i < tx_inputs_count (self_tx s)"
    using that by (simp add: sw map_of_segwit_foldl)
  from any_segwit_foldl [OF sw]
  show "any_segwit s1 =
         list_ex (\<lambda>i. input_is_segwit (phase1_input H i)) [0..<tx_inputs_count (self_tx s)]" .
qed

lemma write_tx_header_layout:
  "write_tx_header E s w =
     w @ (if \<not> BITCOIN_ONLY E \<and> coin_overwintered (self_coin s)
          then le_bytes 4 (tx_version (self_tx s) OR OVERWINTERED E)
               @ le_bytes 4 (tx_version_group_id (self_tx s))
          else le_bytes 4 (tx_version (self_tx s))
               @ (if \<not> BITCOIN_ONLY E \<and> coin_timestamp (self_coin s)
                  then le_bytes 4 (tx_timestamp (self_tx s)) else []))
       @ (if any_segwit s then [0, 1] else [])
       @ varint (tx_inputs_count (self_tx s))"
  by (simp add: write_tx_header_def Let_def write_uint32_def write_varint_def varint_def
      le_bytes_unfold)

section \<open>The header in the serialized transaction\<close>

text \<open>A method moves the stream on when it has sent what was pending and left nothing
  pending.\<close>

lemma request_sends:
  "request rt idx ph reply s = (r, s') \<Longrightarrow>
   stream s' = emitted s \<and> self_tx_req_serialized s' = None
   \<and> signing_context s' = signing_context s"
  by (auto simp add: request_def stream_def emitted_def signing_context_def)

lemma write_tx_header_context:
  "signing_context s = signing_context s0 \<Longrightarrow> write_tx_header E s w = write_tx_header E s0 w"
  by (simp add: write_tx_header_layout signing_context_def any_segwit_def)

lemma write_tx_header_append: "write_tx_header E s w = w @ write_tx_header E s []"
  by (simp add: write_tx_header_layout [of E s w] write_tx_header_layout [of E s "[]"])

lemma emitted_pending:
  "emitted (s\<lparr>self_tx_req_serialized := Some \<lparr>ser_signature_index = a, ser_signature = b,
                                               ser_serialized_tx = Some w\<rparr>\<rparr>) = stream s @ w"
  by (simp add: emitted_def stream_def serialized_bytes_def)

lemma phase2_serialize_segwit_input_header:
  assumes "phase2_serialize_segwit_input E H i s = (Inr (), s')"
  shows "\<exists>x. emitted s' = emitted s @ (if i = 0 then write_tx_header E s [] else []) @ x"
proof -
  from assms obtain txi s1 where
    req: "request TXINPUT (Some i) None (STAGE_REQUEST_SEGWIT_INPUT H i) s = (Inr txi, s1)"
    by (auto simp add: phase2_serialize_segwit_input_def request_tx_input_def sbind_Inr_iff)
  note r = request_sends [OF req]
  from assms req obtain w where
    "s' = s1\<lparr>self_tx_req_serialized :=
               Some \<lparr>ser_signature_index = None, ser_signature = None,
                     ser_serialized_tx = Some ((if i = 0 then write_tx_header E s1 [] else []) @ w)\<rparr>\<rparr>"
    by (auto simp add: phase2_serialize_segwit_input_def request_tx_input_def sbind_Inr_iff
        sthen_Inr_iff sbind_sget Let_def write_tx_input_def split: if_splits)
  then have "emitted s' = stream s1 @ (if i = 0 then write_tx_header E s1 [] else []) @ w"
    by (simp add: emitted_pending)
  with r write_tx_header_context [of s1 s E "[]"] show ?thesis by auto
qed

lemma phase2_sign_bip143_input_header:
  assumes "phase2_sign_bip143_input E H i s = (Inr (), s')"
  shows "\<exists>x. emitted s' = emitted s @ (if i = 0 then write_tx_header E s [] else []) @ x"
proof -
  from assms obtain txi s1 where
    req: "request TXINPUT (Some i) None (STAGE_REQUEST_SEGWIT_INPUT H i) s = (Inr txi, s1)"
    by (auto simp add: phase2_sign_bip143_input_def request_tx_input_def sbind_Inr_iff)
  note r = request_sends [OF req]
  from assms req obtain w a b am where
    "s' = s1\<lparr>self_bip143_in := self_bip143_in s1 - am,
             self_tx_req_serialized :=
               Some \<lparr>ser_signature_index = a, ser_signature = b,
                     ser_serialized_tx = Some ((if i = 0 then write_tx_header E s1 [] else []) @ w)\<rparr>\<rparr>"
    by (auto simp add: phase2_sign_bip143_input_def request_tx_input_def sbind_Inr_iff
        sthen_Inr_iff sbind_sget Let_def write_tx_input_def
        split: if_splits option.splits)
  then have "emitted s' = stream s1 @ (if i = 0 then write_tx_header E s1 [] else []) @ w"
    by (simp add: emitted_def stream_def serialized_bytes_def)
  with r write_tx_header_context [of s1 s E "[]"] show ?thesis by auto
qed

text \<open>The streaming of the whole transaction for a legacy input sends what was pending
  with its first request.\<close>

lemma sends_trans:
  assumes "stream s1 = emitted s \<and> self_tx_req_serialized s1 = None
           \<and> signing_context s1 = signing_context s"
    and "stream s2 = emitted s1 \<and> self_tx_req_serialized s2 = None
           \<and> signing_context s2 = signing_context s1"
  shows "stream s2 = emitted s \<and> self_tx_req_serialized s2 = None
           \<and> signing_context s2 = signing_context s"
  using assms by (simp add: emitted_def serialized_bytes_def)

lemma sfold_sends:
  assumes run: "sfold f xs a s = (Inr a', s')"
    and step: "\<And>x a1 s1 a2 s2. f x a1 s1 = (Inr a2, s2) \<Longrightarrow>
                 stream s2 = emitted s1 \<and> self_tx_req_serialized s2 = None
                 \<and> signing_context s2 = signing_context s1"
  shows "(xs = [] \<and> s' = s \<and> a' = a)
         \<or> (stream s' = emitted s \<and> self_tx_req_serialized s' = None
             \<and> signing_context s' = signing_context s)"
proof -
  let ?I = "\<lambda>pre a1 s1. (pre = [] \<and> s1 = s \<and> a1 = a)
         \<or> (stream s1 = emitted s \<and> self_tx_req_serialized s1 = None
             \<and> signing_context s1 = signing_context s)"
  have "?I xs a' s'"
  proof (rule sfold_rule [OF run, where I = ?I], goal_cases)
    case 1
    show ?case by simp
  next
    case (2 pre x a1 s1 a2 s2)
    from 2(1) show ?case
    proof
      assume "pre = [] \<and> s1 = s \<and> a1 = a"
      with step [OF 2(2)] show ?thesis by simp
    next
      assume "stream s1 = emitted s \<and> self_tx_req_serialized s1 = None
             \<and> signing_context s1 = signing_context s"
      from sends_trans [OF this step [OF 2(2)]] show ?thesis by simp
    qed
  qed
  then show ?thesis .
qed

lemma legacy_stream_input_sends:
  assumes "legacy_stream_input E H i_sign i acc s = (Inr acc', s')"
  shows "stream s' = emitted s \<and> self_tx_req_serialized s' = None
         \<and> signing_context s' = signing_context s"
proof -
  obtain hs h2 sg where acc: "acc = (hs, h2, sg)" by (cases acc)
  from assms obtain txi s1 where
    req: "request TXINPUT (Some i) None (STAGE_REQUEST_4_INPUT H i_sign i) s = (Inr txi, s1)"
    and rest: "s' = s1"
    unfolding acc legacy_stream_input_def
    by (auto simp add: request_tx_input_def sbind_Inr_iff sthen_Inr_iff sbind_sget Let_def
        split: if_splits option.splits)
  from request_sends [OF req] rest show ?thesis by simp
qed

lemma legacy_stream_output_sends:
  assumes "legacy_stream_output E H i_sign i acc s = (Inr acc', s')"
  shows "stream s' = emitted s \<and> self_tx_req_serialized s' = None
         \<and> signing_context s' = signing_context s"
proof -
  obtain hs h2 where acc: "acc = (hs, h2)" by (cases acc)
  from assms obtain txo s1 where
    req: "request TXOUTPUT (Some i) None (STAGE_REQUEST_4_OUTPUT H i_sign i) s = (Inr txo, s1)"
    and rest: "s' = s1"
    unfolding acc legacy_stream_output_def
    by (auto simp add: request_tx_output_def sbind_Inr_iff sthen_Inr_iff sbind_sget Let_def
        split: prod.splits)
  from request_sends [OF req] rest show ?thesis by simp
qed

lemma legacy_streams_sends:
  assumes "legacy_streams E H i_sign s = (Inr (hs, h2, Some sg), s')"
  shows "stream s' = emitted s \<and> self_tx_req_serialized s' = None
         \<and> signing_context s' = signing_context s"
proof -
  from assms obtain a0 hs1 h21 sg1 s1 a1 hs2 h22 where
    l1: "sfold (legacy_stream_input E H i_sign) [0..<tx_inputs_count (self_tx s)] a0 s
         = (Inr (hs1, h21, sg1), s1)"
    and l2: "sfold (legacy_stream_output E H i_sign) [0..<tx_outputs_count (self_tx s)] a1 s1
         = (Inr (hs2, h22), s')"
    and sg: "sg1 = Some sg" and a0: "snd (snd a0) = None"
    unfolding legacy_streams_def
    by (auto simp add: sbind_Inr_iff sbind_sget Let_def split: prod.splits)
  have "([0..<tx_inputs_count (self_tx s)] = [] \<and> s1 = s \<and> (hs1, h21, sg1) = a0)
         \<or> (stream s1 = emitted s \<and> self_tx_req_serialized s1 = None
             \<and> signing_context s1 = signing_context s)"
    by (rule sfold_sends [OF l1]) (rule legacy_stream_input_sends)
  with sg a0
  have a: "stream s1 = emitted s \<and> self_tx_req_serialized s1 = None
             \<and> signing_context s1 = signing_context s"
    by auto
  have "([0..<tx_outputs_count (self_tx s)] = [] \<and> s' = s1 \<and> (hs2, h22) = a1)
         \<or> (stream s' = emitted s1 \<and> self_tx_req_serialized s' = None
             \<and> signing_context s' = signing_context s1)"
    by (rule sfold_sends [OF l2]) (rule legacy_stream_output_sends)
  then show ?thesis
  proof
    assume "[0..<tx_outputs_count (self_tx s)] = [] \<and> s' = s1 \<and> (hs2, h22) = a1"
    with a show ?thesis by simp
  next
    assume "stream s' = emitted s1 \<and> self_tx_req_serialized s' = None
             \<and> signing_context s' = signing_context s1"
    from sends_trans [OF a this] show ?thesis .
  qed
qed

lemma phase2_sign_legacy_input_header:
  assumes "phase2_sign_legacy_input E H i s = (Inr (), s')"
  shows "\<exists>x. emitted s' = emitted s @ (if i = 0 then write_tx_header E s [] else []) @ x"
proof -
  from assms obtain hs h2 sg s1 where
    st: "legacy_streams E H i s = (Inr (hs, h2, Some sg), s1)"
    by (auto simp add: phase2_sign_legacy_input_def sbind_Inr_iff sbind_sget
        split: prod.splits if_splits option.splits)
  note r = legacy_streams_sends [OF st]
  from assms st obtain w a b where
    "s' = s1\<lparr>self_tx_req_serialized :=
               Some \<lparr>ser_signature_index = a, ser_signature = b,
                     ser_serialized_tx = Some ((if i = 0 then write_tx_header E s1 [] else []) @ w)\<rparr>\<rparr>"
    by (auto simp add: phase2_sign_legacy_input_def sbind_Inr_iff sthen_Inr_iff sbind_sget
        Let_def write_tx_input_def split: if_splits option.splits prod.splits)
  then have "emitted s' = stream s1 @ (if i = 0 then write_tx_header E s1 [] else []) @ w"
    by (simp add: emitted_pending)
  with r write_tx_header_context [of s1 s E "[]"] show ?thesis by auto
qed

lemma phase2_input_header:
  assumes "phase2_input E H i s = (Inr (), s')"
  shows "\<exists>x. emitted s' = emitted s @ (if i = 0 then write_tx_header E s [] else []) @ x"
  using assms phase2_serialize_segwit_input_header [of E H i s s']
    phase2_sign_bip143_input_header [of E H i s s'] phase2_sign_legacy_input_header [of E H i s s']
  by (auto simp add: phase2_input_def sbind_sget split: option.splits if_splits)

lemma phase2_inputs_header:
  assumes run: "phase2_inputs E H s = (Inr (), s')" and n: "0 < tx_inputs_count (self_tx s)"
  shows "\<exists>x. emitted s' = emitted s @ write_tx_header E s [] @ x"
proof -
  from n have up: "[0..<tx_inputs_count (self_tx s)] = 0 # [1..<tx_inputs_count (self_tx s)]"
    by (simp add: upt_conv_Cons)
  from run obtain s1 where
    first: "phase2_input E H 0 s = (Inr (), s1)"
    and rest: "sfold (\<lambda>x _. phase2_input E H x) [1..<tx_inputs_count (self_tx s)] () s1
                 = (Inr (), s')"
    by (auto simp add: phase2_inputs_def sbind_sget sfor_def up sbind_Inr_iff)
  from phase2_input_header [OF first] obtain x where
    x: "emitted s1 = emitted s @ write_tx_header E s [] @ x" by auto
  have "\<exists>y. emitted s' = emitted s1 @ y"
  proof (rule sfold_rule [OF rest, where I = "\<lambda>pre a sa. \<exists>y. emitted sa = emitted s1 @ y"],
      goal_cases)
    case 1
    show ?case by simp
  next
    case (2 pre i a1 sa a2 sb)
    from 2(2) have "phase2_input E H i sa = (Inr (), sb)" by simp
    from phase2_input_header [OF this] 2(1)
    show ?case by auto
  qed
  with x show ?thesis by auto
qed

lemma phase2_outputs_grows:
  assumes "phase2_outputs E H s = (Inr tx_ser, s')"
  shows "\<exists>y. emitted s' = emitted s @ y"
proof -
  let ?e = "\<lparr>ser_signature_index = None, ser_signature = None, ser_serialized_tx = None\<rparr>"
  from assms have loop: "sfold (phase2_output E H) [0..<tx_outputs_count (self_tx s)] ?e s
      = (Inr tx_ser, s')"
    by (simp add: phase2_outputs_def sbind_sget)
  show ?thesis
  proof (rule sfold_rule [OF loop, where I = "\<lambda>pre a sa. \<exists>y. emitted sa = emitted s @ y"],
      goal_cases)
    case 1
    show ?case by simp
  next
    case (2 pre i a1 sa a2 sb)
    from 2(2) obtain txo s1 w where
      req: "request TXOUTPUT (Some i) None (STAGE_REQUEST_5_OUTPUT H i) sa = (Inr txo, s1)"
      and sb: "sb = s1\<lparr>self_tx_req_serialized := Some (a1\<lparr>ser_serialized_tx := Some w\<rparr>)\<rparr>"
      by (auto simp add: phase2_output_def phase2_serialize_output_def request_tx_output_def
          sbind_Inr_iff sthen_Inr_iff sbind_sget Let_def split: prod.splits)
    from sb have "emitted sb = stream s1 @ w"
      by (simp add: emitted_def stream_def serialized_bytes_def)
    with request_sends [OF req] 2(1) show ?case by auto
  qed
qed

text \<open>The loops of phase 2 over the inputs and over the outputs start the stream with the
  header.\<close>

lemma phase2_inputs_outputs_header:
  assumes "phase2_inputs E H (s\<lparr>self_tx_req_serialized := None\<rparr>) = (Inr (), sa)"
    and "phase2_outputs E H sa = (Inr tx_ser, sb)"
    and "0 < tx_inputs_count (self_tx s)"
  shows "\<exists>rest. emitted sb = stream s @ write_tx_header E s [] @ rest"
proof -
  let ?s0 = "s\<lparr>self_tx_req_serialized := None\<rparr>"
  have e0: "emitted ?s0 = stream s" by (simp add: emitted_def stream_def serialized_bytes_def)
  have c0: "signing_context ?s0 = signing_context s" by (simp add: signing_context_def)
  from assms(3) have n: "0 < tx_inputs_count (self_tx ?s0)" by simp
  from phase2_inputs_header [OF assms(1) n] obtain x where
    "emitted sa = emitted ?s0 @ write_tx_header E ?s0 [] @ x" by blast
  with e0 write_tx_header_context [OF c0, of E "[]"]
  have "emitted sa = stream s @ write_tx_header E s [] @ x" by simp
  with phase2_outputs_grows [OF assms(2)] show ?thesis by auto
qed

text \<open>
  C5. When phase 1 and phase 2 of the Bitcoin signer complete, the serialized stream
  is what the loops over the inputs and over the outputs of phase 2 emitted, followed by
  the witnesses and by the end of the transaction, where the witnesses are: at a position
  whose input was of a segwit type in phase 1, the witness that
  \<^verbatim>\<open>phase2_sign_segwit_input\<close> returns for it; at any other position one zero byte when some
  input was segwit in phase 1; and nothing at all when none was. When the transaction has
  an input, what the two loops emitted starts with the header of the transaction, and the
  header has the segwit marker and flag (the bytes 0 and 1 before the count of the
  inputs) when some input was segwit in phase 1, and not otherwise.
\<close>

theorem witnesses_at_segwit_positions:
  assumes "self_segwit s = []"
    and "fst (phase1 Bitcoin E H U s) = Inr ()"
    and "fst (Bitcoin_phase2 E H (snd (phase1 Bitcoin E H U s))) = Inr ()"
  shows "stream (snd (Bitcoin_phase2 E H (snd (phase1 Bitcoin E H U s)))) =
           emitted (snd (phase2_outputs E H (snd (phase2_inputs E H
                      ((snd (phase1 Bitcoin E H U s))\<lparr>self_tx_req_serialized := None\<rparr>)))))
           @ spec_witnesses (\<lambda>i. input_is_segwit (phase1_input H i))
               (witness_of E H (snd (phase1 Bitcoin E H U s))) (tx_inputs_count (self_tx s))
           @ projr (write_trailer E (self_coin s) (self_tx s) [])
         \<and> (0 < tx_inputs_count (self_tx s) \<longrightarrow>
             (\<exists>rest. emitted (snd (phase2_outputs E H (snd (phase2_inputs E H
                        ((snd (phase1 Bitcoin E H U s))\<lparr>self_tx_req_serialized := None\<rparr>)))))
                      = stream (snd (phase1 Bitcoin E H U s))
                        @ write_tx_header E (snd (phase1 Bitcoin E H U s)) [] @ rest))
         \<and> write_tx_header E (snd (phase1 Bitcoin E H U s)) w =
             w @ (if \<not> BITCOIN_ONLY E \<and> coin_overwintered (self_coin s)
                  then le_bytes 4 (tx_version (self_tx s) OR OVERWINTERED E)
                       @ le_bytes 4 (tx_version_group_id (self_tx s))
                  else le_bytes 4 (tx_version (self_tx s))
                       @ (if \<not> BITCOIN_ONLY E \<and> coin_timestamp (self_coin s)
                          then le_bytes 4 (tx_timestamp (self_tx s)) else []))
               @ (if list_ex (\<lambda>i. input_is_segwit (phase1_input H i))
                       [0..<tx_inputs_count (self_tx s)] then [0, 1] else [])
               @ varint (tx_inputs_count (self_tx s))"
proof -
  let ?s1 = "snd (phase1 Bitcoin E H U s)"
  let ?n = "tx_inputs_count (self_tx s)"
  let ?seg = "\<lambda>i. input_is_segwit (phase1_input H i)"
  let ?sa = "snd (phase2_inputs E H (?s1\<lparr>self_tx_req_serialized := None\<rparr>))"
  let ?sb = "snd (phase2_outputs E H ?sa)"
  from assms(2) have p1: "phase1 Bitcoin E H U s = (Inr (), ?s1)" by (metis prod.collapse)
  from assms(3) have p2: "Bitcoin_phase2 E H ?s1 = (Inr (), snd (Bitcoin_phase2 E H ?s1))"
    by (metis prod.collapse)
  note ph = phase1_segwit [OF assms(1) p1]
  have "map (\<lambda>i. if map_of (self_segwit ?s1) i = Some True then witness_of E H ?s1 i
                  else if any_segwit ?s1 then [0] else []) [0..<?n]
      = map (\<lambda>i. if ?seg i then witness_of E H ?s1 i
                  else if list_ex ?seg [0..<?n] then [0] else []) [0..<?n]"
    by (rule map_cong) (simp_all add: ph(3,4))
  with Bitcoin_phase2_witnesses [OF p2] have 1:
    "stream (snd (Bitcoin_phase2 E H ?s1)) =
       emitted ?sb @ spec_witnesses ?seg (witness_of E H ?s1) ?n
       @ projr (write_trailer E (self_coin s) (self_tx s) [])"
    by (simp add: spec_witnesses_def ph(1,2))
  from p2 obtain tx_ser where
    st: "phase2_inputs E H (?s1\<lparr>self_tx_req_serialized := None\<rparr>) = (Inr (), ?sa)"
      "phase2_outputs E H ?sa = (Inr tx_ser, ?sb)"
    by (auto simp add: Bitcoin_phase2_def sthen_Inr_iff sbind_Inr_iff)
  have 2: "\<exists>rest. emitted ?sb = stream ?s1 @ write_tx_header E ?s1 [] @ rest" if "0 < ?n"
    using phase2_inputs_outputs_header [OF st] that by (simp add: ph(1))
  have 3: "write_tx_header E ?s1 w =
             w @ (if \<not> BITCOIN_ONLY E \<and> coin_overwintered (self_coin s)
                  then le_bytes 4 (tx_version (self_tx s) OR OVERWINTERED E)
                       @ le_bytes 4 (tx_version_group_id (self_tx s))
                  else le_bytes 4 (tx_version (self_tx s))
                       @ (if \<not> BITCOIN_ONLY E \<and> coin_timestamp (self_coin s)
                          then le_bytes 4 (tx_timestamp (self_tx s)) else []))
               @ (if list_ex ?seg [0..<?n] then [0, 1] else [])
               @ varint ?n"
    by (simp add: write_tx_header_layout ph(1,2,4))
  from 1 2 3 show ?thesis by blast
qed

lemma example_mixed_phase1:
  "self_segwit example_swap_start = []"
  "fst (phase1 Bitcoin (example_env False) example_mixed_host yes example_swap_start) = Inr ()"
  by (simp_all add: example_defs example_mixed_host_def example_swap_start_def)

lemma example_mixed_phase2:
  "fst (Bitcoin_phase2 (example_env False) example_mixed_host
         (snd (phase1 Bitcoin (example_env False) example_mixed_host yes example_swap_start)))
     = Inr ()"
  by (simp add: example_defs example_mixed_host_def example_swap_start_def)

lemma example_mixed_segwit:
  "tx_inputs_count (self_tx example_swap_start) = 2"
  "input_is_segwit (phase1_input example_mixed_host 0) = False"
  "input_is_segwit (phase1_input example_mixed_host (Suc 0)) = True"
  "self_coin example_swap_start = example_zcoin"
  "self_tx example_swap_start = example_ztx2"
  by (simp_all add: example_defs example_mixed_host_def example_swap_start_def phase1_input_def)

lemma example_mixed_stream:
  "emitted (snd (phase2_outputs (example_env False) example_mixed_host
           (snd (phase2_inputs (example_env False) example_mixed_host
             ((snd (phase1 Bitcoin (example_env False) example_mixed_host yes example_swap_start))
                \<lparr>self_tx_req_serialized := None\<rparr>)))))
     = [4, 0, 0, 128, 0, 0, 0, 0, 0, 1, 2,
        0, 0, 0, 0, 5, 44, 133, 0, 0, 0, 255, 255, 255, 255,
        0, 0, 0, 0, 6, 22, 49, 133, 0, 0, 1, 255, 255, 255, 255,
        1, 29, 0, 0, 0, 0, 0, 0, 0, 7, 118, 116, 49, 100, 101, 115, 116]"
  "witness_of (example_env False) example_mixed_host
         (snd (phase1 Bitcoin (example_env False) example_mixed_host yes example_swap_start))
         (Suc 0) = [2, 90]"
  "stream (snd (phase1 Bitcoin (example_env False) example_mixed_host yes example_swap_start))
     = []"
  by (simp_all add: example_defs example_mixed_host_def example_swap_start_def stream_def
      serialized_bytes_def emitted_def witness_of_def reply_amount_def)

theorem witnesses_at_segwit_positions_witness:
  "self_segwit example_swap_start = []
   \<and> fst (phase1 Bitcoin (example_env False) example_mixed_host yes example_swap_start) = Inr ()
   \<and> fst (Bitcoin_phase2 (example_env False) example_mixed_host
         (snd (phase1 Bitcoin (example_env False) example_mixed_host yes example_swap_start)))
       = Inr ()
   \<and> stream (snd (Bitcoin_phase2 (example_env False) example_mixed_host
         (snd (phase1 Bitcoin (example_env False) example_mixed_host yes example_swap_start))))
       = [4, 0, 0, 128, 0, 0, 0, 0, 0, 1, 2,
          0, 0, 0, 0, 5, 44, 133, 0, 0, 0, 255, 255, 255, 255,
          0, 0, 0, 0, 6, 22, 49, 133, 0, 0, 1, 255, 255, 255, 255,
          1, 29, 0, 0, 0, 0, 0, 0, 0, 7, 118, 116, 49, 100, 101, 115, 116]
         @ [0] @ [2, 90]
         @ [1, 0, 0, 0, 4, 3, 2, 1, 0, 0, 0, 0, 0, 0, 0, 0, 0, 0, 0]
   \<and> witness_of (example_env False) example_mixed_host
         (snd (phase1 Bitcoin (example_env False) example_mixed_host yes example_swap_start)) 1
       = [2, 90]
   \<and> write_tx_header (example_env False)
         (snd (phase1 Bitcoin (example_env False) example_mixed_host yes example_swap_start)) []
       = [4, 0, 0, 128, 0, 0, 0, 0, 0, 1, 2]"
proof -
  let ?E = "example_env False"
  let ?s1 = "snd (phase1 Bitcoin ?E example_mixed_host yes example_swap_start)"
  note w = witnesses_at_segwit_positions [OF example_mixed_phase1(1,2) example_mixed_phase2,
      of "[]"]
  have tr: "projr (write_trailer ?E example_zcoin example_ztx2 [])
      = [1, 0, 0, 0, 4, 3, 2, 1, 0, 0, 0, 0, 0, 0, 0, 0, 0, 0, 0]"
    by (simp add: write_trailer_def example_defs)
  have n2: "tx_inputs_count example_ztx2 = 2"
    by (simp add: example_ztx2_def example_tx_def)
  have sw: "spec_witnesses (\<lambda>i. input_is_segwit (phase1_input example_mixed_host i))
              (witness_of ?E example_mixed_host ?s1) 2
            = [0] @ [2, 90]"
    by (simp add: spec_witnesses_def upt_two example_mixed_segwit example_mixed_stream(2))
  from w [THEN conjunct1]
  have 1: "stream (snd (Bitcoin_phase2 ?E example_mixed_host ?s1))
       = [4, 0, 0, 128, 0, 0, 0, 0, 0, 1, 2,
          0, 0, 0, 0, 5, 44, 133, 0, 0, 0, 255, 255, 255, 255,
          0, 0, 0, 0, 6, 22, 49, 133, 0, 0, 1, 255, 255, 255, 255,
          1, 29, 0, 0, 0, 0, 0, 0, 0, 7, 118, 116, 49, 100, 101, 115, 116]
         @ [0] @ [2, 90]
         @ [1, 0, 0, 0, 4, 3, 2, 1, 0, 0, 0, 0, 0, 0, 0, 0, 0, 0, 0]"
    by (simp add: example_mixed_segwit(4,5) n2 sw tr example_mixed_stream(1))
  from w [THEN conjunct2, THEN conjunct2]
  have 2: "write_tx_header ?E ?s1 [] = [4, 0, 0, 128, 0, 0, 0, 0, 0, 1, 2]"
    by (simp add: example_mixed_segwit(4,5) n2 example_zcoin_def example_coin_def
        example_ztx2_def example_tx_def upt_two example_mixed_segwit varint_def le_bytes_unfold)
  from 1 2 example_mixed_phase1(1,2) example_mixed_phase2 example_mixed_stream(2)
  show ?thesis by simp
qed

end
